theory Spec2Isabelle
  imports Complex_Main "HOL-Library.Signed_Division"
begin

section \<open>Numbers of the mapping runtime\<close>

text \<open>
  The mappings compute with three kinds of number. \<open>BigInt\<close> is an unbounded integer,
  modelled by \<open>int\<close>; its \<open>div\<close> truncates toward zero and fails on a zero divisor.
  \<open>BigDecimal\<close> is an arbitrary-precision decimal, modelled by the exact rationals.
  \<open>i32\<close> values are modelled by \<open>int\<close>; the two places where the width matters are
  written out: the cast \<open>u8(decimals)\<close>, which keeps the low byte, and
  \<open>BigInt.toI32()\<close>, which reads the low four bytes of the two's-complement
  rendering and fails when a byte beyond them is not sign padding: it is the identity on
  the 32-bit range, wraps on the rest of \<open>- 2 ^ 32 .. 2 ^ 32 - 1\<close> and fails outside.
\<close>

datatype error = Thrown string | Trap string

definition andThen :: "error + 'a \<Rightarrow> ('a \<Rightarrow> error + 'b) \<Rightarrow> error + 'b" where
  "andThen r f = (case r of Inl e \<Rightarrow> Inl e | Inr x \<Rightarrow> f x)"

definition u8 :: "int \<Rightarrow> nat" where
  "u8 d = nat (d mod 256)"

definition BigInt_div :: "int \<Rightarrow> int \<Rightarrow> error + int" where
  "BigInt_div a b = (if b = 0 then Inl (Trap ''division by zero'') else Inr (a sdiv b))"

definition toI32 :: "int \<Rightarrow> error + int" where
  "toI32 n = (if - (2 ^ 32) \<le> n \<and> n < 2 ^ 32 then Inr ((n + 2 ^ 31) mod 2 ^ 32 - 2 ^ 31)
              else Inl (Trap ''overflow converting to i32''))"

definition truncZ :: "rat \<Rightarrow> int" where
  "truncZ x = (if 0 \<le> x then \<lfloor>x\<rfloor> else \<lceil>x\<rceil>)"

text \<open>
  \<open>BigDecimal.truncate(decimals)\<close> of the runtime library: drop every digit after the
  \<open>decimals\<close>-th fractional one (for a negative count, zero the lowest integer digits).
\<close>

definition BigDecimal_truncate :: "rat \<Rightarrow> int \<Rightarrow> rat" where
  "BigDecimal_truncate x decimals =
     (if 0 \<le> decimals then of_int (truncZ (x * 10 ^ nat decimals)) / 10 ^ nat decimals
      else of_int (truncZ (x / 10 ^ nat (- decimals))) * 10 ^ nat (- decimals))"

text \<open>
  \<open>BigInt.fromString(x.toString())\<close>: the decimal rendering of \<open>x\<close> reads back as an
  integer exactly when \<open>x\<close> is one.
\<close>

definition BigInt_fromString_toString :: "rat \<Rightarrow> error + int" where
  "BigInt_fromString_toString x =
     (if x = of_int \<lfloor>x\<rfloor> then Inr \<lfloor>x\<rfloor> else Inl (Trap ''BigInt.fromString''))"

fun showNat :: "nat \<Rightarrow> string" where
  "showNat n = (if n < 10 then [char_of (48 + n)]
                else showNat (n div 10) @ [char_of (48 + n mod 10)])"

declare showNat.simps [simp del]

definition showInt :: "int \<Rightarrow> string" where
  "showInt i = (if i < 0 then CHR ''-'' # showNat (nat (- i)) else showNat (nat i))"

subsection \<open>helpers/misc.ts: decimal conversion\<close>

definition tokenToDecimal :: "int \<Rightarrow> int \<Rightarrow> rat" where
  "tokenToDecimal amount decimals = of_int amount / of_int (10 ^ u8 decimals)"

definition scaleDown :: "int \<Rightarrow> int \<Rightarrow> rat" where
  "scaleDown num decimals = of_int num / of_int (10 ^ u8 decimals)"

definition scaleUp :: "rat \<Rightarrow> int \<Rightarrow> error + int" where
  "scaleUp num decimals =
     BigInt_fromString_toString (BigDecimal_truncate num decimals * of_int (10 ^ u8 decimals))"

section \<open>Entities and the store\<close>

text \<open>
  Every entity is a record of the fields the mappings under study read or write. The id
  of an entity is the key it is stored under, so the model passes the key beside the
  fields instead of repeating it inside the record. Addresses and byte strings are
  modelled by their lower-case hex rendering, which makes \<open>toHexString\<close>,
  \<open>Address.fromString\<close> and \<open>bytesToAddress\<close> identities. An array allocated with
  \<open>new Array<BigDecimal>(n)\<close> is a list of optional values, \<open>None\<close> being a slot
  that was never assigned. The setter of an array field of an entity reads every slot of
  the array it is given (\<open>Value.fromBigDecimalArray\<close>), and reading a slot that was
  never assigned aborts; so an array kept in the store has no such slot.
\<close>

record Pool =
  pool_address :: string
  pool_poolType :: "string option"
  pool_tokensList :: "string list"
  pool_totalShares :: rat
  pool_swapsCount :: int
  pool_holdersCount :: int
  pool_amp :: "int option"
  pool_lastPostJoinExitInvariant :: "rat option"
  pool_lastJoinExitAmp :: "int option"

record PoolToken =
  pt_symbol :: string
  pt_decimals :: int
  pt_balance :: rat
  pt_cashBalance :: rat
  pt_managedBalance :: rat
  pt_priceRate :: rat

record Token =
  tok_name :: string
  tok_symbol :: string
  tok_decimals :: int
  tok_address :: string
  tok_totalBalanceNotional :: rat
  tok_totalSwapCount :: int
  tok_latestFXPrice :: "rat option"
  tok_fxOracleDecimals :: int

record PoolShare =
  ps_userAddress :: string
  ps_poolId :: string
  ps_balance :: rat

record Swap =
  swap_tokenIn :: string
  swap_tokenInSym :: string
  swap_tokenAmountIn :: rat
  swap_tokenOut :: string
  swap_tokenOutSym :: string
  swap_tokenAmountOut :: rat
  swap_caller :: string
  swap_userAddress :: string
  swap_poolId :: string
  swap_timestamp :: int
  swap_tx :: string
  swap_block :: int

record JoinExit =
  je_sender :: string
  je_type :: string
  je_amounts :: "rat option list"
  je_pool :: string
  je_user :: string
  je_timestamp :: int
  je_tx :: string
  je_block :: int

record PoolSnapshot =
  snap_pool :: string
  snap_amounts :: "rat option list"
  snap_totalShares :: rat
  snap_swapsCount :: int
  snap_holdersCount :: int
  snap_timestamp :: int

record Balancer =
  bal_totalSwapCount :: int

record FXOracle =
  fx_tokens :: "string list"
  fx_decimals :: int
  fx_divisor :: "int option"

text \<open>
  The entity store, one map per entity type, and the diagnostics written with
  \<open>log.warning\<close> (format string and arguments). A nullable \<open>Int\<close> field reads as
  \<open>0\<close> when it is unset (\<open>fx_decimals\<close>, \<open>tok_fxOracleDecimals\<close>); the divisor
  of an oracle is kept as the integer its numeral string denotes.
\<close>

record store =
  pools :: "string \<rightharpoonup> Pool"
  poolTokens :: "string \<rightharpoonup> PoolToken"
  tokens :: "string \<rightharpoonup> Token"
  poolShares :: "string \<rightharpoonup> PoolShare"
  users :: "string set"
  swaps :: "string \<rightharpoonup> Swap"
  joinExits :: "string \<rightharpoonup> JoinExit"
  poolSnapshots :: "string \<rightharpoonup> PoolSnapshot"
  balancers :: "string \<rightharpoonup> Balancer"
  fxOracles :: "string \<rightharpoonup> FXOracle"
  warnings :: "(string \<times> string list) list"

definition log_warning :: "string \<Rightarrow> string list \<Rightarrow> store \<Rightarrow> store" where
  "log_warning fmt args s = s\<lparr>warnings := warnings s @ [(fmt, args)]\<rparr>"

definition Value_fromBigDecimalArray :: "rat option list \<Rightarrow> error + rat option list" where
  "Value_fromBigDecimalArray values =
     (if None \<in> set values then Inl (Trap ''Element type must be nullable if array is holey'')
      else Inr values)"

subsection \<open>helpers/misc.ts: pool tokens and snapshots\<close>

definition DAY :: int where
  "DAY = 24 * 60 * 60"

definition getPoolTokenId :: "string \<Rightarrow> string \<Rightarrow> string" where
  "getPoolTokenId poolId tokenAddress = poolId @ ''-'' @ tokenAddress"

definition loadPoolToken :: "store \<Rightarrow> string \<Rightarrow> string \<Rightarrow> PoolToken option" where
  "loadPoolToken s poolId tokenAddress = poolTokens s (getPoolTokenId poolId tokenAddress)"

definition new_PoolSnapshot :: PoolSnapshot where
  "new_PoolSnapshot = \<lparr>snap_pool = [], snap_amounts = [], snap_totalShares = 0,
     snap_swapsCount = 0, snap_holdersCount = 0, snap_timestamp = 0\<rparr>"

text \<open>
  The loop of \<open>createPoolSnapshot\<close> over \<open>tokens[i]\<close>, from index \<open>i\<close> on: a missing
  PoolToken is passed over (\<open>continue\<close>) and its slot stays unassigned.
\<close>

fun snapshotAmounts :: "store \<Rightarrow> string \<Rightarrow> string list \<Rightarrow> nat \<Rightarrow> rat option list
    \<Rightarrow> rat option list" where
  "snapshotAmounts s poolId [] i amounts = amounts"
| "snapshotAmounts s poolId (token # rest) i amounts =
     (case loadPoolToken s poolId token of
        None \<Rightarrow> snapshotAmounts s poolId rest (Suc i) amounts
      | Some poolToken \<Rightarrow>
          snapshotAmounts s poolId rest (Suc i) (amounts[i := Some (pt_balance poolToken)]))"

text \<open>
  \<open>createPoolSnapshot(pool, timestamp)\<close>, with \<open>pool.id\<close> passed as \<open>poolId\<close>. The
  guard \<open>pool == null || !pool.tokensList\<close> cannot fire: both values are non-null by
  their types. \<open>%\<close> on \<open>i32\<close> is the truncating remainder. The assignment
  \<open>snapshot.amounts = amounts\<close> aborts when the loop has passed over a token, before
  anything is saved.
\<close>

definition createPoolSnapshot :: "string \<Rightarrow> Pool \<Rightarrow> int \<Rightarrow> store \<Rightarrow> error + store" where
  "createPoolSnapshot poolId pool timestamp s =
     (let dayTimestamp = timestamp - (timestamp smod DAY);
          snapshotId = poolId @ ''-'' @ showInt dayTimestamp;
          snapshot = (case poolSnapshots s snapshotId of
                        None \<Rightarrow> new_PoolSnapshot | Some sn \<Rightarrow> sn);
          tokens = pool_tokensList pool;
          amounts = snapshotAmounts s poolId tokens 0 (replicate (length tokens) None)
      in andThen (Value_fromBigDecimalArray amounts) (\<lambda>savedAmounts.
           Inr (s\<lparr>poolSnapshots := (poolSnapshots s)(snapshotId \<mapsto>
                  snapshot\<lparr>snap_pool := poolId, snap_amounts := savedAmounts,
                    snap_totalShares := pool_totalShares pool,
                    snap_swapsCount := pool_swapsCount pool,
                    snap_holdersCount := pool_holdersCount pool,
                    snap_timestamp := dayTimestamp\<rparr>)\<rparr>)))"

section \<open>Events and external collaborators\<close>

record Event =
  ev_logIndex :: int
  ev_txHash :: string
  ev_txFrom :: string
  ev_blockNumber :: int
  ev_blockTimestamp :: int

record PoolBalanceChanged = Event +
  pbc_poolId :: string
  pbc_liquidityProvider :: string
  pbc_deltas :: "int list"
  pbc_protocolFeeAmounts :: "int list"

record PoolBalanceManaged = Event +
  pbm_poolId :: string
  pbm_token :: string
  pbm_cashDelta :: int
  pbm_managedDelta :: int

record SwapEvent = Event +
  sw_poolId :: string
  sw_tokenIn :: string
  sw_tokenOut :: string
  sw_amountIn :: int
  sw_amountOut :: int

record Transfer = Event +
  tr_address :: string
  tr_from :: string
  tr_to :: string
  tr_value :: int

record AnswerUpdated = Event +
  ans_address :: string
  ans_current :: int

text \<open>
  What the mappings import from modules that are not part of the sources under study
  (\<open>helpers/constants\<close>, \<open>helpers/pools\<close>, \<open>helpers/weighted\<close>, \<open>helpers/stable\<close>,
  \<open>poolController\<close>) and from the chain (the ERC20 calls) is a parameter of the model.
  \<open>updateAmpFactor\<close> receives the pool object and may change it, so it returns it.
\<close>

record env =
  VAULT_ADDRESS :: string
  ZERO_ADDRESS :: string
  PoolType_StablePhantom :: string
  AMP_PRECISION :: int
  SWAP_IN :: int
  SWAP_OUT :: int
  FX_ASSET_AGGREGATORS :: "(string \<times> string) list"
  hasVirtualSupply :: "Pool \<Rightarrow> bool"
  isVariableWeightPool :: "Pool \<Rightarrow> bool"
  isStableLikePool :: "Pool \<Rightarrow> bool"
  isComposableStablePool :: "Pool \<Rightarrow> bool"
  isManagedPool :: "Pool \<Rightarrow> bool"
  getPoolAddress :: "string \<Rightarrow> string"
  updatePoolWeights :: "string \<Rightarrow> store \<Rightarrow> store"
  updateAmpFactor :: "string \<Rightarrow> Pool \<Rightarrow> int \<Rightarrow> store \<Rightarrow> Pool \<times> store"
  calculateInvariant :: "int \<Rightarrow> int list \<Rightarrow> string \<Rightarrow> error + int"
  handleTransfer :: "Transfer \<Rightarrow> store \<Rightarrow> error + store"
  try_name :: "string \<Rightarrow> string option"
  try_symbol :: "string \<Rightarrow> string option"
  try_decimals :: "string \<Rightarrow> int option"

definition arrayGet :: "'a list \<Rightarrow> nat \<Rightarrow> error + 'a" where
  "arrayGet xs i = (if i < length xs then Inr (xs ! i) else Inl (Trap ''Index out of range''))"

subsection \<open>helpers/misc.ts: users, shares and tokens\<close>

definition createUserEntity :: "string \<Rightarrow> store \<Rightarrow> store" where
  "createUserEntity address s =
     (if address \<notin> users s then s\<lparr>users := insert address (users s)\<rparr> else s)"

definition getPoolShareId :: "string \<Rightarrow> string \<Rightarrow> string" where
  "getPoolShareId poolControllerAddress lpAddress = poolControllerAddress @ ''-'' @ lpAddress"

definition createPoolShareEntity :: "env \<Rightarrow> string \<Rightarrow> string \<Rightarrow> store \<Rightarrow> PoolShare \<times> store" where
  "createPoolShareEntity e poolId lpAddress s =
     (let s1 = createUserEntity lpAddress s;
          id = getPoolShareId (getPoolAddress e poolId) lpAddress;
          poolShare = \<lparr>ps_userAddress = lpAddress, ps_poolId = poolId, ps_balance = 0\<rparr>
      in (poolShare, s1\<lparr>poolShares := (poolShares s1)(id \<mapsto> poolShare)\<rparr>))"

definition getPoolShare :: "env \<Rightarrow> string \<Rightarrow> string \<Rightarrow> store \<Rightarrow> PoolShare \<times> store" where
  "getPoolShare e poolId lpAddress s =
     (case poolShares s (getPoolShareId (getPoolAddress e poolId) lpAddress) of
        None \<Rightarrow> createPoolShareEntity e poolId lpAddress s
      | Some poolShare \<Rightarrow> (poolShare, s))"

definition createToken :: "env \<Rightarrow> string \<Rightarrow> store \<Rightarrow> Token \<times> store" where
  "createToken e tokenAddress s =
     (let token = \<lparr>tok_name = (case try_name e tokenAddress of None \<Rightarrow> [] | Some n \<Rightarrow> n),
                   tok_symbol = (case try_symbol e tokenAddress of None \<Rightarrow> [] | Some n \<Rightarrow> n),
                   tok_decimals = (case try_decimals e tokenAddress of None \<Rightarrow> 0 | Some d \<Rightarrow> d),
                   tok_address = tokenAddress,
                   tok_totalBalanceNotional = 0,
                   tok_totalSwapCount = 0,
                   tok_latestFXPrice = None,
                   tok_fxOracleDecimals = 0\<rparr>
      in (token, s\<lparr>tokens := (tokens s)(tokenAddress \<mapsto> token)\<rparr>))"

definition getToken :: "env \<Rightarrow> string \<Rightarrow> store \<Rightarrow> Token \<times> store" where
  "getToken e tokenAddress s =
     (case tokens s tokenAddress of
        None \<Rightarrow> createToken e tokenAddress s
      | Some token \<Rightarrow> (token, s))"

definition uptickSwapsForToken :: "env \<Rightarrow> string \<Rightarrow> store \<Rightarrow> store" where
  "uptickSwapsForToken e tokenAddress s =
     (let (token, s1) = getToken e tokenAddress s
      in s1\<lparr>tokens := (tokens s1)(tokenAddress \<mapsto>
            token\<lparr>tok_totalSwapCount := tok_totalSwapCount token + 1\<rparr>)\<rparr>)"

definition updateTokenBalances :: "env \<Rightarrow> string \<Rightarrow> rat \<Rightarrow> int \<Rightarrow> store \<Rightarrow> store" where
  "updateTokenBalances e tokenAddress notionalBalance swapDirection s =
     (let (token, s1) = getToken e tokenAddress s;
          token1 =
            (if swapDirection = SWAP_IN e
             then token\<lparr>tok_totalBalanceNotional := tok_totalBalanceNotional token + notionalBalance\<rparr>
             else if swapDirection = SWAP_OUT e
             then token\<lparr>tok_totalBalanceNotional := tok_totalBalanceNotional token - notionalBalance\<rparr>
             else token)
      in s1\<lparr>tokens := (tokens s1)(tokenAddress \<mapsto> token1)\<rparr>)"

subsection \<open>pricing.ts: the liquidity refresh\<close>

definition updatePoolLiquidity :: "string \<Rightarrow> int \<Rightarrow> int \<Rightarrow> store \<Rightarrow> error + bool \<times> store" where
  "updatePoolLiquidity poolId block_number timestamp s =
     (case pools s poolId of
        None \<Rightarrow> Inr (False, s)
      | Some pool \<Rightarrow>
          andThen (toI32 timestamp) (\<lambda>t.
          andThen (createPoolSnapshot poolId pool t s) (\<lambda>s1. Inr (True, s1))))"

section \<open>Deposits and withdrawals\<close>

text \<open>
  The first loop of \<open>handlePoolJoined\<close>: the gross amounts of the JoinExit record. The
  loop runs over \<open>pool.tokensList\<close> and reads \<open>amounts[i]\<close>; a missing PoolToken is
  thrown, an index past the end of \<open>amounts\<close> traps. The array it fills has one slot
  per delta, so with more deltas than tokens the last slots stay unassigned and
  \<open>join.amounts = joinAmounts\<close> aborts.
\<close>

fun joinAmountsLoop :: "store \<Rightarrow> string \<Rightarrow> int list \<Rightarrow> string list \<Rightarrow> nat
    \<Rightarrow> rat option list \<Rightarrow> error + rat option list" where
  "joinAmountsLoop s poolId amounts [] i joinAmounts = Inr joinAmounts"
| "joinAmountsLoop s poolId amounts (tokenAddress # rest) i joinAmounts =
     (case loadPoolToken s poolId tokenAddress of
        None \<Rightarrow> Inl (Thrown ''poolToken not found'')
      | Some poolToken \<Rightarrow>
          andThen (arrayGet amounts i) (\<lambda>amount.
            joinAmountsLoop s poolId amounts rest (Suc i)
              (joinAmounts[i := Some (scaleDown amount (pt_decimals poolToken))])))"

text \<open>The second loop: fee-netted balances of the PoolTokens and of the Tokens.\<close>

fun joinBalancesLoop :: "env \<Rightarrow> string \<Rightarrow> int list \<Rightarrow> int list \<Rightarrow> string list \<Rightarrow> nat
    \<Rightarrow> store \<Rightarrow> error + store" where
  "joinBalancesLoop e poolId amounts protocolFeeAmounts [] i s = Inr s"
| "joinBalancesLoop e poolId amounts protocolFeeAmounts (tokenAddress # rest) i s =
     (case loadPoolToken s poolId tokenAddress of
        None \<Rightarrow> Inl (Thrown ''poolToken not found'')
      | Some poolToken \<Rightarrow>
          andThen (arrayGet amounts i) (\<lambda>amount.
          andThen (arrayGet protocolFeeAmounts i) (\<lambda>fee.
            let amountIn = amount - fee;
                tokenAmountIn = tokenToDecimal amountIn (pt_decimals poolToken);
                newBalance = pt_balance poolToken + tokenAmountIn;
                s1 = s\<lparr>poolTokens := (poolTokens s)(getPoolTokenId poolId tokenAddress \<mapsto>
                       poolToken\<lparr>pt_balance := newBalance\<rparr>)\<rparr>;
                (token, s2) = getToken e tokenAddress s1;
                s3 = s2\<lparr>tokens := (tokens s2)(tokenAddress \<mapsto>
                       token\<lparr>tok_totalBalanceNotional :=
                         tok_totalBalanceNotional token + tokenAmountIn\<rparr>)\<rparr>
            in joinBalancesLoop e poolId amounts protocolFeeAmounts rest (Suc i) s3)))"

text \<open>The third loop: the preminted amount is the delta at the pool's own address.\<close>

fun preMintedLoop :: "string \<Rightarrow> int list \<Rightarrow> string list \<Rightarrow> nat \<Rightarrow> int \<times> rat
    \<Rightarrow> error + int \<times> rat" where
  "preMintedLoop poolAddress amounts [] i acc = Inr acc"
| "preMintedLoop poolAddress amounts (tokenAddress # rest) i acc =
     (if tokenAddress = poolAddress
      then andThen (arrayGet amounts i) (\<lambda>preMintedBpt.
             preMintedLoop poolAddress amounts rest (Suc i)
               (preMintedBpt, scaleDown preMintedBpt 18))
      else preMintedLoop poolAddress amounts rest (Suc i) acc)"

definition mockTransfer :: "('a Event_scheme) \<Rightarrow> string \<Rightarrow> string \<Rightarrow> string \<Rightarrow> int \<Rightarrow> Transfer" where
  "mockTransfer event address from to val =
     \<lparr>ev_logIndex = ev_logIndex event, ev_txHash = ev_txHash event,
      ev_txFrom = ev_txFrom event, ev_blockNumber = ev_blockNumber event,
      ev_blockTimestamp = ev_blockTimestamp event,
      tr_address = address, tr_from = from, tr_to = to, tr_value = val\<rparr>"

definition handlePoolJoined :: "env \<Rightarrow> PoolBalanceChanged \<Rightarrow> store \<Rightarrow> error + store" where
  "handlePoolJoined e event s =
     (let poolId = pbc_poolId event;
          amounts = pbc_deltas event;
          protocolFeeAmounts = pbc_protocolFeeAmounts event;
          logIndex = ev_logIndex event;
          transactionHash = ev_txHash event
      in andThen (toI32 (ev_blockTimestamp event)) (\<lambda>blockTimestamp.
         case pools s poolId of
           None \<Rightarrow> Inr (log_warning ''Pool not found in handlePoolJoined: {} {}''
                          [poolId, transactionHash] s)
         | Some pool \<Rightarrow>
             let tokenAddresses = pool_tokensList pool;
                 joinId = transactionHash @ showInt logIndex
             in andThen (joinAmountsLoop s poolId amounts tokenAddresses 0
                           (replicate (length amounts) None)) (\<lambda>joinAmounts.
                andThen (Value_fromBigDecimalArray joinAmounts) (\<lambda>savedAmounts.
                let join = \<lparr>je_sender = pbc_liquidityProvider event, je_type = ''Join'',
                              je_amounts = savedAmounts, je_pool = poolId,
                              je_user = pbc_liquidityProvider event,
                              je_timestamp = blockTimestamp, je_tx = transactionHash,
                              je_block = ev_blockNumber event\<rparr>;
                    s1 = s\<lparr>joinExits := (joinExits s)(joinId \<mapsto> join)\<rparr>
                in andThen (joinBalancesLoop e poolId amounts protocolFeeAmounts
                              tokenAddresses 0 s1) (\<lambda>s2.
                   andThen
                     (if pool_poolType pool = Some (PoolType_StablePhantom e)
                         \<or> isComposableStablePool e pool \<or> isManagedPool e pool
                      then andThen (preMintedLoop (pool_address pool) amounts tokenAddresses 0
                                      (0, 0)) (\<lambda>(preMintedBpt, scaledPreMintedBpt).
                           andThen (handleTransfer e
                                      (mockTransfer event (pool_address pool) (VAULT_ADDRESS e)
                                         (ZERO_ADDRESS e) preMintedBpt) s2) (\<lambda>s3.
                             Inr (pool\<lparr>pool_totalShares :=
                                     pool_totalShares pool - scaledPreMintedBpt\<rparr>, s3)))
                      else Inr (pool, s2)) (\<lambda>(pool1, s3).
                   let s4 = s3\<lparr>pools := (pools s3)(poolId \<mapsto> pool1)\<rparr>
                   in andThen (updatePoolLiquidity poolId (ev_blockNumber event)
                                 (ev_blockTimestamp event) s4) (\<lambda>(_, s5). Inr s5)))))))"

fun exitAmountsLoop :: "store \<Rightarrow> string \<Rightarrow> int list \<Rightarrow> string list \<Rightarrow> nat
    \<Rightarrow> rat option list \<Rightarrow> error + rat option list" where
  "exitAmountsLoop s poolId amounts [] i exitAmounts = Inr exitAmounts"
| "exitAmountsLoop s poolId amounts (tokenAddress # rest) i exitAmounts =
     (case loadPoolToken s poolId tokenAddress of
        None \<Rightarrow> Inl (Thrown ''poolToken not found'')
      | Some poolToken \<Rightarrow>
          andThen (arrayGet amounts i) (\<lambda>amount.
            exitAmountsLoop s poolId amounts rest (Suc i)
              (exitAmounts[i := Some (scaleDown (- amount) (pt_decimals poolToken))])))"

fun exitBalancesLoop :: "env \<Rightarrow> string \<Rightarrow> int list \<Rightarrow> int list \<Rightarrow> string list \<Rightarrow> nat
    \<Rightarrow> store \<Rightarrow> error + store" where
  "exitBalancesLoop e poolId amounts protocolFeeAmounts [] i s = Inr s"
| "exitBalancesLoop e poolId amounts protocolFeeAmounts (tokenAddress # rest) i s =
     (case loadPoolToken s poolId tokenAddress of
        None \<Rightarrow> Inl (Thrown ''poolToken not found'')
      | Some poolToken \<Rightarrow>
          andThen (arrayGet amounts i) (\<lambda>amount.
          andThen (arrayGet protocolFeeAmounts i) (\<lambda>fee.
            let amountOut = - (amount - fee);
                tokenAmountOut = tokenToDecimal amountOut (pt_decimals poolToken);
                newBalance = pt_balance poolToken - tokenAmountOut;
                s1 = s\<lparr>poolTokens := (poolTokens s)(getPoolTokenId poolId tokenAddress \<mapsto>
                       poolToken\<lparr>pt_balance := newBalance\<rparr>)\<rparr>;
                (token, s2) = getToken e tokenAddress s1;
                s3 = s2\<lparr>tokens := (tokens s2)(tokenAddress \<mapsto>
                       token\<lparr>tok_totalBalanceNotional :=
                         tok_totalBalanceNotional token - tokenAmountOut\<rparr>)\<rparr>
            in exitBalancesLoop e poolId amounts protocolFeeAmounts rest (Suc i) s3)))"

definition handlePoolExited :: "env \<Rightarrow> PoolBalanceChanged \<Rightarrow> store \<Rightarrow> error + store" where
  "handlePoolExited e event s =
     (let poolId = pbc_poolId event;
          amounts = pbc_deltas event;
          protocolFeeAmounts = pbc_protocolFeeAmounts event;
          logIndex = ev_logIndex event;
          transactionHash = ev_txHash event
      in andThen (toI32 (ev_blockTimestamp event)) (\<lambda>blockTimestamp.
         case pools s poolId of
           None \<Rightarrow> Inr (log_warning ''Pool not found in handlePoolExited: {} {}''
                          [poolId, transactionHash] s)
         | Some pool \<Rightarrow>
             let tokenAddresses = pool_tokensList pool;
                 exitId = transactionHash @ showInt logIndex
             in andThen (exitAmountsLoop s poolId amounts tokenAddresses 0
                           (replicate (length amounts) None)) (\<lambda>exitAmounts.
                andThen (Value_fromBigDecimalArray exitAmounts) (\<lambda>savedAmounts.
                let exit = \<lparr>je_sender = pbc_liquidityProvider event, je_type = ''Exit'',
                              je_amounts = savedAmounts, je_pool = poolId,
                              je_user = pbc_liquidityProvider event,
                              je_timestamp = blockTimestamp, je_tx = transactionHash,
                              je_block = ev_blockNumber event\<rparr>;
                    s1 = s\<lparr>joinExits := (joinExits s)(exitId \<mapsto> exit)\<rparr>
                in andThen (exitBalancesLoop e poolId amounts protocolFeeAmounts
                              tokenAddresses 0 s1) (\<lambda>s2.
                   andThen (updatePoolLiquidity poolId (ev_blockNumber event)
                              (ev_blockTimestamp event) s2) (\<lambda>(_, s3). Inr s3))))))"

definition handleBalanceChange :: "env \<Rightarrow> PoolBalanceChanged \<Rightarrow> store \<Rightarrow> error + store" where
  "handleBalanceChange e event s =
     (let amounts = pbc_deltas event
      in if length amounts = 0 then Inr s
         else let total = foldl (\<lambda>sum amount. sum + amount) 0 amounts
              in if total > 0 then handlePoolJoined e event s
                 else handlePoolExited e event s)"

section \<open>Investments\<close>

definition handleBalanceManage :: "env \<Rightarrow> PoolBalanceManaged \<Rightarrow> store \<Rightarrow> error + store" where
  "handleBalanceManage e event s =
     (let poolId = pbm_poolId event
      in case pools s poolId of
           None \<Rightarrow> Inr (log_warning ''Pool not found in handleBalanceManage: {}'' [poolId] s)
         | Some pool \<Rightarrow>
             let tokenAddress = pbm_token event;
                 cashDelta = pbm_cashDelta event;
                 managedDelta = pbm_managedDelta event
             in (case loadPoolToken s poolId tokenAddress of
                  None \<Rightarrow> Inl (Thrown ''poolToken not found'')
                | Some poolToken \<Rightarrow>
                    let cashDeltaAmount = tokenToDecimal cashDelta (pt_decimals poolToken);
                        managedDeltaAmount = tokenToDecimal managedDelta (pt_decimals poolToken);
                        deltaAmount = cashDeltaAmount + managedDeltaAmount;
                        s1 = s\<lparr>poolTokens := (poolTokens s)(getPoolTokenId poolId tokenAddress \<mapsto>
                               poolToken\<lparr>pt_balance := pt_balance poolToken + deltaAmount,
                                 pt_cashBalance := pt_cashBalance poolToken + cashDeltaAmount,
                                 pt_managedBalance :=
                                   pt_managedBalance poolToken + managedDeltaAmount\<rparr>)\<rparr>;
                        (token, s2) = getToken e tokenAddress s1
                    in Inr (s2\<lparr>tokens := (tokens s2)(tokenAddress \<mapsto>
                              token\<lparr>tok_totalBalanceNotional :=
                                tok_totalBalanceNotional token + deltaAmount\<rparr>)\<rparr>)))"

section \<open>Swaps\<close>

text \<open>Weights and amplification factors change over time and are refreshed first.\<close>

definition refreshPool :: "env \<Rightarrow> string \<Rightarrow> Pool \<Rightarrow> int \<Rightarrow> store \<Rightarrow> Pool \<times> store" where
  "refreshPool e poolId pool timestamp s =
     (if isVariableWeightPool e pool then (pool, updatePoolWeights e poolId s)
      else if isStableLikePool e pool then updateAmpFactor e poolId pool timestamp s
      else (pool, s))"

text \<open>
  A swap of the pool's own share token on a pool with preminted shares is a mint or a
  burn: \<open>totalShares\<close> of the pool object and the vault's PoolShare move together.
\<close>

definition adjustVaultShare :: "env \<Rightarrow> string \<Rightarrow> rat \<Rightarrow> store \<Rightarrow> store" where
  "adjustVaultShare e poolId change s =
     (let (vaultPoolShare, s1) = getPoolShare e poolId (VAULT_ADDRESS e) s;
          vaultPoolShareBalance = ps_balance vaultPoolShare + change
      in s1\<lparr>poolShares := (poolShares s1)
            (getPoolShareId (getPoolAddress e poolId) (VAULT_ADDRESS e) \<mapsto>
               vaultPoolShare\<lparr>ps_balance := vaultPoolShareBalance\<rparr>)\<rparr>)"

definition virtualSupply :: "env \<Rightarrow> SwapEvent \<Rightarrow> string \<Rightarrow> Pool \<Rightarrow> store \<Rightarrow> Pool \<times> store" where
  "virtualSupply e event poolId pool s =
     (if hasVirtualSupply e pool then
        let (pool1, s1) =
              (if sw_tokenIn event = pool_address pool then
                 let scaledAmount = tokenToDecimal (sw_amountIn event) 18
                 in (pool\<lparr>pool_totalShares := pool_totalShares pool - scaledAmount\<rparr>,
                     adjustVaultShare e poolId (- scaledAmount) s)
               else (pool, s))
        in (if sw_tokenOut event = pool_address pool1 then
              let scaledAmount = tokenToDecimal (sw_amountOut event) 18
              in (pool1\<lparr>pool_totalShares := pool_totalShares pool1 + scaledAmount\<rparr>,
                  adjustVaultShare e poolId scaledAmount s1)
            else (pool1, s1))
      else (pool, s))"

text \<open>
  The balances that enter the invariant of a composable stable pool: every token of the
  pool but its own share token, at 18 decimals and multiplied by its price rate.
\<close>

fun invariantBalances :: "store \<Rightarrow> string \<Rightarrow> string \<Rightarrow> string list \<Rightarrow> int list
    \<Rightarrow> error + int list" where
  "invariantBalances s poolId poolAddress [] balances = Inr balances"
| "invariantBalances s poolId poolAddress (tokenAddress # rest) balances =
     (if tokenAddress = poolAddress
      then invariantBalances s poolId poolAddress rest balances
      else case loadPoolToken s poolId tokenAddress of
             None \<Rightarrow> Inl (Thrown ''poolToken not found'')
           | Some poolToken \<Rightarrow>
               andThen (scaleUp (pt_balance poolToken * pt_priceRate poolToken) 18) (\<lambda>balance.
                 invariantBalances s poolId poolAddress rest (balances @ [balance])))"

definition joinExitInvariant :: "env \<Rightarrow> string \<Rightarrow> string \<Rightarrow> Pool \<Rightarrow> store \<Rightarrow> error + Pool" where
  "joinExitInvariant e swapId poolId pool s =
     andThen (invariantBalances s poolId (pool_address pool) (pool_tokensList pool) [])
       (\<lambda>balances.
          case pool_amp pool of
            None \<Rightarrow> Inr pool
          | Some a \<Rightarrow>
              andThen (calculateInvariant e (a * AMP_PRECISION e) balances swapId)
                (\<lambda>invariantInt.
                   Inr (pool\<lparr>pool_lastPostJoinExitInvariant := Some (scaleDown invariantInt 18),
                          pool_lastJoinExitAmp := pool_amp pool\<rparr>)))"

text \<open>
  The part of \<open>handleSwapEvent\<close> after both PoolTokens were found, in three steps.
  First the two balances are saved; both PoolTokens were loaded before either is saved.
\<close>

definition saveSwapBalances :: "SwapEvent \<Rightarrow> string \<Rightarrow> PoolToken \<Rightarrow> PoolToken \<Rightarrow> store \<Rightarrow> store" where
  "saveSwapBalances event poolId poolTokenIn poolTokenOut s =
     (let tokenAmountIn = scaleDown (sw_amountIn event) (pt_decimals poolTokenIn);
          tokenAmountOut = scaleDown (sw_amountOut event) (pt_decimals poolTokenOut);
          s1 = s\<lparr>poolTokens := (poolTokens s)(getPoolTokenId poolId (sw_tokenIn event) \<mapsto>
                 poolTokenIn\<lparr>pt_balance := pt_balance poolTokenIn + tokenAmountIn\<rparr>)\<rparr>
      in s1\<lparr>poolTokens := (poolTokens s1)(getPoolTokenId poolId (sw_tokenOut event) \<mapsto>
            poolTokenOut\<lparr>pt_balance := pt_balance poolTokenOut - tokenAmountOut\<rparr>)\<rparr>)"

text \<open>Then the invariant of a composable stable pool, when its share token is swapped.\<close>

definition refreshInvariant :: "env \<Rightarrow> SwapEvent \<Rightarrow> string \<Rightarrow> Pool \<Rightarrow> store \<Rightarrow> error + Pool" where
  "refreshInvariant e event poolId pool s =
     (let swapId = ev_txHash event @ showInt (ev_logIndex event);
          isJoinExitSwap = (pool_address pool = sw_tokenIn event
                            \<or> pool_address pool = sw_tokenOut event)
      in if isJoinExitSwap \<and> isComposableStablePool e pool
         then joinExitInvariant e swapId poolId pool s else Inr pool)"

text \<open>
  Last the Swap entity and the counters. The handler returns before the liquidity
  refresh when one of the two scaled amounts is zero.
\<close>

definition recordSwap :: "env \<Rightarrow> SwapEvent \<Rightarrow> string \<Rightarrow> Pool \<Rightarrow> PoolToken \<Rightarrow> PoolToken \<Rightarrow> int
    \<Rightarrow> store \<Rightarrow> error + store" where
  "recordSwap e event poolId pool poolTokenIn poolTokenOut blockTimestamp s =
     (let tokenInAddress = sw_tokenIn event;
          tokenOutAddress = sw_tokenOut event;
          tokenAmountIn = scaleDown (sw_amountIn event) (pt_decimals poolTokenIn);
          tokenAmountOut = scaleDown (sw_amountOut event) (pt_decimals poolTokenOut);
          swapId = ev_txHash event @ showInt (ev_logIndex event);
          swap = \<lparr>swap_tokenIn = tokenInAddress, swap_tokenInSym = pt_symbol poolTokenIn,
                   swap_tokenAmountIn = tokenAmountIn, swap_tokenOut = tokenOutAddress,
                   swap_tokenOutSym = pt_symbol poolTokenOut,
                   swap_tokenAmountOut = tokenAmountOut, swap_caller = ev_txFrom event,
                   swap_userAddress = ev_txFrom event, swap_poolId = poolId,
                   swap_timestamp = blockTimestamp, swap_tx = ev_txHash event,
                   swap_block = ev_blockNumber event\<rparr>;
          s1 = s\<lparr>swaps := (swaps s)(swapId \<mapsto> swap)\<rparr>;
          s2 = s1\<lparr>pools := (pools s1)(poolId \<mapsto>
                 pool\<lparr>pool_swapsCount := pool_swapsCount pool + 1\<rparr>)\<rparr>
      in case balancers s2 ''2'' of
           None \<Rightarrow> Inl (Trap ''unexpected null'')
         | Some vault \<Rightarrow>
             let s3 = s2\<lparr>balancers := (balancers s2)(''2'' \<mapsto>
                        vault\<lparr>bal_totalSwapCount := bal_totalSwapCount vault + 1\<rparr>)\<rparr>;
                 s4 = uptickSwapsForToken e tokenInAddress s3;
                 s5 = uptickSwapsForToken e tokenOutAddress s4;
                 s6 = updateTokenBalances e tokenInAddress tokenAmountIn (SWAP_IN e) s5;
                 s7 = updateTokenBalances e tokenOutAddress tokenAmountOut (SWAP_OUT e) s6
             in if tokenAmountOut = 0 \<or> tokenAmountIn = 0 then Inr s7
                else andThen (updatePoolLiquidity poolId (ev_blockNumber event)
                                (ev_blockTimestamp event) s7) (\<lambda>(_, s8). Inr s8))"

definition swapBody :: "env \<Rightarrow> SwapEvent \<Rightarrow> string \<Rightarrow> Pool \<Rightarrow> PoolToken \<Rightarrow> PoolToken \<Rightarrow> int
    \<Rightarrow> store \<Rightarrow> error + store" where
  "swapBody e event poolId pool poolTokenIn poolTokenOut blockTimestamp s =
     (let s1 = saveSwapBalances event poolId poolTokenIn poolTokenOut s
      in andThen (refreshInvariant e event poolId pool s1) (\<lambda>pool1.
           recordSwap e event poolId pool1 poolTokenIn poolTokenOut blockTimestamp s1))"

definition handleSwapEvent :: "env \<Rightarrow> SwapEvent \<Rightarrow> store \<Rightarrow> error + store" where
  "handleSwapEvent e event s =
     (let s0 = createUserEntity (ev_txFrom event) s;
          poolId = sw_poolId event
      in case pools s0 poolId of
           None \<Rightarrow> Inr (log_warning ''Pool not found in handleSwapEvent: {}'' [poolId] s0)
         | Some pool0 \<Rightarrow>
             let (pool1, s1) = refreshPool e poolId pool0 (ev_blockTimestamp event) s0;
                 (pool2, s2) = virtualSupply e event poolId pool1 s1
             in andThen (toI32 (ev_blockTimestamp event)) (\<lambda>blockTimestamp.
                (case loadPoolToken s2 poolId (sw_tokenIn event) of
                   None \<Rightarrow>
                     Inr (log_warning
                            ''PoolToken not found in handleSwapEvent: (tokenIn: {}), (tokenOut: {})''
                            [sw_tokenIn event, sw_tokenOut event] s2)
                 | Some poolTokenIn \<Rightarrow>
                     (case loadPoolToken s2 poolId (sw_tokenOut event) of
                        None \<Rightarrow>
                          Inr (log_warning
                                 ''PoolToken not found in handleSwapEvent: (tokenIn: {}), (tokenOut: {})''
                                 [sw_tokenIn event, sw_tokenOut event] s2)
                      | Some poolTokenOut \<Rightarrow>
                          swapBody e event poolId pool2 poolTokenIn poolTokenOut
                            blockTimestamp s2))))"

section \<open>Oracle answers\<close>

definition XAU_TOKEN :: string where
  "XAU_TOKEN = ''0xc8bb8eda94931ca2f20ef43ea7dbd58e68400400''"

text \<open>The tokens of the static table whose aggregator is the one that reported.\<close>

fun aggregatorTokens :: "(string \<times> string) list \<Rightarrow> string \<Rightarrow> string list \<Rightarrow> string list" where
  "aggregatorTokens [] aggregatorAddress acc = acc"
| "aggregatorTokens (row # rest) aggregatorAddress acc =
     aggregatorTokens rest aggregatorAddress
       (if aggregatorAddress = snd row then acc @ [fst row] else acc)"

text \<open>The tokens registered with the FXOracle entity, each added once.\<close>

fun oracleTokens :: "string list \<Rightarrow> string list \<Rightarrow> string list" where
  "oracleTokens [] acc = acc"
| "oracleTokens (tokenAddress # rest) acc =
     oracleTokens rest (if tokenAddress \<in> set acc then acc else acc @ [tokenAddress])"

definition latestFXPriceOf :: "FXOracle option \<Rightarrow> int \<Rightarrow> string \<Rightarrow> error + rat" where
  "latestFXPriceOf oracle answer tokenAddress =
     (if tokenAddress = XAU_TOKEN then
        andThen (BigInt_div (answer * 100000000) 3110347680) (\<lambda>pricePerGram.
          Inr (scaleDown pricePerGram 8))
      else if oracle \<noteq> None \<and> fx_divisor (the oracle) \<noteq> None \<and> fx_decimals (the oracle) \<noteq> 0 then
        andThen (BigInt_div (answer * 10 ^ u8 (fx_decimals (the oracle)))
                   (the (fx_divisor (the oracle)))) (\<lambda>updatedAnswer.
          Inr (scaleDown updatedAnswer 8))
      else Inr (scaleDown answer 8))"

text \<open>One round of the loop over the tokens to update.\<close>

definition updateTokenPrice :: "FXOracle option \<Rightarrow> int \<Rightarrow> string \<Rightarrow> store \<Rightarrow> error + store" where
  "updateTokenPrice oracle answer tokenAddress s =
     (case tokens s tokenAddress of
        None \<Rightarrow> Inr (log_warning ''Token with address {} not found'' [tokenAddress] s)
      | Some token0 \<Rightarrow>
          let token = (if tok_fxOracleDecimals token0 = 0
                       then token0\<lparr>tok_fxOracleDecimals := 8\<rparr> else token0)
          in andThen (latestFXPriceOf oracle answer tokenAddress) (\<lambda>price.
               Inr (s\<lparr>tokens := (tokens s)(tokenAddress \<mapsto>
                      token\<lparr>tok_latestFXPrice := Some price\<rparr>)\<rparr>)))"

fun updateTokenPrices :: "FXOracle option \<Rightarrow> int \<Rightarrow> string list \<Rightarrow> store \<Rightarrow> error + store" where
  "updateTokenPrices oracle answer [] s = Inr s"
| "updateTokenPrices oracle answer (tokenAddress # rest) s =
     andThen (updateTokenPrice oracle answer tokenAddress s)
       (updateTokenPrices oracle answer rest)"

definition tokenAddressesToUpdate :: "env \<Rightarrow> string \<Rightarrow> store \<Rightarrow> string list" where
  "tokenAddressesToUpdate e aggregatorAddress s =
     (let fromTable = aggregatorTokens (FX_ASSET_AGGREGATORS e) aggregatorAddress []
      in case fxOracles s aggregatorAddress of
           None \<Rightarrow> fromTable
         | Some oracle \<Rightarrow> oracleTokens (fx_tokens oracle) fromTable)"

definition handleAnswerUpdated :: "env \<Rightarrow> AnswerUpdated \<Rightarrow> store \<Rightarrow> error + store" where
  "handleAnswerUpdated e event s =
     (let aggregatorAddress = ans_address event;
          answer = ans_current event;
          oracle = fxOracles s aggregatorAddress;
          toUpdate = tokenAddressesToUpdate e aggregatorAddress s;
          s1 = (case oracle of
                  None \<Rightarrow> log_warning ''Oracle not found: {}'' [aggregatorAddress] s
                | Some _ \<Rightarrow> s)
      in updateTokenPrices oracle answer toUpdate s1)"

section \<open>Reference values and fixtures\<close>

text \<open>
  What a snapshot is expected to hold: for each token of the pool, in the order of
  \<open>tokensList\<close>, the balance of its PoolToken, or nothing where there is none.
\<close>

definition balanceOf :: "store \<Rightarrow> string \<Rightarrow> string \<Rightarrow> rat option" where
  "balanceOf s poolId tokenAddress = map_option pt_balance (loadPoolToken s poolId tokenAddress)"

definition snapshotOf :: "store \<Rightarrow> string \<Rightarrow> Pool \<Rightarrow> int \<Rightarrow> PoolSnapshot" where
  "snapshotOf s poolId pool day =
     \<lparr>snap_pool = poolId, snap_amounts = map (balanceOf s poolId) (pool_tokensList pool),
      snap_totalShares = pool_totalShares pool, snap_swapsCount = pool_swapsCount pool,
      snap_holdersCount = pool_holdersCount pool, snap_timestamp = day\<rparr>"

definition balanceSplitHolds :: "PoolToken \<Rightarrow> bool" where
  "balanceSplitHolds poolToken \<longleftrightarrow>
     pt_balance poolToken = pt_cashBalance poolToken + pt_managedBalance poolToken"

definition poolTokenAfter :: "error + store \<Rightarrow> string \<Rightarrow> string \<Rightarrow> PoolToken option" where
  "poolTokenAfter r poolId tokenAddress =
     (case r of Inl err \<Rightarrow> None | Inr s \<Rightarrow> loadPoolToken s poolId tokenAddress)"

text \<open>
  A small world to run the handlers in: collaborators that do nothing beyond their
  contract, a weighted pool \<open>P\<close> with a 6-decimal token \<open>A\<close> and an 18-decimal token
  \<open>B\<close>, and PoolTokens as \<open>createPoolTokenEntity\<close> leaves them.
\<close>

definition env0 :: env where
  "env0 = \<lparr>VAULT_ADDRESS = ''0xba'', ZERO_ADDRESS = ''0x00'',
     PoolType_StablePhantom = ''StablePhantom'', AMP_PRECISION = 1000,
     SWAP_IN = 0, SWAP_OUT = 1, FX_ASSET_AGGREGATORS = [],
     hasVirtualSupply = (\<lambda>p. pool_poolType p = Some ''ComposableStable''),
     isVariableWeightPool = (\<lambda>p. pool_poolType p = Some ''LiquidityBootstrapping''),
     isStableLikePool = (\<lambda>p. pool_poolType p = Some ''ComposableStable''),
     isComposableStablePool = (\<lambda>p. pool_poolType p = Some ''ComposableStable''),
     isManagedPool = (\<lambda>p. pool_poolType p = Some ''Managed''),
     getPoolAddress = take 4,
     updatePoolWeights = (\<lambda>poolId s. s),
     updateAmpFactor = (\<lambda>poolId pool timestamp s. (pool, s)),
     calculateInvariant = (\<lambda>amp balances swapId. Inr (sum_list balances)),
     handleTransfer = (\<lambda>event s. Inr (createUserEntity (tr_to event) s)),
     try_name = (\<lambda>a. None), try_symbol = (\<lambda>a. None), try_decimals = (\<lambda>a. None)\<rparr>"

definition emptyStore :: store where
  "emptyStore = \<lparr>pools = Map.empty, poolTokens = Map.empty, tokens = Map.empty,
     poolShares = Map.empty, users = {}, swaps = Map.empty, joinExits = Map.empty,
     poolSnapshots = Map.empty, balancers = Map.empty, fxOracles = Map.empty, warnings = []\<rparr>"

definition freshPoolToken :: "string \<Rightarrow> int \<Rightarrow> PoolToken" where
  "freshPoolToken symbol decimals = \<lparr>pt_symbol = symbol, pt_decimals = decimals, pt_balance = 0,
     pt_cashBalance = 0, pt_managedBalance = 0, pt_priceRate = 1\<rparr>"

definition poolP :: Pool where
  "poolP = \<lparr>pool_address = ''0xpp'', pool_poolType = Some ''Weighted'',
     pool_tokensList = [''0xaa'', ''0xbb''], pool_totalShares = 0, pool_swapsCount = 0,
     pool_holdersCount = 0, pool_amp = None, pool_lastPostJoinExitInvariant = None,
     pool_lastJoinExitAmp = None\<rparr>"

definition storeP :: store where
  "storeP = emptyStore\<lparr>pools := [''0xpp01'' \<mapsto> poolP],
     poolTokens := [''0xpp01-0xaa'' \<mapsto> freshPoolToken ''A'' 6,
                    ''0xpp01-0xbb'' \<mapsto> freshPoolToken ''B'' 18],
     balancers := [''2'' \<mapsto> \<lparr>bal_totalSwapCount = 0\<rparr>]\<rparr>"

definition joinP :: PoolBalanceChanged where
  "joinP = \<lparr>ev_logIndex = 7, ev_txHash = ''0xt1'', ev_txFrom = ''0xu1'', ev_blockNumber = 10,
     ev_blockTimestamp = 90000, pbc_poolId = ''0xpp01'', pbc_liquidityProvider = ''0xu1'',
     pbc_deltas = [1000000, 2000000000000000000], pbc_protocolFeeAmounts = [0, 0]\<rparr>"

definition manageP :: PoolBalanceManaged where
  "manageP = \<lparr>ev_logIndex = 8, ev_txHash = ''0xt2'', ev_txFrom = ''0xu2'', ev_blockNumber = 11,
     ev_blockTimestamp = 90100, pbm_poolId = ''0xpp01'', pbm_token = ''0xaa'',
     pbm_cashDelta = - 500000, pbm_managedDelta = 500000\<rparr>"

text \<open>A store in which token \<open>B\<close> of pool \<open>P\<close> has lost its PoolToken.\<close>

definition storeNoB :: store where
  "storeNoB = emptyStore\<lparr>pools := [''0xpp01'' \<mapsto> poolP],
     poolTokens := [''0xpp01-0xaa'' \<mapsto> (freshPoolToken ''A'' 6)\<lparr>pt_balance := 5\<rparr>]\<rparr>"

text \<open>
  A token after an oracle answer: the oracle decimals default to 8 and the price is set.
\<close>

definition pricedToken :: "Token \<Rightarrow> rat \<Rightarrow> Token" where
  "pricedToken token price =
     (if tok_fxOracleDecimals token = 0 then token\<lparr>tok_fxOracleDecimals := 8\<rparr> else token)
       \<lparr>tok_latestFXPrice := Some price\<rparr>"

text \<open>An oracle with 10 decimals and no divisor, one known token and one unknown.\<close>

definition storeO :: store where
  "storeO = emptyStore\<lparr>
     fxOracles := [''0xagg'' \<mapsto> \<lparr>fx_tokens = [''0xeur'', ''0xnone''], fx_decimals = 10, fx_divisor = None\<rparr>],
     tokens := [''0xeur'' \<mapsto> \<lparr>tok_name = ''Euro'', tok_symbol = ''EUR'', tok_decimals = 6,
        tok_address = ''0xeur'', tok_totalBalanceNotional = 0, tok_totalSwapCount = 0,
        tok_latestFXPrice = None, tok_fxOracleDecimals = 0\<rparr>]\<rparr>"

definition answerO :: AnswerUpdated where
  "answerO = \<lparr>ev_logIndex = 1, ev_txHash = ''0xt3'', ev_txFrom = ''0xu3'', ev_blockNumber = 12,
     ev_blockTimestamp = 90200, ans_address = ''0xagg'', ans_current = 123456789\<rparr>"

text \<open>
  The share balance the store holds under an id; an absent PoolShare counts as zero.
\<close>

definition shareBalance :: "store \<Rightarrow> string \<Rightarrow> rat" where
  "shareBalance s shareId = (case poolShares s shareId of None \<Rightarrow> 0 | Some poolShare \<Rightarrow> ps_balance poolShare)"

text \<open>
  The Token entity \<open>getToken\<close> returns: the stored one, or the one it creates.
\<close>

definition tokenOrNew :: "env \<Rightarrow> store \<Rightarrow> string \<Rightarrow> Token" where
  "tokenOrNew e s tokenAddress = fst (getToken e tokenAddress s)"

text \<open>
  The contract of the collaborators a swap calls: the weight refresh writes pools only,
  the amplification refresh writes pools only and changes at most \<open>amp\<close> of the pool
  object, and the invariant computation returns.
\<close>

definition refresh_contract :: "env \<Rightarrow> bool" where
  "refresh_contract e \<longleftrightarrow>
     (\<forall>poolId s. \<exists>ps. updatePoolWeights e poolId s = s\<lparr>pools := ps\<rparr>)
     \<and> (\<forall>poolId pool t s. \<exists>a ps.
           updateAmpFactor e poolId pool t s = (pool\<lparr>pool_amp := a\<rparr>, s\<lparr>pools := ps\<rparr>))
     \<and> (\<forall>amp balances swapId. \<exists>v. calculateInvariant e amp balances swapId = Inr v)"

text \<open>
  The change of \<open>totalShares\<close> a swap makes on a pool with preminted shares: the
  amount in is burnt when the share token comes in, the amount out is minted when it
  goes out.
\<close>

definition shareDelta :: "env \<Rightarrow> SwapEvent \<Rightarrow> Pool \<Rightarrow> rat" where
  "shareDelta e event pool =
     (if hasVirtualSupply e pool
      then (if sw_tokenIn event = pool_address pool then - tokenToDecimal (sw_amountIn event) 18 else 0)
         + (if sw_tokenOut event = pool_address pool then tokenToDecimal (sw_amountOut event) 18 else 0)
      else 0)"

text \<open>
  A Token after one swap: one more swap counted, the notional balance moved by \<open>change\<close>.
\<close>

definition countedToken :: "env \<Rightarrow> store \<Rightarrow> string \<Rightarrow> rat \<Rightarrow> Token" where
  "countedToken e s tokenAddress change =
     (tokenOrNew e s tokenAddress)
       \<lparr>tok_totalSwapCount := tok_totalSwapCount (tokenOrNew e s tokenAddress) + 1,
        tok_totalBalanceNotional := tok_totalBalanceNotional (tokenOrNew e s tokenAddress) + change\<rparr>"

text \<open>
  The store after the counters of a swap were written: both PoolToken balances, the
  Swap entity, the pool, the protocol-wide counter and both Tokens.
\<close>

definition swappedStore :: "env \<Rightarrow> SwapEvent \<Rightarrow> Pool \<Rightarrow> PoolToken \<Rightarrow> PoolToken \<Rightarrow> Balancer
    \<Rightarrow> store \<Rightarrow> store" where
  "swappedStore e event pool poolTokenIn poolTokenOut vault s =
     s\<lparr>poolTokens := (poolTokens s)
          (getPoolTokenId (sw_poolId event) (sw_tokenIn event) \<mapsto>
             poolTokenIn\<lparr>pt_balance := pt_balance poolTokenIn
                + scaleDown (sw_amountIn event) (pt_decimals poolTokenIn)\<rparr>,
           getPoolTokenId (sw_poolId event) (sw_tokenOut event) \<mapsto>
             poolTokenOut\<lparr>pt_balance := pt_balance poolTokenOut
                - scaleDown (sw_amountOut event) (pt_decimals poolTokenOut)\<rparr>),
       swaps := (swaps s)(ev_txHash event @ showInt (ev_logIndex event) \<mapsto>
          \<lparr>swap_tokenIn = sw_tokenIn event, swap_tokenInSym = pt_symbol poolTokenIn,
           swap_tokenAmountIn = scaleDown (sw_amountIn event) (pt_decimals poolTokenIn),
           swap_tokenOut = sw_tokenOut event, swap_tokenOutSym = pt_symbol poolTokenOut,
           swap_tokenAmountOut = scaleDown (sw_amountOut event) (pt_decimals poolTokenOut),
           swap_caller = ev_txFrom event, swap_userAddress = ev_txFrom event,
           swap_poolId = sw_poolId event, swap_timestamp = ev_blockTimestamp event,
           swap_tx = ev_txHash event, swap_block = ev_blockNumber event\<rparr>),
       pools := (pools s)(sw_poolId event \<mapsto> pool),
       balancers := (balancers s)(''2'' \<mapsto>
          vault\<lparr>bal_totalSwapCount := bal_totalSwapCount vault + 1\<rparr>),
       tokens := (tokens s)
          (sw_tokenIn event \<mapsto> countedToken e s (sw_tokenIn event)
             (scaleDown (sw_amountIn event) (pt_decimals poolTokenIn)),
           sw_tokenOut event \<mapsto> countedToken e s (sw_tokenOut event)
             (- scaleDown (sw_amountOut event) (pt_decimals poolTokenOut)))\<rparr>"

text \<open>
  The pool a swap saves: refreshed \<open>amp\<close>, adjusted \<open>totalShares\<close>, the invariant
  fields and one more swap counted.
\<close>

definition swappedPool :: "env \<Rightarrow> SwapEvent \<Rightarrow> Pool \<Rightarrow> int option \<Rightarrow> rat option \<Rightarrow> int option
    \<Rightarrow> Pool" where
  "swappedPool e event pool a x y =
     pool\<lparr>pool_amp := a,
          pool_totalShares := pool_totalShares pool + shareDelta e event (pool\<lparr>pool_amp := a\<rparr>),
          pool_lastPostJoinExitInvariant := x, pool_lastJoinExitAmp := y,
          pool_swapsCount := pool_swapsCount pool + 1\<rparr>"

text \<open>The pool a handler leaves in the store, if it returns.\<close>

definition poolAfter :: "error + store \<Rightarrow> string \<Rightarrow> Pool option" where
  "poolAfter r poolId = (case r of Inl err \<Rightarrow> None | Inr s \<Rightarrow> pools s poolId)"

text \<open>A swap on pool \<open>P\<close> whose amount out is zero.\<close>

definition swapZ :: SwapEvent where
  "swapZ = \<lparr>ev_logIndex = 3, ev_txHash = ''0xt4'', ev_txFrom = ''0xu1'', ev_blockNumber = 13,
     ev_blockTimestamp = 90000, sw_poolId = ''0xpp01'', sw_tokenIn = ''0xaa'',
     sw_tokenOut = ''0xbb'', sw_amountIn = 1000000, sw_amountOut = 0\<rparr>"

text \<open>The share balance a handler leaves under an id, if it returns.\<close>

definition shareBalanceAfter :: "error + store \<Rightarrow> string \<Rightarrow> rat option" where
  "shareBalanceAfter r shareId =
     (case r of Inl err \<Rightarrow> None | Inr s \<Rightarrow> Some (shareBalance s shareId))"

text \<open>
  A composable stable pool \<open>C\<close> whose own share token is the first of its two tokens,
  and a mint and a burn of the same 7 shares.
\<close>

definition poolC :: Pool where
  "poolC = \<lparr>pool_address = ''0xcc'', pool_poolType = Some ''ComposableStable'',
     pool_tokensList = [''0xcc'', ''0xaa''], pool_totalShares = 10, pool_swapsCount = 0,
     pool_holdersCount = 0, pool_amp = Some 100, pool_lastPostJoinExitInvariant = None,
     pool_lastJoinExitAmp = None\<rparr>"

definition storeC :: store where
  "storeC = emptyStore\<lparr>pools := [''0xcc01'' \<mapsto> poolC],
     poolTokens := [''0xcc01-0xcc'' \<mapsto> freshPoolToken ''BPT'' 18,
                    ''0xcc01-0xaa'' \<mapsto> freshPoolToken ''A'' 6],
     balancers := [''2'' \<mapsto> \<lparr>bal_totalSwapCount = 0\<rparr>]\<rparr>"

definition mintC :: SwapEvent where
  "mintC = \<lparr>ev_logIndex = 1, ev_txHash = ''0xt5'', ev_txFrom = ''0xu1'', ev_blockNumber = 14,
     ev_blockTimestamp = 90300, sw_poolId = ''0xcc01'', sw_tokenIn = ''0xaa'',
     sw_tokenOut = ''0xcc'', sw_amountIn = 5000000, sw_amountOut = 7000000000000000000\<rparr>"

definition burnC :: SwapEvent where
  "burnC = \<lparr>ev_logIndex = 2, ev_txHash = ''0xt6'', ev_txFrom = ''0xu1'', ev_blockNumber = 15,
     ev_blockTimestamp = 90400, sw_poolId = ''0xcc01'', sw_tokenIn = ''0xcc'',
     sw_tokenOut = ''0xaa'', sw_amountIn = 7000000000000000000, sw_amountOut = 4000000\<rparr>"



text \<open>
  The contract of the share-transfer handler: it returns, and writes pools, pool shares,
  users and diagnostics only.
\<close>

definition transfer_contract :: "env \<Rightarrow> bool" where
  "transfer_contract e \<longleftrightarrow>
     (\<forall>event s. \<exists>ps sh us ws.
        handleTransfer e event s = Inr (s\<lparr>pools := ps, poolShares := sh, users := us, warnings := ws\<rparr>))"

text \<open>The decimals recorded with a PoolToken.\<close>

definition decimalsOf :: "store \<Rightarrow> string \<Rightarrow> string \<Rightarrow> int" where
  "decimalsOf s poolId tokenAddress =
     (case loadPoolToken s poolId tokenAddress of None \<Rightarrow> 0 | Some poolToken \<Rightarrow> pt_decimals poolToken)"

text \<open>The first join of pool \<open>C\<close>: 5 preminted shares and 3 units of token \<open>A\<close>.\<close>

definition joinC :: PoolBalanceChanged where
  "joinC = \<lparr>ev_logIndex = 5, ev_txHash = ''0xt9'', ev_txFrom = ''0xu1'', ev_blockNumber = 9,
     ev_blockTimestamp = 89000, pbc_poolId = ''0xcc01'', pbc_liquidityProvider = ''0xu1'',
     pbc_deltas = [5000000000000000000, 3000000], pbc_protocolFeeAmounts = [0, 0]\<rparr>"

text \<open>Pool \<open>P\<close> with balance \<open>x\<close> of token \<open>A\<close> and \<open>y\<close> of token \<open>B\<close>.\<close>

definition storeD :: "rat \<Rightarrow> rat \<Rightarrow> store" where
  "storeD x y = emptyStore\<lparr>pools := [''0xpp01'' \<mapsto> poolP],
     poolTokens := [''0xpp01-0xaa'' \<mapsto> (freshPoolToken ''A'' 6)\<lparr>pt_balance := x\<rparr>,
                    ''0xpp01-0xbb'' \<mapsto> (freshPoolToken ''B'' 18)\<lparr>pt_balance := y\<rparr>]\<rparr>"

text \<open>
  The store of pool \<open>P\<close> with a Token entity for \<open>A\<close> that has a history, and none for \<open>B\<close>.
\<close>

definition tokenA :: Token where
  "tokenA = \<lparr>tok_name = ''Token A'', tok_symbol = ''A'', tok_decimals = 6, tok_address = ''0xaa'',
     tok_totalBalanceNotional = 10, tok_totalSwapCount = 4, tok_latestFXPrice = None,
     tok_fxOracleDecimals = 0\<rparr>"

definition storeT :: store where
  "storeT = storeP\<lparr>tokens := [''0xaa'' \<mapsto> tokenA]\<rparr>"


text \<open>A swap on pool \<open>P\<close> with both amounts non-zero.\<close>

definition swapN :: SwapEvent where
  "swapN = swapZ\<lparr>sw_amountOut := 2000000000000000000\<rparr>"

text \<open>The same oracle with 2 decimals and divisor 4.\<close>

definition storeV :: store where
  "storeV = storeO\<lparr>fxOracles := [''0xagg'' \<mapsto>
     \<lparr>fx_tokens = [''0xeur'', ''0xnone''], fx_decimals = 2, fx_divisor = Some 4\<rparr>]\<rparr>"

lemmas fixture_defs =
  env0_def emptyStore_def freshPoolToken_def poolP_def storeP_def joinP_def manageP_def
  storeNoB_def

section \<open>Decimal conversion\<close>

lemma u8_id: "0 \<le> d \<Longrightarrow> d < 256 \<Longrightarrow> u8 d = nat d"
  by (simp add: u8_def)

lemma u8_le: "0 \<le> d \<Longrightarrow> u8 d \<le> nat d"
  unfolding u8_def by (smt (verit) nat_mono zmod_le_nonneg_dividend)

lemma truncZ_of_int: "truncZ (of_int n) = n"
  by (simp add: truncZ_def)

lemma fromString_of_int: "BigInt_fromString_toString (of_int n) = Inr n"
  by (simp add: BigInt_fromString_toString_def)

lemma scaleUp_trunc:
  assumes "0 \<le> d" "d < 256"
  shows "scaleUp x d = Inr (truncZ (x * 10 ^ nat d))"
proof -
  have "BigDecimal_truncate x d * of_int (10 ^ u8 d) = of_int (truncZ (x * 10 ^ nat d))"
    using assms by (simp add: BigDecimal_truncate_def u8_id)
  then show ?thesis
    by (simp add: scaleUp_def fromString_of_int)
qed

lemma truncate_exact:
  assumes "k \<le> n"
  shows "of_int (truncZ (of_int r / of_int (10 ^ k) * 10 ^ n)) / (10 ^ n :: rat)
           = of_int r / of_int (10 ^ k)"
proof -
  obtain m where n: "n = k + m"
    using assms le_Suc_ex by blast
  have "(of_int r / of_int (10 ^ k) * 10 ^ n :: rat) = of_int (r * 10 ^ m)"
    by (simp add: n power_add)
  then have "truncZ (of_int r / of_int (10 ^ k) * 10 ^ n) = r * 10 ^ m"
    using truncZ_of_int by metis
  then show ?thesis by (simp add: n power_add)
qed

lemma scaleUp_scaleDown:
  assumes "0 \<le> d"
  shows "scaleUp (scaleDown r d) d = Inr r"
proof -
  have "BigDecimal_truncate (scaleDown r d) d = of_int r / of_int (10 ^ u8 d)"
    using assms truncate_exact [OF u8_le [OF assms], of r]
    by (simp add: BigDecimal_truncate_def scaleDown_def)
  then have "BigDecimal_truncate (scaleDown r d) d * of_int (10 ^ u8 d) = of_int r"
    by simp
  then show ?thesis
    by (simp only: scaleUp_def fromString_of_int)
qed

text \<open>
  C7. \<open>scaleUp\<close> cuts its argument toward zero at \<open>decimals\<close> fractional digits and
  scales by \<open>10 ^ decimals\<close>: the result is the integer part, toward zero, of
  \<open>x * 10 ^ decimals\<close>. \<open>scaleDown\<close> divides exactly, so scaling a raw integer down
  and up again gives it back. Here \<open>decimals\<close> is a count of digits; the code casts it
  to \<open>u8\<close>, so the scaling factor is \<open>10 ^ decimals\<close> up to 255. The round trip holds
  for every count from 0 on.
\<close>

theorem scaleUp_truncates_and_inverts_scaleDown:
  "0 \<le> d \<Longrightarrow>
     scaleUp (scaleDown r d) d = Inr r
     \<and> (d < 256 \<longrightarrow> scaleUp x d = Inr (truncZ (x * 10 ^ nat d))
                     \<and> scaleDown r d * 10 ^ nat d = of_int r)"
proof -
  assume d: "0 \<le> d"
  have "d < 256 \<longrightarrow> scaleDown r d * 10 ^ nat d = of_int r"
    using d by (simp add: scaleDown_def u8_id)
  then show ?thesis
    using d scaleUp_scaleDown [of d r] scaleUp_trunc [of d x] by blast
qed

theorem scaleUp_truncates_and_inverts_scaleDown_witness:
  "scaleUp (scaleDown 12345 2) 2 = Inr 12345
   \<and> scaleUp (1575 / 1000) 2 = Inr 157
   \<and> scaleUp (- 1575 / 1000) 2 = Inr (- 157)"
  using scaleUp_truncates_and_inverts_scaleDown [of 2 12345 "1575 / 1000"]
    scaleUp_truncates_and_inverts_scaleDown [of 2 12345 "- 1575 / 1000"]
  by (simp add: truncZ_def floor_eq_iff ceiling_eq_iff)

section \<open>Snapshots\<close>

lemma snapshotAmounts_gen:
  "length acc = i + length toks \<Longrightarrow> (\<forall>j. i \<le> j \<and> j < length acc \<longrightarrow> acc ! j = None) \<Longrightarrow>
   snapshotAmounts s poolId toks i acc = take i acc @ map (balanceOf s poolId) toks"
proof (induction toks arbitrary: i acc)
  case Nil
  then show ?case by simp
next
  case (Cons t rest)
  have i: "i < length acc" using Cons.prems(1) by simp
  show ?case
  proof (cases "loadPoolToken s poolId t")
    case None
    have "snapshotAmounts s poolId rest (Suc i) acc
            = take (Suc i) acc @ map (balanceOf s poolId) rest"
      using Cons.prems by (intro Cons.IH) auto
    moreover have "acc ! i = None" using Cons.prems(2) i by simp
    ultimately show ?thesis
      using None i by (simp add: take_Suc_conv_app_nth balanceOf_def)
  next
    case (Some pt)
    let ?acc = "acc[i := Some (pt_balance pt)]"
    have "snapshotAmounts s poolId rest (Suc i) ?acc
            = take (Suc i) ?acc @ map (balanceOf s poolId) rest"
      using Cons.prems by (intro Cons.IH) auto
    then show ?thesis
      using Some i by (simp add: take_Suc_conv_app_nth balanceOf_def)
  qed
qed

lemma snapshotAmounts_eq:
  "snapshotAmounts s poolId toks 0 (replicate (length toks) None) = map (balanceOf s poolId) toks"
  using snapshotAmounts_gen [of "replicate (length toks) None" 0 toks s poolId] by simp

lemma snapshot_overwrite:
  "sn\<lparr>snap_pool := a, snap_amounts := b, snap_totalShares := c, snap_swapsCount := d,
      snap_holdersCount := e, snap_timestamp := f\<rparr> =
   \<lparr>snap_pool = a, snap_amounts = b, snap_totalShares = c, snap_swapsCount = d,
      snap_holdersCount = e, snap_timestamp = f\<rparr>"
  by (cases sn) simp

lemma smod_DAY: "0 \<le> t \<Longrightarrow> t smod DAY = t mod 86400"
  by (simp add: DAY_def signed_modulo_int_def sgn_if)

lemma balances_holey:
  "None \<in> set (map (balanceOf s poolId) toks) \<longleftrightarrow> (\<exists>a \<in> set toks. loadPoolToken s poolId a = None)"
  by (auto simp add: balanceOf_def)

lemma createPoolSnapshot_eq:
  assumes "\<forall>a \<in> set (pool_tokensList pool). loadPoolToken s poolId a \<noteq> None"
  shows "createPoolSnapshot poolId pool t s =
     Inr (s\<lparr>poolSnapshots := (poolSnapshots s)(poolId @ ''-'' @ showInt (t - (t smod DAY)) \<mapsto>
         snapshotOf s poolId pool (t - (t smod DAY)))\<rparr>)"
proof -
  have "Value_fromBigDecimalArray (map (balanceOf s poolId) (pool_tokensList pool))
          = Inr (map (balanceOf s poolId) (pool_tokensList pool))"
    unfolding Value_fromBigDecimalArray_def balances_holey using assms by simp
  then show ?thesis
    by (cases "poolSnapshots s (poolId @ ''-'' @ showInt (t - (t smod DAY)))")
       (simp_all add: createPoolSnapshot_def Let_def snapshotAmounts_eq snapshotOf_def
          snapshot_overwrite andThen_def)
qed

lemma createPoolSnapshot_holey:
  assumes "\<exists>a \<in> set (pool_tokensList pool). loadPoolToken s poolId a = None"
  shows "createPoolSnapshot poolId pool t s =
     Inl (Trap ''Element type must be nullable if array is holey'')"
proof -
  have "Value_fromBigDecimalArray (map (balanceOf s poolId) (pool_tokensList pool))
          = Inl (Trap ''Element type must be nullable if array is holey'')"
    unfolding Value_fromBigDecimalArray_def balances_holey using assms by simp
  then show ?thesis
    by (simp add: createPoolSnapshot_def Let_def snapshotAmounts_eq andThen_def)
qed

lemma createPoolSnapshot_frame:
  assumes "createPoolSnapshot poolId pool t s = Inr s'"
  shows "s' = s\<lparr>poolSnapshots := poolSnapshots s'\<rparr>"
    and "\<forall>a \<in> set (pool_tokensList pool). loadPoolToken s poolId a \<noteq> None"
proof -
  show p: "\<forall>a \<in> set (pool_tokensList pool). loadPoolToken s poolId a \<noteq> None"
  proof (rule ccontr)
    assume "\<not> (\<forall>a \<in> set (pool_tokensList pool). loadPoolToken s poolId a \<noteq> None)"
    then have "\<exists>a \<in> set (pool_tokensList pool). loadPoolToken s poolId a = None"
      by simp
    from createPoolSnapshot_holey [OF this, of t] assms show False
      by simp
  qed
  show "s' = s\<lparr>poolSnapshots := poolSnapshots s'\<rparr>"
    using assms unfolding createPoolSnapshot_eq [OF p] by auto
qed

text \<open>
  C6. For a pool whose tokens all have PoolTokens and a timestamp \<open>t\<close>, the refresh
  computes \<open>day = t - t mod 86400\<close> and writes the one snapshot with key
  \<open>poolId-day\<close>, changing nothing else: its amounts are the current balances of the
  pool's tokens, and \<open>totalShares\<close>, \<open>swapsCount\<close>, \<open>holdersCount\<close> are those of
  the pool. A second refresh at \<open>t'\<close> on the same day, after the balances and the pool
  have changed (store \<open>s'\<close>, pool \<open>pool'\<close>), leaves the snapshots as they were before
  the first refresh plus that one snapshot, which holds the values of the second call
  only, one balance per token.
\<close>

theorem createPoolSnapshot_upsert:
  assumes "0 \<le> t" "0 \<le> t'" "t' div 86400 = t div 86400"
    and "\<forall>a \<in> set (pool_tokensList pool). loadPoolToken s poolId a \<noteq> None"
    and "\<forall>a \<in> set (pool_tokensList pool'). loadPoolToken s' poolId a \<noteq> None"
    and "map_sum id poolSnapshots (createPoolSnapshot poolId pool t s) = Inr (poolSnapshots s')"
  shows "createPoolSnapshot poolId pool t s =
       Inr (s\<lparr>poolSnapshots := (poolSnapshots s)(poolId @ ''-'' @ showInt (t - t mod 86400) \<mapsto>
          \<lparr>snap_pool = poolId,
           snap_amounts = map (\<lambda>a. map_option pt_balance (loadPoolToken s poolId a))
                            (pool_tokensList pool),
           snap_totalShares = pool_totalShares pool, snap_swapsCount = pool_swapsCount pool,
           snap_holdersCount = pool_holdersCount pool, snap_timestamp = t - t mod 86400\<rparr>)\<rparr>)
     \<and> createPoolSnapshot poolId pool' t' s' =
       Inr (s'\<lparr>poolSnapshots := (poolSnapshots s)(poolId @ ''-'' @ showInt (t - t mod 86400) \<mapsto>
          \<lparr>snap_pool = poolId,
           snap_amounts = map (\<lambda>a. map_option pt_balance (loadPoolToken s' poolId a))
                            (pool_tokensList pool'),
           snap_totalShares = pool_totalShares pool', snap_swapsCount = pool_swapsCount pool',
           snap_holdersCount = pool_holdersCount pool', snap_timestamp = t - t mod 86400\<rparr>)\<rparr>)
     \<and> None \<notin> set (map (\<lambda>a. map_option pt_balance (loadPoolToken s' poolId a))
                            (pool_tokensList pool'))"
proof -
  have day: "t' - t' mod 86400 = t - t mod 86400"
    using assms(3) by (simp add: minus_mod_eq_mult_div)
  have b: "balanceOf s poolId = (\<lambda>a. map_option pt_balance (loadPoolToken s poolId a))"
    "balanceOf s' poolId = (\<lambda>a. map_option pt_balance (loadPoolToken s' poolId a))"
    by (simp_all add: balanceOf_def fun_eq_iff)
  have first: "createPoolSnapshot poolId pool t s =
      Inr (s\<lparr>poolSnapshots := (poolSnapshots s)(poolId @ ''-'' @ showInt (t - t mod 86400) \<mapsto>
         snapshotOf s poolId pool (t - t mod 86400))\<rparr>)"
    using assms(1) by (simp add: createPoolSnapshot_eq [OF assms(4)] smod_DAY)
  have between: "poolSnapshots s' = (poolSnapshots s)(poolId @ ''-'' @ showInt (t - t mod 86400) \<mapsto>
         snapshotOf s poolId pool (t - t mod 86400))"
    using assms(6) unfolding first by simp
  have second: "createPoolSnapshot poolId pool' t' s' =
      Inr (s'\<lparr>poolSnapshots := (poolSnapshots s)(poolId @ ''-'' @ showInt (t - t mod 86400) \<mapsto>
         snapshotOf s' poolId pool' (t - t mod 86400))\<rparr>)"
    using assms(2) day by (simp add: createPoolSnapshot_eq [OF assms(5)] smod_DAY between)
  have full: "None \<notin> set (map (balanceOf s' poolId) (pool_tokensList pool'))"
    unfolding balances_holey using assms(5) by simp
  show ?thesis
    using first second full by (simp only: snapshotOf_def b simp_thms)
qed

theorem createPoolSnapshot_upsert_witness:
  "createPoolSnapshot ''0xpp01'' poolP 86400 (storeD 5 7) =
     Inr ((storeD 5 7)\<lparr>poolSnapshots := [''0xpp01'' @ ''-'' @ showInt 86400 \<mapsto>
        \<lparr>snap_pool = ''0xpp01'', snap_amounts = [Some 5, Some 7],
         snap_totalShares = 0, snap_swapsCount = 0, snap_holdersCount = 0,
         snap_timestamp = 86400\<rparr>]\<rparr>)
   \<and> createPoolSnapshot ''0xpp01'' (poolP\<lparr>pool_swapsCount := 3\<rparr>) 86500
       ((storeD 9 7)\<lparr>poolSnapshots := [''0xpp01'' @ ''-'' @ showInt 86400 \<mapsto>
        \<lparr>snap_pool = ''0xpp01'', snap_amounts = [Some 5, Some 7],
         snap_totalShares = 0, snap_swapsCount = 0, snap_holdersCount = 0,
         snap_timestamp = 86400\<rparr>]\<rparr>) =
     Inr ((storeD 9 7)\<lparr>poolSnapshots := [''0xpp01'' @ ''-'' @ showInt 86400 \<mapsto>
        \<lparr>snap_pool = ''0xpp01'', snap_amounts = [Some 9, Some 7],
         snap_totalShares = 0, snap_swapsCount = 3, snap_holdersCount = 0,
         snap_timestamp = 86400\<rparr>]\<rparr>)"
  using createPoolSnapshot_upsert [where t = 86400 and t' = 86500 and poolId = "''0xpp01''"
      and pool = poolP and s = "storeD 5 7" and pool' = "poolP\<lparr>pool_swapsCount := 3\<rparr>"
      and s' = "(storeD 9 7)\<lparr>poolSnapshots := [''0xpp01'' @ ''-'' @ showInt 86400 \<mapsto>
        \<lparr>snap_pool = ''0xpp01'', snap_amounts = [Some 5, Some 7],
         snap_totalShares = 0, snap_swapsCount = 0, snap_holdersCount = 0,
         snap_timestamp = 86400\<rparr>]\<rparr>"]
  by (simp add: fixture_defs storeD_def loadPoolToken_def getPoolTokenId_def createPoolSnapshot_def
      Let_def Value_fromBigDecimalArray_def andThen_def new_PoolSnapshot_def DAY_def
      signed_modulo_int_def)

lemma joinAmountsLoop_missing:
  "\<exists>a \<in> set toks. loadPoolToken s poolId a = None \<Longrightarrow>
   \<exists>err. joinAmountsLoop s poolId amounts toks i acc = Inl err"
proof (induction toks arbitrary: i acc)
  case Nil
  then show ?case by simp
next
  case (Cons t rest)
  show ?case
  proof (cases "loadPoolToken s poolId t")
    case None
    then show ?thesis by simp
  next
    case (Some pt)
    with Cons.prems have "\<exists>a \<in> set rest. loadPoolToken s poolId a = None" by auto
    from Cons.IH [OF this] show ?thesis
      using Some by (cases "arrayGet amounts i") (simp_all add: andThen_def)
  qed
qed

lemma exitAmountsLoop_missing:
  "\<exists>a \<in> set toks. loadPoolToken s poolId a = None \<Longrightarrow>
   \<exists>err. exitAmountsLoop s poolId amounts toks i acc = Inl err"
proof (induction toks arbitrary: i acc)
  case Nil
  then show ?case by simp
next
  case (Cons t rest)
  show ?case
  proof (cases "loadPoolToken s poolId t")
    case None
    then show ?thesis by simp
  next
    case (Some pt)
    with Cons.prems have "\<exists>a \<in> set rest. loadPoolToken s poolId a = None" by auto
    from Cons.IH [OF this] show ?thesis
      using Some by (cases "arrayGet amounts i") (simp_all add: andThen_def)
  qed
qed

lemma join_fatal:
  assumes "pools s (pbc_poolId ev) = Some pool"
    and "\<exists>a \<in> set (pool_tokensList pool). loadPoolToken s (pbc_poolId ev) a = None"
  shows "\<exists>err. handlePoolJoined e ev s = Inl err"
proof (cases "toI32 (ev_blockTimestamp ev)")
  case (Inl x)
  then show ?thesis by (simp add: handlePoolJoined_def andThen_def)
next
  case (Inr ts)
  obtain err where "joinAmountsLoop s (pbc_poolId ev) (pbc_deltas ev) (pool_tokensList pool) 0
      (replicate (length (pbc_deltas ev)) None) = Inl err"
    using joinAmountsLoop_missing [OF assms(2)] by blast
  then show ?thesis
    using Inr assms(1) by (simp add: handlePoolJoined_def andThen_def)
qed

lemma exit_fatal:
  assumes "pools s (pbc_poolId ev) = Some pool"
    and "\<exists>a \<in> set (pool_tokensList pool). loadPoolToken s (pbc_poolId ev) a = None"
  shows "\<exists>err. handlePoolExited e ev s = Inl err"
proof (cases "toI32 (ev_blockTimestamp ev)")
  case (Inl x)
  then show ?thesis by (simp add: handlePoolExited_def andThen_def)
next
  case (Inr ts)
  obtain err where "exitAmountsLoop s (pbc_poolId ev) (pbc_deltas ev) (pool_tokensList pool) 0
      (replicate (length (pbc_deltas ev)) None) = Inl err"
    using exitAmountsLoop_missing [OF assms(2)] by blast
  then show ?thesis
    using Inr assms(1) by (simp add: handlePoolExited_def andThen_def)
qed

text \<open>
  C10. Pool \<open>P\<close> in a store where its token \<open>B\<close> has no PoolToken: the loop of
  \<open>createPoolSnapshot\<close> passes over \<open>B\<close>, and the assignment of the array with the
  unassigned slot aborts, so the snapshot is not written and the liquidity refresh fails.
  A join on the same store fails as well, at the explicit \<open>throw\<close>.
\<close>

theorem createPoolSnapshot_missing_PoolToken:
  "createPoolSnapshot ''0xpp01'' poolP 90000 storeNoB =
     Inl (Trap ''Element type must be nullable if array is holey'')
   \<and> updatePoolLiquidity ''0xpp01'' 10 90000 storeNoB =
     Inl (Trap ''Element type must be nullable if array is holey'')
   \<and> handleBalanceChange env0 joinP storeNoB = Inl (Thrown ''poolToken not found'')"
  by (simp add: fixture_defs loadPoolToken_def getPoolTokenId_def createPoolSnapshot_def
      updatePoolLiquidity_def toI32_def handleBalanceChange_def handlePoolJoined_def
      arrayGet_def
      Let_def Value_fromBigDecimalArray_def andThen_def new_PoolSnapshot_def DAY_def
      signed_modulo_int_def)

section \<open>Balance management\<close>

text \<open>
  C3, as the code has it. A PoolBalanceManaged event on an existing pool and PoolToken
  adds the scaled cash delta to \<open>cashBalance\<close>, the scaled managed delta to
  \<open>managedBalance\<close> and their sum to \<open>balance\<close>. So \<open>balance = cashBalance +
  managedBalance\<close> holds after the event exactly when it held before it.
\<close>

theorem handleBalanceManage_keeps_difference:
  assumes "pools s (pbm_poolId ev) = Some pool"
    and "loadPoolToken s (pbm_poolId ev) (pbm_token ev) = Some pt"
  shows "\<exists>s' pt'. handleBalanceManage e ev s = Inr s'
           \<and> loadPoolToken s' (pbm_poolId ev) (pbm_token ev) = Some pt'
           \<and> pt_cashBalance pt' = pt_cashBalance pt + tokenToDecimal (pbm_cashDelta ev) (pt_decimals pt)
           \<and> pt_managedBalance pt' =
               pt_managedBalance pt + tokenToDecimal (pbm_managedDelta ev) (pt_decimals pt)
           \<and> pt_balance pt' = pt_balance pt + (tokenToDecimal (pbm_cashDelta ev) (pt_decimals pt)
               + tokenToDecimal (pbm_managedDelta ev) (pt_decimals pt))
           \<and> (balanceSplitHolds pt' \<longleftrightarrow> balanceSplitHolds pt)"
proof (cases "tokens s (pbm_token ev)")
  case None
  then show ?thesis
    using assms
    by (simp add: handleBalanceManage_def Let_def loadPoolToken_def getToken_def createToken_def
        balanceSplitHolds_def)
next
  case (Some tok)
  then show ?thesis
    using assms
    by (simp add: handleBalanceManage_def Let_def loadPoolToken_def getToken_def
        balanceSplitHolds_def)
qed

lemmas eval_defs =
  andThen_def toI32_def Let_def loadPoolToken_def getPoolTokenId_def arrayGet_def
  scaleDown_def tokenToDecimal_def u8_def getToken_def createToken_def createUserEntity_def
  updatePoolLiquidity_def createPoolSnapshot_def log_warning_def poolTokenAfter_def
  Value_fromBigDecimalArray_def new_PoolSnapshot_def DAY_def signed_modulo_int_def

theorem handleBalanceManage_keeps_difference_witness:
  "\<exists>s' pt'. handleBalanceManage env0 manageP storeP = Inr s'
      \<and> loadPoolToken s' ''0xpp01'' ''0xaa'' = Some pt'
      \<and> pt_cashBalance pt' = - 1 / 2 \<and> pt_managedBalance pt' = 1 / 2 \<and> pt_balance pt' = 0
      \<and> balanceSplitHolds pt'"
  using handleBalanceManage_keeps_difference [where s = storeP and ev = manageP and e = env0
      and pool = poolP and pt = "freshPoolToken ''A'' 6"]
  by (simp add: fixture_defs eval_defs balanceSplitHolds_def)

text \<open>
  The equation does not hold in every state the handlers reach: a join raises \<open>balance\<close>
  alone, and the PoolBalanceManaged event that follows leaves \<open>balance = 1\<close> beside
  \<open>cashBalance + managedBalance = 0\<close>.
\<close>

theorem balance_split_counterexample:
  "map_option balanceSplitHolds
     (poolTokenAfter (andThen (handleBalanceChange env0 joinP storeP)
                        (handleBalanceManage env0 manageP)) ''0xpp01'' ''0xaa'') = Some False"
  by (simp add: handleBalanceChange_def handlePoolJoined_def handleBalanceManage_def
      fixture_defs eval_defs balanceSplitHolds_def)

section \<open>Oracle prices\<close>

lemma pricedToken_idem: "pricedToken (pricedToken token p) p = pricedToken token p"
  by (simp add: pricedToken_def)

lemma updateTokenPrice_eq:
  assumes "latestFXPriceOf oracle answer a = Inr p"
  shows "updateTokenPrice oracle answer a s =
     Inr (case tokens s a of
            None \<Rightarrow> log_warning ''Token with address {} not found'' [a] s
          | Some token \<Rightarrow> s\<lparr>tokens := (tokens s)(a \<mapsto> pricedToken token p)\<rparr>)"
  using assms
  by (simp add: updateTokenPrice_def andThen_def Let_def pricedToken_def split: option.splits)

lemma updateTokenPrices_effect:
  assumes "\<forall>a. latestFXPriceOf oracle answer a = Inr (f a)"
  shows "\<exists>s'. updateTokenPrices oracle answer toks s = Inr s'
     \<and> (\<forall>a. tokens s' a = (if a \<in> set toks then map_option (\<lambda>t. pricedToken t (f a)) (tokens s a)
                             else tokens s a))
     \<and> set (warnings s) \<subseteq> set (warnings s')
     \<and> (\<forall>a \<in> set toks. tokens s a = None \<longrightarrow>
            (''Token with address {} not found'', [a]) \<in> set (warnings s'))"
proof (induction toks arbitrary: s)
  case Nil
  then show ?case by simp
next
  case (Cons t rest)
  let ?s1 = "case tokens s t of
            None \<Rightarrow> log_warning ''Token with address {} not found'' [t] s
          | Some token \<Rightarrow> s\<lparr>tokens := (tokens s)(t \<mapsto> pricedToken token (f t))\<rparr>"
  have step: "updateTokenPrice oracle answer t s = Inr ?s1"
    using assms updateTokenPrice_eq by blast
  have tok1: "tokens ?s1 a = (if a = t then map_option (\<lambda>tk. pricedToken tk (f a)) (tokens s a) else tokens s a)" for a
    by (cases "tokens s t") (simp_all add: log_warning_def)
  have warn1: "set (warnings s) \<subseteq> set (warnings ?s1)"
    by (cases "tokens s t") (auto simp add: log_warning_def)
  have warn2: "tokens s t = None \<Longrightarrow> (''Token with address {} not found'', [t]) \<in> set (warnings ?s1)"
    by (simp add: log_warning_def)
  obtain s' where s': "updateTokenPrices oracle answer rest ?s1 = Inr s'"
    and toks': "\<And>a. tokens s' a = (if a \<in> set rest then map_option (\<lambda>t. pricedToken t (f a)) (tokens ?s1 a)
                             else tokens ?s1 a)"
    and warn': "set (warnings ?s1) \<subseteq> set (warnings s')"
    and miss': "\<And>a. a \<in> set rest \<Longrightarrow> tokens ?s1 a = None \<Longrightarrow>
            (''Token with address {} not found'', [a]) \<in> set (warnings s')"
    using Cons.IH [of ?s1] by blast
  have run: "updateTokenPrices oracle answer (t # rest) s = Inr s'"
    using step s' by (simp add: andThen_def)
  have toks: "tokens s' a = (if a \<in> set (t # rest) then map_option (\<lambda>t. pricedToken t (f a)) (tokens s a)
                             else tokens s a)" for a
  proof (cases "tokens s a")
    case None
    then show ?thesis
      by (simp only: toks' [of a] tok1 [of a]) simp
  next
    case (Some tk)
    then show ?thesis
      by (simp only: toks' [of a] tok1 [of a]) (simp add: pricedToken_idem)
  qed
  have warn: "set (warnings s) \<subseteq> set (warnings s')"
    using warn1 warn' by (rule subset_trans)
  have miss: "(''Token with address {} not found'', [a]) \<in> set (warnings s')"
    if "a \<in> set (t # rest)" "tokens s a = None" for a
  proof (cases "a = t")
    case True
    then show ?thesis using warn2 that(2) warn' by blast
  next
    case False
    then have "a \<in> set rest" using that(1) by simp
    moreover have "tokens ?s1 a = None"
      using False that(2) by (simp only: tok1 [of a]) simp
    ultimately show ?thesis by (rule miss')
  qed
  show ?case
    using run toks warn miss by blast
qed

lemma latestFXPriceOf_total:
  assumes "\<forall>orc dv. oracle = Some orc \<and> fx_divisor orc = Some dv \<longrightarrow> dv \<noteq> 0"
  shows "\<exists>p. latestFXPriceOf oracle answer a = Inr p"
  using assms by (auto simp add: latestFXPriceOf_def BigInt_div_def andThen_def)

text \<open>
  C8. On an answer update of an oracle whose divisor, if it has one, is not zero, the
  handler returns without error. A token to update with no Token entity stays absent and
  a diagnostic is logged, whatever the other tokens are. A token to update that has a
  Token entity and is not the precious-metal token gets
  \<open>latestFXPrice = answer * 10 ^ decimals / divisor\<close> scaled down by 8 places when the
  oracle has both a divisor and (non-zero) decimals, and \<open>answer\<close> scaled down by 8
  places otherwise; there the oracle's decimals are taken to be a byte, as the cast to
  \<open>u8\<close> requires.
\<close>

theorem handleAnswerUpdated_prices:
  assumes "\<forall>orc dv. fxOracles s (ans_address ev) = Some orc \<and> fx_divisor orc = Some dv \<longrightarrow> dv \<noteq> 0"
  shows "\<exists>s'. handleAnswerUpdated e ev s = Inr s'
     \<and> (\<forall>b \<in> set (tokenAddressesToUpdate e (ans_address ev) s). tokens s b = None \<longrightarrow>
           tokens s' b = None
           \<and> (''Token with address {} not found'', [b]) \<in> set (warnings s'))
     \<and> (\<forall>a \<in> set (tokenAddressesToUpdate e (ans_address ev) s). \<forall>token.
           a \<noteq> XAU_TOKEN \<and> tokens s a = Some token
           \<and> (\<forall>orc. fxOracles s (ans_address ev) = Some orc \<and> fx_divisor orc \<noteq> None \<longrightarrow>
                  0 \<le> fx_decimals orc \<and> fx_decimals orc < 256) \<longrightarrow>
           (\<exists>token'. tokens s' a = Some token'
              \<and> tok_latestFXPrice token' = Some
                (case fxOracles s (ans_address ev) of
                   None \<Rightarrow> of_int (ans_current ev) / 10 ^ 8
                 | Some orc \<Rightarrow>
                     (case fx_divisor orc of
                        None \<Rightarrow> of_int (ans_current ev) / 10 ^ 8
                      | Some dv \<Rightarrow>
                          if fx_decimals orc \<noteq> 0
                          then of_int ((ans_current ev * 10 ^ nat (fx_decimals orc)) sdiv dv) / 10 ^ 8
                          else of_int (ans_current ev) / 10 ^ 8))))"
proof -
  let ?fx = "fxOracles s (ans_address ev)"
  let ?answer = "ans_current ev"
  let ?toks = "tokenAddressesToUpdate e (ans_address ev) s"
  let ?s1 = "case ?fx of
               None \<Rightarrow> log_warning ''Oracle not found: {}'' [ans_address ev] s
             | Some _ \<Rightarrow> s"
  let ?price = "case ?fx of
             None \<Rightarrow> of_int ?answer / 10 ^ 8
           | Some orc \<Rightarrow>
               (case fx_divisor orc of
                  None \<Rightarrow> of_int ?answer / 10 ^ 8
                | Some dv \<Rightarrow>
                    if fx_decimals orc \<noteq> 0
                    then of_int ((?answer * 10 ^ nat (fx_decimals orc)) sdiv dv) / 10 ^ 8
                    else of_int ?answer / 10 ^ 8)"
  have "\<forall>a. \<exists>p. latestFXPriceOf ?fx ?answer a = Inr p"
    using latestFXPriceOf_total [of ?fx] assms by blast
  then obtain f where f: "\<forall>a. latestFXPriceOf ?fx ?answer a = Inr (f a)"
    by metis
  have tokens1: "tokens ?s1 = tokens s"
    by (cases ?fx) (simp_all add: log_warning_def)
  obtain s' where run: "updateTokenPrices ?fx ?answer ?toks ?s1 = Inr s'"
    and toks: "\<And>b. tokens s' b = (if b \<in> set ?toks
                 then map_option (\<lambda>t. pricedToken t (f b)) (tokens ?s1 b) else tokens ?s1 b)"
    and miss: "\<And>b. b \<in> set ?toks \<Longrightarrow> tokens ?s1 b = None \<Longrightarrow>
                 (''Token with address {} not found'', [b]) \<in> set (warnings s')"
    using updateTokenPrices_effect [OF f, of ?toks ?s1] by blast
  have handler: "handleAnswerUpdated e ev s = Inr s'"
    using run by (simp add: handleAnswerUpdated_def Let_def)
  have others: "\<forall>b \<in> set ?toks. tokens s b = None \<longrightarrow>
           tokens s' b = None \<and> (''Token with address {} not found'', [b]) \<in> set (warnings s')"
    using miss by (simp add: toks tokens1)
  have priced: "\<exists>token'. tokens s' a = Some token' \<and> tok_latestFXPrice token' = Some ?price"
    if a: "a \<in> set ?toks" "a \<noteq> XAU_TOKEN" "tokens s a = Some token"
      and dec: "\<forall>orc. ?fx = Some orc \<and> fx_divisor orc \<noteq> None \<longrightarrow>
                  0 \<le> fx_decimals orc \<and> fx_decimals orc < 256"
    for a token
  proof -
    have mine: "tokens s' a = Some (pricedToken token (f a))"
      using a(1,3) by (simp add: toks tokens1)
    have "Inr (f a) = latestFXPriceOf ?fx ?answer a"
      using f by simp
    also have "\<dots> = Inr ?price"
      using a(2) assms dec
      by (auto simp add: latestFXPriceOf_def BigInt_div_def andThen_def scaleDown_def u8_def
          split: option.splits)
    finally have price: "f a = ?price"
      by simp
    have "tok_latestFXPrice (pricedToken token (f a)) = Some (f a)"
      by (simp add: pricedToken_def)
    then show ?thesis
      using mine by (simp only: price) blast
  qed
  show ?thesis
    using handler others priced by blast
qed

lemma tokenAddressesToUpdate_storeO:
  "tokenAddressesToUpdate env0 ''0xagg'' (storeO\<lparr>tokens := ts\<rparr>) = [''0xeur'', ''0xnone'']"
  by (simp add: tokenAddressesToUpdate_def storeO_def emptyStore_def env0_def)

lemma tokenAddressesToUpdate_storeV:
  "tokenAddressesToUpdate env0 ''0xagg'' storeV = [''0xeur'', ''0xnone'']"
  by (simp add: tokenAddressesToUpdate_def storeV_def storeO_def emptyStore_def env0_def)

theorem handleAnswerUpdated_prices_witness:
  "(\<exists>s' token'. handleAnswerUpdated env0 answerO storeO = Inr s'
      \<and> tokens s' ''0xeur'' = Some token'
      \<and> tok_latestFXPrice token' = Some (123456789 / 100000000)
      \<and> tokens s' ''0xnone'' = None
      \<and> (''Token with address {} not found'', [''0xnone'']) \<in> set (warnings s'))
   \<and> (\<exists>s'. handleAnswerUpdated env0 answerO (storeO\<lparr>tokens := Map.empty\<rparr>) = Inr s'
      \<and> tokens s' ''0xeur'' = None \<and> tokens s' ''0xnone'' = None
      \<and> (''Token with address {} not found'', [''0xeur'']) \<in> set (warnings s')
      \<and> (''Token with address {} not found'', [''0xnone'']) \<in> set (warnings s'))
   \<and> (\<exists>s' token'. handleAnswerUpdated env0 answerO storeV = Inr s'
      \<and> tokens s' ''0xeur'' = Some token'
      \<and> tok_latestFXPrice token' = Some (3086419725 / 100000000))"
proof (intro conjI)
  have ag: "ans_address answerO = ''0xagg''" "ans_current answerO = 123456789"
    by (simp_all add: answerO_def)
  have st: "tokens storeO ''0xnone'' = None" "\<exists>token. tokens storeO ''0xeur'' = Some token"
    "fxOracles storeO ''0xagg'' =
       Some \<lparr>fx_tokens = [''0xeur'', ''0xnone''], fx_decimals = 10, fx_divisor = None\<rparr>"
    by (simp_all add: storeO_def emptyStore_def)
  have "\<exists>s'. handleAnswerUpdated env0 answerO storeO = Inr s'
     \<and> (\<forall>b \<in> set (tokenAddressesToUpdate env0 (ans_address answerO) storeO). tokens storeO b = None \<longrightarrow>
           tokens s' b = None
           \<and> (''Token with address {} not found'', [b]) \<in> set (warnings s'))
     \<and> (\<forall>a \<in> set (tokenAddressesToUpdate env0 (ans_address answerO) storeO). \<forall>token.
           a \<noteq> XAU_TOKEN \<and> tokens storeO a = Some token
           \<and> (\<forall>orc. fxOracles storeO (ans_address answerO) = Some orc \<and> fx_divisor orc \<noteq> None \<longrightarrow>
                  0 \<le> fx_decimals orc \<and> fx_decimals orc < 256) \<longrightarrow>
           (\<exists>token'. tokens s' a = Some token'
              \<and> tok_latestFXPrice token' = Some
                (case fxOracles storeO (ans_address answerO) of
                   None \<Rightarrow> of_int (ans_current answerO) / 10 ^ 8
                 | Some orc \<Rightarrow>
                     (case fx_divisor orc of
                        None \<Rightarrow> of_int (ans_current answerO) / 10 ^ 8
                      | Some dv \<Rightarrow>
                          if fx_decimals orc \<noteq> 0
                          then of_int ((ans_current answerO * 10 ^ nat (fx_decimals orc)) sdiv dv) / 10 ^ 8
                          else of_int (ans_current answerO) / 10 ^ 8))))"
    by (rule handleAnswerUpdated_prices) (simp add: storeO_def emptyStore_def answerO_def)
  then obtain s' where run: "handleAnswerUpdated env0 answerO storeO = Inr s'"
    and skip: "\<And>b. b \<in> set [''0xeur'', ''0xnone''] \<Longrightarrow> tokens storeO b = None \<Longrightarrow>
           tokens s' b = None
           \<and> (''Token with address {} not found'', [b]) \<in> set (warnings s')"
    and price: "\<And>a token. a \<in> set [''0xeur'', ''0xnone''] \<Longrightarrow>
           a \<noteq> XAU_TOKEN \<Longrightarrow> tokens storeO a = Some token \<Longrightarrow>
           (\<exists>token'. tokens s' a = Some token'
              \<and> tok_latestFXPrice token' = Some (123456789 / 10 ^ 8))"
    unfolding ag tokenAddressesToUpdate_storeO [of "tokens storeO", simplified] st(3)
    by fastforce
  have "tokens s' ''0xnone'' = None
      \<and> (''Token with address {} not found'', [''0xnone'']) \<in> set (warnings s')"
    using skip [of "''0xnone''"] st(1) by simp
  moreover have "\<exists>token'. tokens s' ''0xeur'' = Some token'
        \<and> tok_latestFXPrice token' = Some (123456789 / 100000000)"
    using price [of "''0xeur''"] st(2) by (auto simp add: XAU_TOKEN_def)
  ultimately show "\<exists>s' token'. handleAnswerUpdated env0 answerO storeO = Inr s'
      \<and> tokens s' ''0xeur'' = Some token'
      \<and> tok_latestFXPrice token' = Some (123456789 / 100000000)
      \<and> tokens s' ''0xnone'' = None
      \<and> (''Token with address {} not found'', [''0xnone'']) \<in> set (warnings s')"
    using run by blast
next
  let ?s = "storeO\<lparr>tokens := Map.empty\<rparr>"
  have ag: "ans_address answerO = ''0xagg''"
    by (simp add: answerO_def)
  have "\<exists>s'. handleAnswerUpdated env0 answerO (storeO\<lparr>tokens := Map.empty\<rparr>) = Inr s'
     \<and> (\<forall>b \<in> set (tokenAddressesToUpdate env0 (ans_address answerO) (storeO\<lparr>tokens := Map.empty\<rparr>)). tokens (storeO\<lparr>tokens := Map.empty\<rparr>) b = None \<longrightarrow>
           tokens s' b = None
           \<and> (''Token with address {} not found'', [b]) \<in> set (warnings s'))
     \<and> (\<forall>a \<in> set (tokenAddressesToUpdate env0 (ans_address answerO) (storeO\<lparr>tokens := Map.empty\<rparr>)). \<forall>token.
           a \<noteq> XAU_TOKEN \<and> tokens (storeO\<lparr>tokens := Map.empty\<rparr>) a = Some token
           \<and> (\<forall>orc. fxOracles (storeO\<lparr>tokens := Map.empty\<rparr>) (ans_address answerO) = Some orc \<and> fx_divisor orc \<noteq> None \<longrightarrow>
                  0 \<le> fx_decimals orc \<and> fx_decimals orc < 256) \<longrightarrow>
           (\<exists>token'. tokens s' a = Some token'
              \<and> tok_latestFXPrice token' = Some
                (case fxOracles (storeO\<lparr>tokens := Map.empty\<rparr>) (ans_address answerO) of
                   None \<Rightarrow> of_int (ans_current answerO) / 10 ^ 8
                 | Some orc \<Rightarrow>
                     (case fx_divisor orc of
                        None \<Rightarrow> of_int (ans_current answerO) / 10 ^ 8
                      | Some dv \<Rightarrow>
                          if fx_decimals orc \<noteq> 0
                          then of_int ((ans_current answerO * 10 ^ nat (fx_decimals orc)) sdiv dv) / 10 ^ 8
                          else of_int (ans_current answerO) / 10 ^ 8))))"
    by (rule handleAnswerUpdated_prices) (simp add: storeO_def emptyStore_def answerO_def)
  then obtain s' where run: "handleAnswerUpdated env0 answerO ?s = Inr s'"
    and skip: "\<And>b. b \<in> set [''0xeur'', ''0xnone''] \<Longrightarrow> tokens ?s b = None \<Longrightarrow>
           tokens s' b = None
           \<and> (''Token with address {} not found'', [b]) \<in> set (warnings s')"
    unfolding ag tokenAddressesToUpdate_storeO
    by blast
  show "\<exists>s'. handleAnswerUpdated env0 answerO ?s = Inr s'
      \<and> tokens s' ''0xeur'' = None \<and> tokens s' ''0xnone'' = None
      \<and> (''Token with address {} not found'', [''0xeur'']) \<in> set (warnings s')
      \<and> (''Token with address {} not found'', [''0xnone'']) \<in> set (warnings s')"
    using run skip [of "''0xeur''"] skip [of "''0xnone''"] by (intro exI [of _ s']) simp
next
  show "\<exists>s' token'. handleAnswerUpdated env0 answerO storeV = Inr s'
      \<and> tokens s' ''0xeur'' = Some token'
      \<and> tok_latestFXPrice token' = Some (3086419725 / 100000000)"
  proof -
    have ag: "ans_address answerO = ''0xagg''" "ans_current answerO = 123456789"
      by (simp_all add: answerO_def)
    have st: "\<exists>token. tokens storeV ''0xeur'' = Some token"
      "fxOracles storeV ''0xagg'' =
         Some \<lparr>fx_tokens = [''0xeur'', ''0xnone''], fx_decimals = 2, fx_divisor = Some 4\<rparr>"
      by (simp_all add: storeV_def storeO_def emptyStore_def)
    have "\<exists>s'. handleAnswerUpdated env0 answerO storeV = Inr s'
       \<and> (\<forall>b \<in> set (tokenAddressesToUpdate env0 (ans_address answerO) storeV). tokens storeV b = None \<longrightarrow>
             tokens s' b = None
             \<and> (''Token with address {} not found'', [b]) \<in> set (warnings s'))
       \<and> (\<forall>a \<in> set (tokenAddressesToUpdate env0 (ans_address answerO) storeV). \<forall>token.
             a \<noteq> XAU_TOKEN \<and> tokens storeV a = Some token
             \<and> (\<forall>orc. fxOracles storeV (ans_address answerO) = Some orc \<and> fx_divisor orc \<noteq> None \<longrightarrow>
                    0 \<le> fx_decimals orc \<and> fx_decimals orc < 256) \<longrightarrow>
             (\<exists>token'. tokens s' a = Some token'
                \<and> tok_latestFXPrice token' = Some
                  (case fxOracles storeV (ans_address answerO) of
                     None \<Rightarrow> of_int (ans_current answerO) / 10 ^ 8
                   | Some orc \<Rightarrow>
                       (case fx_divisor orc of
                          None \<Rightarrow> of_int (ans_current answerO) / 10 ^ 8
                        | Some dv \<Rightarrow>
                            if fx_decimals orc \<noteq> 0
                            then of_int ((ans_current answerO * 10 ^ nat (fx_decimals orc)) sdiv dv) / 10 ^ 8
                            else of_int (ans_current answerO) / 10 ^ 8))))"
      by (rule handleAnswerUpdated_prices) (simp add: storeV_def storeO_def emptyStore_def answerO_def)
    then obtain s' where run: "handleAnswerUpdated env0 answerO storeV = Inr s'"
      and price: "\<And>a token. a \<in> set [''0xeur'', ''0xnone''] \<Longrightarrow>
             a \<noteq> XAU_TOKEN \<Longrightarrow> tokens storeV a = Some token \<Longrightarrow>
             (\<exists>token'. tokens s' a = Some token'
                \<and> tok_latestFXPrice token' = Some (of_int ((123456789 * 10 ^ nat 2) sdiv 4) / 10 ^ 8))"
      unfolding ag tokenAddressesToUpdate_storeV st(2)
      by fastforce
    have "((123456789 * 10 ^ nat 2) sdiv 4 :: int) = 3086419725"
      by (simp add: signed_divide_int_def)
    then have "\<exists>token'. tokens s' ''0xeur'' = Some token'
          \<and> tok_latestFXPrice token' = Some (3086419725 / 100000000)"
      using price [of "''0xeur''"] st(1) by (auto simp add: XAU_TOKEN_def)
    then show ?thesis
      using run by blast
  qed
qed

section \<open>Swaps: the effect of one event\<close>

lemma refreshPool_frame:
  assumes "refresh_contract e"
  shows "\<exists>a ps. refreshPool e poolId pool t s = (pool\<lparr>pool_amp := a\<rparr>, s\<lparr>pools := ps\<rparr>)"
proof -
  have w: "\<exists>ps. updatePoolWeights e poolId s = s\<lparr>pools := ps\<rparr>"
    and a: "\<exists>a ps. updateAmpFactor e poolId pool t s = (pool\<lparr>pool_amp := a\<rparr>, s\<lparr>pools := ps\<rparr>)"
    using assms unfolding refresh_contract_def by blast+
  have id: "(pool, s) = (pool\<lparr>pool_amp := pool_amp pool\<rparr>, s\<lparr>pools := pools s\<rparr>)"
    by simp
  show ?thesis
  proof (cases "isVariableWeightPool e pool")
    case True
    obtain ps where "updatePoolWeights e poolId s = s\<lparr>pools := ps\<rparr>" using w by blast
    then have "refreshPool e poolId pool t s = (pool\<lparr>pool_amp := pool_amp pool\<rparr>, s\<lparr>pools := ps\<rparr>)"
      using True by (simp add: refreshPool_def)
    then show ?thesis by blast
  next
    case False
    show ?thesis
    proof (cases "isStableLikePool e pool")
      case True
      then show ?thesis using False a by (simp add: refreshPool_def)
    next
      case F2: False
      have "refreshPool e poolId pool t s = (pool\<lparr>pool_amp := pool_amp pool\<rparr>, s\<lparr>pools := pools s\<rparr>)"
        using False F2 by (simp add: refreshPool_def)
      then show ?thesis by blast
    qed
  qed
qed

lemma adjustVaultShare_frame:
  "\<exists>us sh. adjustVaultShare e poolId change s = s\<lparr>users := us, poolShares := sh\<rparr>
     \<and> shareBalance (s\<lparr>users := us, poolShares := sh\<rparr>)
          (getPoolShareId (getPoolAddress e poolId) (VAULT_ADDRESS e))
        = shareBalance s (getPoolShareId (getPoolAddress e poolId) (VAULT_ADDRESS e)) + change"
proof (cases "poolShares s (getPoolShareId (getPoolAddress e poolId) (VAULT_ADDRESS e))")
  case None
  let ?us = "insert (VAULT_ADDRESS e) (users s)"
  let ?sh = "(poolShares s)(getPoolShareId (getPoolAddress e poolId) (VAULT_ADDRESS e) \<mapsto>
      \<lparr>ps_userAddress = VAULT_ADDRESS e, ps_poolId = poolId, ps_balance = change\<rparr>)"
  have "adjustVaultShare e poolId change s = s\<lparr>users := ?us, poolShares := ?sh\<rparr>"
    using None
    by (cases "VAULT_ADDRESS e \<in> users s")
       (simp_all add: adjustVaultShare_def getPoolShare_def createPoolShareEntity_def
          createUserEntity_def Let_def insert_absorb)
  moreover have "shareBalance (s\<lparr>users := ?us, poolShares := ?sh\<rparr>)
          (getPoolShareId (getPoolAddress e poolId) (VAULT_ADDRESS e))
        = shareBalance s (getPoolShareId (getPoolAddress e poolId) (VAULT_ADDRESS e)) + change"
    using None by (simp add: shareBalance_def)
  ultimately show ?thesis by blast
next
  case (Some ps)
  let ?sh = "(poolShares s)(getPoolShareId (getPoolAddress e poolId) (VAULT_ADDRESS e) \<mapsto>
      ps\<lparr>ps_balance := ps_balance ps + change\<rparr>)"
  have "adjustVaultShare e poolId change s = s\<lparr>users := users s, poolShares := ?sh\<rparr>"
    using Some by (simp add: adjustVaultShare_def getPoolShare_def Let_def)
  moreover have "shareBalance (s\<lparr>users := users s, poolShares := ?sh\<rparr>)
          (getPoolShareId (getPoolAddress e poolId) (VAULT_ADDRESS e))
        = shareBalance s (getPoolShareId (getPoolAddress e poolId) (VAULT_ADDRESS e)) + change"
    using Some by (simp add: shareBalance_def)
  ultimately show ?thesis by blast
qed

lemma virtualSupply_frame:
  "\<exists>us sh. virtualSupply e event poolId pool s =
       (pool\<lparr>pool_totalShares := pool_totalShares pool + shareDelta e event pool\<rparr>,
        s\<lparr>users := us, poolShares := sh\<rparr>)
     \<and> shareBalance (s\<lparr>users := us, poolShares := sh\<rparr>)
          (getPoolShareId (getPoolAddress e poolId) (VAULT_ADDRESS e))
        = shareBalance s (getPoolShareId (getPoolAddress e poolId) (VAULT_ADDRESS e))
          + shareDelta e event pool"
proof -
  let ?vid = "getPoolShareId (getPoolAddress e poolId) (VAULT_ADDRESS e)"
  let ?cin = "- tokenToDecimal (sw_amountIn event) 18"
  let ?cout = "tokenToDecimal (sw_amountOut event) 18"
  have keep: "(pool, s) = (pool\<lparr>pool_totalShares := pool_totalShares pool + 0\<rparr>,
        s\<lparr>users := users s, poolShares := poolShares s\<rparr>)"
    by simp
  show ?thesis
  proof (cases "hasVirtualSupply e pool")
    case False
    then have "virtualSupply e event poolId pool s =
        (pool\<lparr>pool_totalShares := pool_totalShares pool + shareDelta e event pool\<rparr>,
         s\<lparr>users := users s, poolShares := poolShares s\<rparr>)"
      by (simp add: virtualSupply_def shareDelta_def)
    moreover have "shareBalance (s\<lparr>users := users s, poolShares := poolShares s\<rparr>) ?vid
        = shareBalance s ?vid + shareDelta e event pool"
      using False by (simp add: shareDelta_def)
    ultimately show ?thesis by blast
  next
    case True
    obtain us1 sh1 where in1: "adjustVaultShare e poolId ?cin s = s\<lparr>users := us1, poolShares := sh1\<rparr>"
      and bal1: "shareBalance (s\<lparr>users := us1, poolShares := sh1\<rparr>) ?vid = shareBalance s ?vid + ?cin"
      using adjustVaultShare_frame [of e poolId ?cin s] by blast
    show ?thesis
    proof (cases "sw_tokenIn event = pool_address pool")
      case tin: True
      let ?s1 = "s\<lparr>users := us1, poolShares := sh1\<rparr>"
      obtain us2 sh2 where in2: "adjustVaultShare e poolId ?cout ?s1 = ?s1\<lparr>users := us2, poolShares := sh2\<rparr>"
        and bal2: "shareBalance (?s1\<lparr>users := us2, poolShares := sh2\<rparr>) ?vid = shareBalance ?s1 ?vid + ?cout"
        using adjustVaultShare_frame [of e poolId ?cout ?s1] by blast
      show ?thesis
      proof (cases "sw_tokenOut event = pool_address pool")
        case tout: True
        have "virtualSupply e event poolId pool s =
          (pool\<lparr>pool_totalShares := pool_totalShares pool + shareDelta e event pool\<rparr>,
           s\<lparr>users := us2, poolShares := sh2\<rparr>)"
          using True tin tout in1 in2 by (simp add: virtualSupply_def shareDelta_def Let_def)
        moreover have "shareBalance (s\<lparr>users := us2, poolShares := sh2\<rparr>) ?vid
            = shareBalance s ?vid + shareDelta e event pool"
          using True tin tout bal1 bal2 by (simp add: shareDelta_def)
        ultimately show ?thesis by blast
      next
        case tout: False
        have "virtualSupply e event poolId pool s =
          (pool\<lparr>pool_totalShares := pool_totalShares pool + shareDelta e event pool\<rparr>,
           s\<lparr>users := us1, poolShares := sh1\<rparr>)"
          using True tin tout in1 by (simp add: virtualSupply_def shareDelta_def Let_def)
        moreover have "shareBalance (s\<lparr>users := us1, poolShares := sh1\<rparr>) ?vid
            = shareBalance s ?vid + shareDelta e event pool"
          using True tin tout bal1 by (simp add: shareDelta_def)
        ultimately show ?thesis by blast
      qed
    next
      case tin: False
      obtain us2 sh2 where in2: "adjustVaultShare e poolId ?cout s = s\<lparr>users := us2, poolShares := sh2\<rparr>"
        and bal2: "shareBalance (s\<lparr>users := us2, poolShares := sh2\<rparr>) ?vid = shareBalance s ?vid + ?cout"
        using adjustVaultShare_frame [of e poolId ?cout s] by blast
      show ?thesis
      proof (cases "sw_tokenOut event = pool_address pool")
        case tout: True
        have "virtualSupply e event poolId pool s =
          (pool\<lparr>pool_totalShares := pool_totalShares pool + shareDelta e event pool\<rparr>,
           s\<lparr>users := us2, poolShares := sh2\<rparr>)"
          using True tin tout in2 by (simp add: virtualSupply_def shareDelta_def Let_def)
        moreover have "shareBalance (s\<lparr>users := us2, poolShares := sh2\<rparr>) ?vid
            = shareBalance s ?vid + shareDelta e event pool"
          using True tin tout bal2 by (simp add: shareDelta_def)
        ultimately show ?thesis by blast
      next
        case tout: False
        have "virtualSupply e event poolId pool s =
          (pool\<lparr>pool_totalShares := pool_totalShares pool + shareDelta e event pool\<rparr>,
           s\<lparr>users := users s, poolShares := poolShares s\<rparr>)"
          using True tin tout by (simp add: virtualSupply_def shareDelta_def Let_def)
        moreover have "shareBalance (s\<lparr>users := users s, poolShares := poolShares s\<rparr>) ?vid
            = shareBalance s ?vid + shareDelta e event pool"
          using True tin tout by (simp add: shareDelta_def)
        ultimately show ?thesis by blast
      qed
    qed
  qed
qed

lemma getPoolTokenId_inj [simp]: "getPoolTokenId p a = getPoolTokenId p b \<longleftrightarrow> a = b"
  by (simp add: getPoolTokenId_def)

lemma toI32_ok: "- (2 ^ 31) \<le> n \<Longrightarrow> n < 2 ^ 31 \<Longrightarrow> toI32 n = Inr n"
  by (simp add: toI32_def mod_pos_pos_trivial)

lemma refresh_outcome:
  "andThen (andThen r (\<lambda>s1. Inr (True, s1))) (\<lambda>(_, s2). Inr s2) = r"
  by (cases r) (simp_all add: andThen_def)

lemma tokenOrNew_upd:
  "tokenOrNew e (s\<lparr>tokens := (tokens s)(a \<mapsto> t)\<rparr>) b = (if b = a then t else tokenOrNew e s b)"
  by (cases "tokens s b") (simp_all add: tokenOrNew_def getToken_def createToken_def Let_def)

lemma tokenOrNew_tokens_cong:
  "tokens s' = tokens s \<Longrightarrow> tokenOrNew e s' a = tokenOrNew e s a"
  by (cases "tokens s a") (simp_all add: tokenOrNew_def getToken_def createToken_def Let_def)

lemma tokenOrNew_Some: "tokens s a = Some t \<Longrightarrow> tokenOrNew e s a = t"
  by (simp add: tokenOrNew_def getToken_def)

lemma uptick_eq:
  "uptickSwapsForToken e a s = s\<lparr>tokens := (tokens s)(a \<mapsto>
      (tokenOrNew e s a)\<lparr>tok_totalSwapCount := tok_totalSwapCount (tokenOrNew e s a) + 1\<rparr>)\<rparr>"
  by (cases "tokens s a")
     (simp_all add: uptickSwapsForToken_def getToken_def createToken_def tokenOrNew_def Let_def)

lemma updateIn_eq:
  "updateTokenBalances e a x (SWAP_IN e) s = s\<lparr>tokens := (tokens s)(a \<mapsto>
      (tokenOrNew e s a)\<lparr>tok_totalBalanceNotional :=
         tok_totalBalanceNotional (tokenOrNew e s a) + x\<rparr>)\<rparr>"
  by (cases "tokens s a")
     (simp_all add: updateTokenBalances_def getToken_def createToken_def tokenOrNew_def Let_def)

lemma updateOut_eq:
  "SWAP_IN e \<noteq> SWAP_OUT e \<Longrightarrow>
   updateTokenBalances e a x (SWAP_OUT e) s = s\<lparr>tokens := (tokens s)(a \<mapsto>
      (tokenOrNew e s a)\<lparr>tok_totalBalanceNotional :=
         tok_totalBalanceNotional (tokenOrNew e s a) - x\<rparr>)\<rparr>"
  by (cases "tokens s a")
     (simp_all add: updateTokenBalances_def getToken_def createToken_def tokenOrNew_def Let_def)

lemma tokenSteps:
  assumes "SWAP_IN e \<noteq> SWAP_OUT e" "a \<noteq> b"
  shows "updateTokenBalances e b y (SWAP_OUT e)
           (updateTokenBalances e a x (SWAP_IN e)
              (uptickSwapsForToken e b (uptickSwapsForToken e a s)))
         = s\<lparr>tokens := (tokens s)(a \<mapsto> countedToken e s a x, b \<mapsto> countedToken e s b (- y))\<rparr>"
proof -
  let ?ta = "(tokenOrNew e s a)\<lparr>tok_totalSwapCount := tok_totalSwapCount (tokenOrNew e s a) + 1\<rparr>"
  let ?tb = "(tokenOrNew e s b)\<lparr>tok_totalSwapCount := tok_totalSwapCount (tokenOrNew e s b) + 1\<rparr>"
  have 1: "uptickSwapsForToken e a s = s\<lparr>tokens := (tokens s)(a \<mapsto> ?ta)\<rparr>"
    by (rule uptick_eq)
  have 2: "uptickSwapsForToken e b (s\<lparr>tokens := (tokens s)(a \<mapsto> ?ta)\<rparr>)
             = s\<lparr>tokens := (tokens s)(a \<mapsto> ?ta, b \<mapsto> ?tb)\<rparr>"
    using assms(2) by (simp add: uptick_eq tokenOrNew_upd)
  have 3: "updateTokenBalances e a x (SWAP_IN e) (s\<lparr>tokens := (tokens s)(a \<mapsto> ?ta, b \<mapsto> ?tb)\<rparr>)
             = s\<lparr>tokens := (tokens s)(a \<mapsto> countedToken e s a x, b \<mapsto> ?tb)\<rparr>"
  proof -
    let ?s2 = "s\<lparr>tokens := (tokens s)(a \<mapsto> ?ta, b \<mapsto> ?tb)\<rparr>"
    have "tokenOrNew e ?s2 a = ?ta"
      using assms(2) by (intro tokenOrNew_Some) simp
    then show ?thesis
      using assms(2) by (simp add: updateIn_eq countedToken_def fun_upd_twist)
  qed
  have 4: "updateTokenBalances e b y (SWAP_OUT e)
              (s\<lparr>tokens := (tokens s)(a \<mapsto> countedToken e s a x, b \<mapsto> ?tb)\<rparr>)
             = s\<lparr>tokens := (tokens s)(a \<mapsto> countedToken e s a x, b \<mapsto> countedToken e s b (- y))\<rparr>"
  proof -
    let ?s3 = "s\<lparr>tokens := (tokens s)(a \<mapsto> countedToken e s a x, b \<mapsto> ?tb)\<rparr>"
    have "tokenOrNew e ?s3 b = ?tb"
      by (intro tokenOrNew_Some) simp
    then show ?thesis
      using assms by (simp add: updateOut_eq countedToken_def)
  qed
  show ?thesis
    by (simp only: 1 2 3 4)
qed

lemma invariantBalances_ok:
  "(\<forall>a \<in> set toks. a \<noteq> poolAddress \<longrightarrow> loadPoolToken s poolId a \<noteq> None) \<Longrightarrow>
   \<exists>bs. invariantBalances s poolId poolAddress toks acc = Inr bs"
proof (induction toks arbitrary: acc)
  case Nil
  then show ?case by simp
next
  case (Cons t rest)
  show ?case
  proof (cases "t = poolAddress")
    case True
    then show ?thesis using Cons by simp
  next
    case False
    then obtain pt where pt: "loadPoolToken s poolId t = Some pt"
      using Cons.prems by auto
    have up: "scaleUp (pt_balance pt * pt_priceRate pt) 18
                = Inr (truncZ (pt_balance pt * pt_priceRate pt * 10 ^ nat 18))"
      by (rule scaleUp_trunc) simp_all
    show ?thesis
      using False pt Cons.IH Cons.prems by (simp add: up andThen_def)
  qed
qed

lemma joinExitInvariant_ok:
  assumes "refresh_contract e"
    and "\<forall>a \<in> set (pool_tokensList pool). a \<noteq> pool_address pool \<longrightarrow> loadPoolToken s poolId a \<noteq> None"
  shows "\<exists>x y. joinExitInvariant e swapId poolId pool s =
           Inr (pool\<lparr>pool_lastPostJoinExitInvariant := x, pool_lastJoinExitAmp := y\<rparr>)"
proof -
  obtain bs where bs: "invariantBalances s poolId (pool_address pool) (pool_tokensList pool) [] = Inr bs"
    using invariantBalances_ok [OF assms(2)] by blast
  show ?thesis
  proof (cases "pool_amp pool")
    case None
    then have "joinExitInvariant e swapId poolId pool s =
       Inr (pool\<lparr>pool_lastPostJoinExitInvariant := pool_lastPostJoinExitInvariant pool,
                 pool_lastJoinExitAmp := pool_lastJoinExitAmp pool\<rparr>)"
      using bs by (simp add: joinExitInvariant_def andThen_def)
    then show ?thesis by blast
  next
    case (Some a)
    obtain v where "calculateInvariant e (a * AMP_PRECISION e) bs swapId = Inr v"
      using assms(1) unfolding refresh_contract_def by blast
    then have "joinExitInvariant e swapId poolId pool s =
       Inr (pool\<lparr>pool_lastPostJoinExitInvariant := Some (scaleDown v 18),
                 pool_lastJoinExitAmp := Some a\<rparr>)"
      using bs Some by (simp add: joinExitInvariant_def andThen_def)
    then show ?thesis by blast
  qed
qed

lemma countedToken_cong:
  "tokens s' = tokens s \<Longrightarrow> countedToken e s' a x = countedToken e s a x"
  using tokenOrNew_tokens_cong [of s' s e a] by (simp add: countedToken_def)

lemma scaleDown_zero: "scaleDown n d = 0 \<longleftrightarrow> n = 0"
  by (simp add: scaleDown_def)

lemma refreshInvariant_ok:
  assumes "refresh_contract e"
    and "\<forall>a \<in> set (pool_tokensList pool). a \<noteq> pool_address pool \<longrightarrow> loadPoolToken s poolId a \<noteq> None"
  shows "\<exists>x y. refreshInvariant e event poolId pool s =
           Inr (pool\<lparr>pool_lastPostJoinExitInvariant := x, pool_lastJoinExitAmp := y\<rparr>)"
proof (cases "(pool_address pool = sw_tokenIn event \<or> pool_address pool = sw_tokenOut event)
                   \<and> isComposableStablePool e pool")
  case True
  then show ?thesis
    using joinExitInvariant_ok [OF assms, of "ev_txHash event @ showInt (ev_logIndex event)"]
    by (simp add: refreshInvariant_def)
next
  case False
  have "refreshInvariant e event poolId pool s = Inr pool"
    unfolding refreshInvariant_def Let_def using False by (simp only: if_False)
  also have "\<dots> = Inr (pool\<lparr>pool_lastPostJoinExitInvariant := pool_lastPostJoinExitInvariant pool,
               pool_lastJoinExitAmp := pool_lastJoinExitAmp pool\<rparr>)"
    by simp
  finally show ?thesis by blast
qed

lemma recordSwap_effect:
  assumes d: "SWAP_IN e \<noteq> SWAP_OUT e"
    and n: "sw_tokenIn event \<noteq> sw_tokenOut event"
    and b: "balancers s ''2'' = Some vault"
    and t: "- (2 ^ 31) \<le> ev_blockTimestamp event" "ev_blockTimestamp event < 2 ^ 31"
  shows "recordSwap e event (sw_poolId event) pool poolTokenIn poolTokenOut
            (ev_blockTimestamp event) (saveSwapBalances event (sw_poolId event) poolTokenIn poolTokenOut s) =
     (let pool1 = pool\<lparr>pool_swapsCount := pool_swapsCount pool + 1\<rparr>;
          s1 = swappedStore e event pool1 poolTokenIn poolTokenOut vault s
      in if sw_amountOut event = 0 \<or> sw_amountIn event = 0 then Inr s1
         else createPoolSnapshot (sw_poolId event) pool1 (ev_blockTimestamp event) s1)"
proof -
  let ?pid = "sw_poolId event"
  let ?tin = "scaleDown (sw_amountIn event) (pt_decimals poolTokenIn)"
  let ?tout = "scaleDown (sw_amountOut event) (pt_decimals poolTokenOut)"
  let ?pool1 = "pool\<lparr>pool_swapsCount := pool_swapsCount pool + 1\<rparr>"
  let ?s0 = "saveSwapBalances event ?pid poolTokenIn poolTokenOut s"
  let ?s3 = "?s0\<lparr>swaps := (swaps ?s0)(ev_txHash event @ showInt (ev_logIndex event) \<mapsto>
          \<lparr>swap_tokenIn = sw_tokenIn event, swap_tokenInSym = pt_symbol poolTokenIn,
           swap_tokenAmountIn = ?tin,
           swap_tokenOut = sw_tokenOut event, swap_tokenOutSym = pt_symbol poolTokenOut,
           swap_tokenAmountOut = ?tout,
           swap_caller = ev_txFrom event, swap_userAddress = ev_txFrom event,
           swap_poolId = sw_poolId event, swap_timestamp = ev_blockTimestamp event,
           swap_tx = ev_txHash event, swap_block = ev_blockNumber event\<rparr>),
       pools := (pools ?s0)(?pid \<mapsto> ?pool1),
       balancers := (balancers ?s0)(''2'' \<mapsto>
          vault\<lparr>bal_totalSwapCount := bal_totalSwapCount vault + 1\<rparr>)\<rparr>"
  let ?s7 = "updateTokenBalances e (sw_tokenOut event) ?tout (SWAP_OUT e)
           (updateTokenBalances e (sw_tokenIn event) ?tin (SWAP_IN e)
              (uptickSwapsForToken e (sw_tokenOut event) (uptickSwapsForToken e (sw_tokenIn event) ?s3)))"
  let ?s1 = "swappedStore e event ?pool1 poolTokenIn poolTokenOut vault s"
  have b0: "balancers ?s0 ''2'' = Some vault"
    using b by (simp add: saveSwapBalances_def Let_def)
  have tok3: "tokens ?s3 = tokens s"
    by (simp add: saveSwapBalances_def Let_def)
  have s7: "?s7 = ?s1"
    unfolding tokenSteps [OF d n] countedToken_cong [OF tok3]
    by (simp add: swappedStore_def saveSwapBalances_def Let_def)
  have liq: "updatePoolLiquidity ?pid (ev_blockNumber event) (ev_blockTimestamp event) ?s1
               = andThen (createPoolSnapshot ?pid ?pool1 (ev_blockTimestamp event) ?s1)
                   (\<lambda>s1. Inr (True, s1))"
    using t by (simp add: updatePoolLiquidity_def swappedStore_def toI32_ok andThen_def)
  have "recordSwap e event ?pid pool poolTokenIn poolTokenOut (ev_blockTimestamp event) ?s0 =
     (if ?tout = 0 \<or> ?tin = 0 then Inr ?s7
      else andThen (updatePoolLiquidity ?pid (ev_blockNumber event) (ev_blockTimestamp event) ?s7)
             (\<lambda>(_, s8). Inr s8))"
    unfolding recordSwap_def Let_def using b0 by simp
  also have "\<dots> = (if sw_amountOut event = 0 \<or> sw_amountIn event = 0 then Inr ?s1
          else createPoolSnapshot ?pid ?pool1 (ev_blockTimestamp event) ?s1)"
    unfolding s7 liq refresh_outcome by (simp add: scaleDown_zero)
  finally show ?thesis
    unfolding Let_def .
qed

lemma swapBody_effect:
  assumes c: "refresh_contract e"
    and d: "SWAP_IN e \<noteq> SWAP_OUT e"
    and n: "sw_tokenIn event \<noteq> sw_tokenOut event"
    and b: "balancers s ''2'' = Some vault"
    and t: "- (2 ^ 31) \<le> ev_blockTimestamp event" "ev_blockTimestamp event < 2 ^ 31"
    and p: "\<forall>a \<in> set (pool_tokensList pool). a \<noteq> pool_address pool \<longrightarrow>
              loadPoolToken s (sw_poolId event) a \<noteq> None"
  shows "\<exists>x y. swapBody e event (sw_poolId event) pool poolTokenIn poolTokenOut
                  (ev_blockTimestamp event) s =
     (let pool1 = pool\<lparr>pool_lastPostJoinExitInvariant := x, pool_lastJoinExitAmp := y,
                          pool_swapsCount := pool_swapsCount pool + 1\<rparr>;
          s1 = swappedStore e event pool1 poolTokenIn poolTokenOut vault s
      in if sw_amountOut event = 0 \<or> sw_amountIn event = 0 then Inr s1
         else createPoolSnapshot (sw_poolId event) pool1 (ev_blockTimestamp event) s1)"
proof -
  let ?pid = "sw_poolId event"
  let ?s0 = "saveSwapBalances event ?pid poolTokenIn poolTokenOut s"
  have p0: "\<forall>a \<in> set (pool_tokensList pool). a \<noteq> pool_address pool \<longrightarrow>
              loadPoolToken ?s0 ?pid a \<noteq> None"
    using p by (simp add: loadPoolToken_def saveSwapBalances_def Let_def)
  obtain x y where inv: "refreshInvariant e event ?pid pool ?s0 =
           Inr (pool\<lparr>pool_lastPostJoinExitInvariant := x, pool_lastJoinExitAmp := y\<rparr>)"
    using refreshInvariant_ok [OF c p0] by blast
  let ?pool3 = "pool\<lparr>pool_lastPostJoinExitInvariant := x, pool_lastJoinExitAmp := y\<rparr>"
  have "swapBody e event ?pid pool poolTokenIn poolTokenOut (ev_blockTimestamp event) s =
      recordSwap e event ?pid ?pool3 poolTokenIn poolTokenOut (ev_blockTimestamp event) ?s0"
    by (simp add: swapBody_def Let_def inv andThen_def)
  also have "\<dots> = (let pool1 = ?pool3\<lparr>pool_swapsCount := pool_swapsCount ?pool3 + 1\<rparr>;
              s1 = swappedStore e event pool1 poolTokenIn poolTokenOut vault s
          in if sw_amountOut event = 0 \<or> sw_amountIn event = 0 then Inr s1
             else createPoolSnapshot (sw_poolId event) pool1 (ev_blockTimestamp event) s1)"
    by (rule recordSwap_effect [OF d n b t])
  finally have "swapBody e event ?pid pool poolTokenIn poolTokenOut (ev_blockTimestamp event) s =
     (let pool1 = pool\<lparr>pool_lastPostJoinExitInvariant := x, pool_lastJoinExitAmp := y,
                          pool_swapsCount := pool_swapsCount pool + 1\<rparr>;
          s1 = swappedStore e event pool1 poolTokenIn poolTokenOut vault s
      in if sw_amountOut event = 0 \<or> sw_amountIn event = 0 then Inr s1
         else createPoolSnapshot (sw_poolId event) pool1 (ev_blockTimestamp event) s1)"
    by simp
  then show ?thesis by blast
qed

lemma handleSwapEvent_effect:
  assumes c: "refresh_contract e"
    and d: "SWAP_IN e \<noteq> SWAP_OUT e"
    and n: "sw_tokenIn event \<noteq> sw_tokenOut event"
    and pl: "pools s (sw_poolId event) = Some pool"
    and b: "balancers s ''2'' = Some vault"
    and t: "- (2 ^ 31) \<le> ev_blockTimestamp event" "ev_blockTimestamp event < 2 ^ 31"
    and p: "\<forall>a \<in> set (pool_tokensList pool). a \<noteq> pool_address pool \<longrightarrow>
              loadPoolToken s (sw_poolId event) a \<noteq> None"
    and i: "loadPoolToken s (sw_poolId event) (sw_tokenIn event) = Some poolTokenIn"
    and o: "loadPoolToken s (sw_poolId event) (sw_tokenOut event) = Some poolTokenOut"
  shows "\<exists>a x y us ps sh.
     handleSwapEvent e event s =
       (let s1 = swappedStore e event (swappedPool e event pool a x y) poolTokenIn
                        poolTokenOut vault (s\<lparr>users := us, pools := ps, poolShares := sh\<rparr>)
        in if sw_amountOut event = 0 \<or> sw_amountIn event = 0 then Inr s1
           else createPoolSnapshot (sw_poolId event) (swappedPool e event pool a x y)
                  (ev_blockTimestamp event) s1)
     \<and> shareBalance (s\<lparr>users := us, pools := ps, poolShares := sh\<rparr>)
          (getPoolShareId (getPoolAddress e (sw_poolId event)) (VAULT_ADDRESS e))
        = shareBalance s (getPoolShareId (getPoolAddress e (sw_poolId event)) (VAULT_ADDRESS e))
          + shareDelta e event (pool\<lparr>pool_amp := a\<rparr>)"
proof -
  let ?pid = "sw_poolId event"
  let ?vid = "getPoolShareId (getPoolAddress e ?pid) (VAULT_ADDRESS e)"
  define s0 where "s0 = createUserEntity (ev_txFrom event) s"
  have "s0 = s\<lparr>users := (if ev_txFrom event \<in> users s then users s
                               else insert (ev_txFrom event) (users s))\<rparr>"
    by (simp add: s0_def createUserEntity_def)
  then obtain us0 where s0: "s0 = s\<lparr>users := us0\<rparr>"
    by blast
  obtain a ps where r: "refreshPool e ?pid pool (ev_blockTimestamp event) s0
       = (pool\<lparr>pool_amp := a\<rparr>, s0\<lparr>pools := ps\<rparr>)"
    using refreshPool_frame [OF c, of ?pid pool "ev_blockTimestamp event" s0]
    by auto
  define pool1 where "pool1 = pool\<lparr>pool_amp := a\<rparr>"
  define s1 where "s1 = s0\<lparr>pools := ps\<rparr>"
  obtain us sh where v: "virtualSupply e event ?pid pool1 s1 =
       (pool1\<lparr>pool_totalShares := pool_totalShares pool1 + shareDelta e event pool1\<rparr>,
        s1\<lparr>users := us, poolShares := sh\<rparr>)"
    and vb: "shareBalance (s1\<lparr>users := us, poolShares := sh\<rparr>) ?vid
        = shareBalance s1 ?vid + shareDelta e event pool1"
    using virtualSupply_frame [of e event ?pid pool1 s1] by blast
  define pool2 where
    "pool2 = pool1\<lparr>pool_totalShares := pool_totalShares pool1 + shareDelta e event pool1\<rparr>"
  define s2 where "s2 = s\<lparr>users := us, pools := ps, poolShares := sh\<rparr>"
  have s2: "s1\<lparr>users := us, poolShares := sh\<rparr> = s2"
    by (simp add: s1_def s0 s2_def)
  have pl0: "pools s0 ?pid = Some pool"
    using pl by (simp add: s0)
  have b2: "balancers s2 ''2'' = Some vault"
    using b by (simp add: s2_def)
  have p2: "\<forall>a \<in> set (pool_tokensList pool2). a \<noteq> pool_address pool2 \<longrightarrow>
              loadPoolToken s2 ?pid a \<noteq> None"
    using p by (simp add: loadPoolToken_def s2_def pool2_def pool1_def)
  have i2: "loadPoolToken s2 ?pid (sw_tokenIn event) = Some poolTokenIn"
    and o2: "loadPoolToken s2 ?pid (sw_tokenOut event) = Some poolTokenOut"
    using i o by (simp_all add: loadPoolToken_def s2_def)
  obtain x y where body: "swapBody e event ?pid pool2 poolTokenIn poolTokenOut
                  (ev_blockTimestamp event) s2 =
     (let pool4 = pool2\<lparr>pool_lastPostJoinExitInvariant := x, pool_lastJoinExitAmp := y,
                          pool_swapsCount := pool_swapsCount pool2 + 1\<rparr>;
          s3 = swappedStore e event pool4 poolTokenIn poolTokenOut vault s2
      in if sw_amountOut event = 0 \<or> sw_amountIn event = 0 then Inr s3
         else createPoolSnapshot ?pid pool4 (ev_blockTimestamp event) s3)"
    using swapBody_effect [OF c d n b2 t p2] by blast
  have pool4: "pool2\<lparr>pool_lastPostJoinExitInvariant := x, pool_lastJoinExitAmp := y,
                          pool_swapsCount := pool_swapsCount pool2 + 1\<rparr>
                = swappedPool e event pool a x y"
    by (simp add: swappedPool_def pool2_def pool1_def)
  have "handleSwapEvent e event s =
      swapBody e event ?pid pool2 poolTokenIn poolTokenOut (ev_blockTimestamp event) s2"
    unfolding handleSwapEvent_def Let_def s0_def [symmetric]
    by (simp add: pl0 r pool1_def [symmetric] s1_def [symmetric] v s2 pool2_def [symmetric]
        toI32_ok [OF t] andThen_def i2 o2)
  then have "handleSwapEvent e event s =
       (let s3 = swappedStore e event (swappedPool e event pool a x y) poolTokenIn
                        poolTokenOut vault s2
        in if sw_amountOut event = 0 \<or> sw_amountIn event = 0 then Inr s3
           else createPoolSnapshot ?pid (swappedPool e event pool a x y)
                  (ev_blockTimestamp event) s3)"
    unfolding body pool4 Let_def by simp
  moreover have "shareBalance s2 ?vid = shareBalance s ?vid + shareDelta e event pool1"
    using vb unfolding s2 by (simp add: shareBalance_def s1_def s0)
  ultimately show ?thesis
    unfolding s2_def pool1_def by blast
qed

lemma snapshotOf_cong:
  "poolTokens s' = poolTokens s \<Longrightarrow> snapshotOf s' poolId pool day = snapshotOf s poolId pool day"
  by (simp add: snapshotOf_def balanceOf_def loadPoolToken_def)

lemma handleSwapEvent_after:
  assumes c: "refresh_contract e"
    and d: "SWAP_IN e \<noteq> SWAP_OUT e"
    and n: "sw_tokenIn event \<noteq> sw_tokenOut event"
    and pl: "pools s (sw_poolId event) = Some pool"
    and b: "balancers s ''2'' = Some vault"
    and t: "- (2 ^ 31) \<le> ev_blockTimestamp event" "ev_blockTimestamp event < 2 ^ 31"
    and p: "\<forall>a \<in> set (pool_tokensList pool). a \<noteq> pool_address pool \<longrightarrow>
              loadPoolToken s (sw_poolId event) a \<noteq> None"
    and i: "loadPoolToken s (sw_poolId event) (sw_tokenIn event) = Some poolTokenIn"
    and o: "loadPoolToken s (sw_poolId event) (sw_tokenOut event) = Some poolTokenOut"
    and q: "sw_amountOut event = 0 \<or> sw_amountIn event = 0
              \<or> (\<forall>a \<in> set (pool_tokensList pool). loadPoolToken s (sw_poolId event) a \<noteq> None)"
  shows "\<exists>s' a x y.
     handleSwapEvent e event s = Inr s'
     \<and> pools s' (sw_poolId event) = Some (swappedPool e event pool a x y)
     \<and> poolTokens s' = (poolTokens s)
          (getPoolTokenId (sw_poolId event) (sw_tokenIn event) \<mapsto>
             poolTokenIn\<lparr>pt_balance := pt_balance poolTokenIn
                + scaleDown (sw_amountIn event) (pt_decimals poolTokenIn)\<rparr>,
           getPoolTokenId (sw_poolId event) (sw_tokenOut event) \<mapsto>
             poolTokenOut\<lparr>pt_balance := pt_balance poolTokenOut
                - scaleDown (sw_amountOut event) (pt_decimals poolTokenOut)\<rparr>)
     \<and> balancers s' = (balancers s)(''2'' \<mapsto>
          vault\<lparr>bal_totalSwapCount := bal_totalSwapCount vault + 1\<rparr>)
     \<and> tokens s' = (tokens s)
          (sw_tokenIn event \<mapsto> countedToken e s (sw_tokenIn event)
             (scaleDown (sw_amountIn event) (pt_decimals poolTokenIn)),
           sw_tokenOut event \<mapsto> countedToken e s (sw_tokenOut event)
             (- scaleDown (sw_amountOut event) (pt_decimals poolTokenOut)))
     \<and> shareBalance s' (getPoolShareId (getPoolAddress e (sw_poolId event)) (VAULT_ADDRESS e))
        = shareBalance s (getPoolShareId (getPoolAddress e (sw_poolId event)) (VAULT_ADDRESS e))
          + shareDelta e event (pool\<lparr>pool_amp := a\<rparr>)
     \<and> poolSnapshots s' =
         (if sw_amountOut event = 0 \<or> sw_amountIn event = 0 then poolSnapshots s
          else (poolSnapshots s)
                 (sw_poolId event @ ''-''
                    @ showInt (ev_blockTimestamp event - (ev_blockTimestamp event smod DAY)) \<mapsto>
                  snapshotOf s' (sw_poolId event) (swappedPool e event pool a x y)
                    (ev_blockTimestamp event - (ev_blockTimestamp event smod DAY))))"
proof -
  let ?pid = "sw_poolId event"
  let ?vid = "getPoolShareId (getPoolAddress e ?pid) (VAULT_ADDRESS e)"
  let ?ts = "ev_blockTimestamp event"
  obtain a x y us ps sh where run: "handleSwapEvent e event s =
       (let s1 = swappedStore e event (swappedPool e event pool a x y) poolTokenIn
                        poolTokenOut vault (s\<lparr>users := us, pools := ps, poolShares := sh\<rparr>)
        in if sw_amountOut event = 0 \<or> sw_amountIn event = 0 then Inr s1
           else createPoolSnapshot ?pid (swappedPool e event pool a x y) ?ts s1)"
    and sb: "shareBalance (s\<lparr>users := us, pools := ps, poolShares := sh\<rparr>) ?vid
        = shareBalance s ?vid + shareDelta e event (pool\<lparr>pool_amp := a\<rparr>)"
    using handleSwapEvent_effect [OF c d n pl b t p i o] by blast
  define P where "P = swappedPool e event pool a x y"
  define s2 where "s2 = s\<lparr>users := us, pools := ps, poolShares := sh\<rparr>"
  define S where "S = swappedStore e event P poolTokenIn poolTokenOut vault s2"
  define s' where "s' = (if sw_amountOut event = 0 \<or> sw_amountIn event = 0 then S
       else S\<lparr>poolSnapshots := (poolSnapshots S)(?pid @ ''-'' @ showInt (?ts - (?ts smod DAY)) \<mapsto>
              snapshotOf S ?pid P (?ts - (?ts smod DAY)))\<rparr>)"
  have ct: "countedToken e s2 a' x' = countedToken e s a' x'" for a' x'
    by (rule countedToken_cong) (simp add: s2_def)
  have S_pools: "pools S ?pid = Some P"
    and S_pt: "poolTokens S = (poolTokens s)
          (getPoolTokenId ?pid (sw_tokenIn event) \<mapsto>
             poolTokenIn\<lparr>pt_balance := pt_balance poolTokenIn
                + scaleDown (sw_amountIn event) (pt_decimals poolTokenIn)\<rparr>,
           getPoolTokenId ?pid (sw_tokenOut event) \<mapsto>
             poolTokenOut\<lparr>pt_balance := pt_balance poolTokenOut
                - scaleDown (sw_amountOut event) (pt_decimals poolTokenOut)\<rparr>)"
    and S_bal: "balancers S = (balancers s)(''2'' \<mapsto>
          vault\<lparr>bal_totalSwapCount := bal_totalSwapCount vault + 1\<rparr>)"
    and S_tok: "tokens S = (tokens s)
          (sw_tokenIn event \<mapsto> countedToken e s (sw_tokenIn event)
             (scaleDown (sw_amountIn event) (pt_decimals poolTokenIn)),
           sw_tokenOut event \<mapsto> countedToken e s (sw_tokenOut event)
             (- scaleDown (sw_amountOut event) (pt_decimals poolTokenOut)))"
    and S_sh: "poolShares S = poolShares s2"
    and S_snap: "poolSnapshots S = poolSnapshots s"
    by (simp_all add: S_def swappedStore_def ct) (simp_all add: s2_def)
  have cps: "createPoolSnapshot ?pid P ?ts S =
       Inr (S\<lparr>poolSnapshots := (poolSnapshots S)(?pid @ ''-'' @ showInt (?ts - (?ts smod DAY)) \<mapsto>
         snapshotOf S ?pid P (?ts - (?ts smod DAY)))\<rparr>)"
    if "\<not> (sw_amountOut event = 0 \<or> sw_amountIn event = 0)"
  proof (rule createPoolSnapshot_eq)
    show "\<forall>a \<in> set (pool_tokensList P). loadPoolToken S ?pid a \<noteq> None"
      using q that by (simp add: loadPoolToken_def S_pt P_def swappedPool_def)
  qed
  have run': "handleSwapEvent e event s = Inr s'"
    using run cps by (simp add: s'_def S_def s2_def P_def Let_def)
  have s'_pt: "poolTokens s' = poolTokens S"
    by (simp add: s'_def)
  have snap: "snapshotOf S ?pid P (?ts - (?ts smod DAY)) = snapshotOf s' ?pid P (?ts - (?ts smod DAY))"
    by (rule snapshotOf_cong [symmetric]) (rule s'_pt)
  have 1: "pools s' ?pid = Some P"
    using S_pools by (simp add: s'_def)
  have 2: "balancers s' = balancers S" "tokens s' = tokens S" "poolShares s' = poolShares s2"
    using S_sh by (simp_all add: s'_def)
  have 3: "shareBalance s' ?vid = shareBalance s ?vid + shareDelta e event (pool\<lparr>pool_amp := a\<rparr>)"
    using sb 2(3) by (simp add: shareBalance_def s2_def)
  have 4: "poolSnapshots s' =
         (if sw_amountOut event = 0 \<or> sw_amountIn event = 0 then poolSnapshots s
          else (poolSnapshots s)(?pid @ ''-'' @ showInt (?ts - (?ts smod DAY)) \<mapsto>
                  snapshotOf s' ?pid P (?ts - (?ts smod DAY))))"
    unfolding snap [symmetric] by (simp add: s'_def S_snap)
  show ?thesis
    using run' 1 s'_pt S_pt 2 S_bal S_tok 3 4 unfolding P_def by (intro exI [of _ s'] exI [of _ a] exI [of _ x] exI [of _ y]) simp
qed

section \<open>Swaps: counters and the liquidity refresh\<close>

lemma env0_contract: "refresh_contract env0"
proof -
  have "\<exists>ps. s = s\<lparr>pools := ps\<rparr>" for s :: store
    by (rule exI [of _ "pools s"]) simp
  moreover have "\<exists>a ps. (pool, s) = (pool\<lparr>pool_amp := a\<rparr>, s\<lparr>pools := ps\<rparr>)" for s :: store and pool :: Pool
    by (rule exI [of _ "pool_amp pool"], rule exI [of _ "pools s"]) simp
  ultimately show ?thesis
    by (simp add: refresh_contract_def env0_def)
qed

text \<open>
  C9, as the code has it. For a Swap event on a known pool with both PoolTokens present,
  the pool's \<open>swapsCount\<close>, the protocol-wide \<open>totalSwapCount\<close>, both Tokens' swap
  counts and notional balances and both PoolToken balances are updated by the same
  formulas whether or not an amount is zero. The snapshots tell the two cases apart:
  with a zero amount the handler returns before the liquidity refresh and the snapshots
  are left as they were; otherwise the day's snapshot of the pool is written, for which
  every token of the pool must have its PoolToken. The tokens other than the share
  token have theirs in both cases, as the invariant of a composable stable pool reads
  them.
\<close>

theorem handleSwapEvent_counters_and_refresh:
  assumes "refresh_contract e"
    and "SWAP_IN e \<noteq> SWAP_OUT e"
    and "sw_tokenIn event \<noteq> sw_tokenOut event"
    and "pools s (sw_poolId event) = Some pool"
    and "balancers s ''2'' = Some vault"
    and "- (2 ^ 31) \<le> ev_blockTimestamp event" "ev_blockTimestamp event < 2 ^ 31"
    and "\<forall>a \<in> set (pool_tokensList pool). a \<noteq> pool_address pool \<longrightarrow>
              loadPoolToken s (sw_poolId event) a \<noteq> None"
    and "loadPoolToken s (sw_poolId event) (sw_tokenIn event) = Some poolTokenIn"
    and "loadPoolToken s (sw_poolId event) (sw_tokenOut event) = Some poolTokenOut"
    and "sw_amountOut event = 0 \<or> sw_amountIn event = 0
           \<or> (\<forall>a \<in> set (pool_tokensList pool). loadPoolToken s (sw_poolId event) a \<noteq> None)"
  shows "\<exists>s' pool'.
     handleSwapEvent e event s = Inr s'
     \<and> pools s' (sw_poolId event) = Some pool'
     \<and> pool_swapsCount pool' = pool_swapsCount pool + 1
     \<and> balancers s' ''2'' = Some (vault\<lparr>bal_totalSwapCount := bal_totalSwapCount vault + 1\<rparr>)
     \<and> tokens s' (sw_tokenIn event) = Some (countedToken e s (sw_tokenIn event)
             (scaleDown (sw_amountIn event) (pt_decimals poolTokenIn)))
     \<and> tokens s' (sw_tokenOut event) = Some (countedToken e s (sw_tokenOut event)
             (- scaleDown (sw_amountOut event) (pt_decimals poolTokenOut)))
     \<and> loadPoolToken s' (sw_poolId event) (sw_tokenIn event) =
          Some (poolTokenIn\<lparr>pt_balance := pt_balance poolTokenIn
                  + scaleDown (sw_amountIn event) (pt_decimals poolTokenIn)\<rparr>)
     \<and> loadPoolToken s' (sw_poolId event) (sw_tokenOut event) =
          Some (poolTokenOut\<lparr>pt_balance := pt_balance poolTokenOut
                  - scaleDown (sw_amountOut event) (pt_decimals poolTokenOut)\<rparr>)
     \<and> poolSnapshots s' =
         (if sw_amountOut event = 0 \<or> sw_amountIn event = 0 then poolSnapshots s
          else (poolSnapshots s)
                 (sw_poolId event @ ''-''
                    @ showInt (ev_blockTimestamp event - (ev_blockTimestamp event smod DAY)) \<mapsto>
                  snapshotOf s' (sw_poolId event) pool'
                    (ev_blockTimestamp event - (ev_blockTimestamp event smod DAY))))"
proof -
  obtain s' a x y where run: "handleSwapEvent e event s = Inr s'"
    and pl: "pools s' (sw_poolId event) = Some (swappedPool e event pool a x y)"
    and pt: "poolTokens s' = (poolTokens s)
          (getPoolTokenId (sw_poolId event) (sw_tokenIn event) \<mapsto>
             poolTokenIn\<lparr>pt_balance := pt_balance poolTokenIn
                + scaleDown (sw_amountIn event) (pt_decimals poolTokenIn)\<rparr>,
           getPoolTokenId (sw_poolId event) (sw_tokenOut event) \<mapsto>
             poolTokenOut\<lparr>pt_balance := pt_balance poolTokenOut
                - scaleDown (sw_amountOut event) (pt_decimals poolTokenOut)\<rparr>)"
    and bl: "balancers s' = (balancers s)(''2'' \<mapsto>
          vault\<lparr>bal_totalSwapCount := bal_totalSwapCount vault + 1\<rparr>)"
    and tk: "tokens s' = (tokens s)
          (sw_tokenIn event \<mapsto> countedToken e s (sw_tokenIn event)
             (scaleDown (sw_amountIn event) (pt_decimals poolTokenIn)),
           sw_tokenOut event \<mapsto> countedToken e s (sw_tokenOut event)
             (- scaleDown (sw_amountOut event) (pt_decimals poolTokenOut)))"
    and sn: "poolSnapshots s' =
         (if sw_amountOut event = 0 \<or> sw_amountIn event = 0 then poolSnapshots s
          else (poolSnapshots s)
                 (sw_poolId event @ ''-''
                    @ showInt (ev_blockTimestamp event - (ev_blockTimestamp event smod DAY)) \<mapsto>
                  snapshotOf s' (sw_poolId event) (swappedPool e event pool a x y)
                    (ev_blockTimestamp event - (ev_blockTimestamp event smod DAY))))"
    using handleSwapEvent_after [OF assms] by blast
  have "pool_swapsCount (swappedPool e event pool a x y) = pool_swapsCount pool + 1"
    by (simp add: swappedPool_def)
  moreover have "balancers s' ''2'' = Some (vault\<lparr>bal_totalSwapCount := bal_totalSwapCount vault + 1\<rparr>)"
    by (simp add: bl)
  moreover have "tokens s' (sw_tokenIn event) = Some (countedToken e s (sw_tokenIn event)
             (scaleDown (sw_amountIn event) (pt_decimals poolTokenIn)))"
    "tokens s' (sw_tokenOut event) = Some (countedToken e s (sw_tokenOut event)
             (- scaleDown (sw_amountOut event) (pt_decimals poolTokenOut)))"
    using assms(3) by (simp_all add: tk)
  moreover have "loadPoolToken s' (sw_poolId event) (sw_tokenIn event) =
          Some (poolTokenIn\<lparr>pt_balance := pt_balance poolTokenIn
                  + scaleDown (sw_amountIn event) (pt_decimals poolTokenIn)\<rparr>)"
    "loadPoolToken s' (sw_poolId event) (sw_tokenOut event) =
          Some (poolTokenOut\<lparr>pt_balance := pt_balance poolTokenOut
                  - scaleDown (sw_amountOut event) (pt_decimals poolTokenOut)\<rparr>)"
    using assms(3) by (simp_all add: loadPoolToken_def pt)
  ultimately show ?thesis
    using run pl sn by blast
qed

lemmas swap_eval_defs =
  handleSwapEvent_def swapBody_def saveSwapBalances_def refreshInvariant_def recordSwap_def
  refreshPool_def virtualSupply_def adjustVaultShare_def getPoolShare_def
  createPoolShareEntity_def getPoolShareId_def uptickSwapsForToken_def updateTokenBalances_def
  joinExitInvariant_def

text \<open>
  After a swap with amount out zero the swap is counted, but no snapshot was written.
\<close>

theorem zero_amount_swap_counterexample:
  "map_sum id poolSnapshots (handleSwapEvent env0 swapZ storeP) = Inr Map.empty
   \<and> map_option pool_swapsCount (poolAfter (handleSwapEvent env0 swapZ storeP) ''0xpp01'') = Some 1"
  by (simp add: swap_eval_defs fixture_defs eval_defs swapZ_def poolAfter_def)

theorem handleSwapEvent_counters_and_refresh_witness:
  "(\<exists>s' pool'. handleSwapEvent env0 swapZ storeP = Inr s'
     \<and> pools s' ''0xpp01'' = Some pool' \<and> pool_swapsCount pool' = 1
     \<and> balancers s' ''2'' = Some \<lparr>bal_totalSwapCount = 1\<rparr>
     \<and> tokens s' ''0xaa'' = Some \<lparr>tok_name = [], tok_symbol = [], tok_decimals = 0,
           tok_address = ''0xaa'', tok_totalBalanceNotional = 1, tok_totalSwapCount = 1,
           tok_latestFXPrice = None, tok_fxOracleDecimals = 0\<rparr>
     \<and> tokens s' ''0xbb'' = Some \<lparr>tok_name = [], tok_symbol = [], tok_decimals = 0,
           tok_address = ''0xbb'', tok_totalBalanceNotional = 0, tok_totalSwapCount = 1,
           tok_latestFXPrice = None, tok_fxOracleDecimals = 0\<rparr>
     \<and> loadPoolToken s' ''0xpp01'' ''0xaa'' = Some ((freshPoolToken ''A'' 6)\<lparr>pt_balance := 1\<rparr>)
     \<and> loadPoolToken s' ''0xpp01'' ''0xbb'' = Some (freshPoolToken ''B'' 18)
     \<and> poolSnapshots s' = Map.empty)
   \<and> (\<exists>s' pool'. handleSwapEvent env0 swapN storeP = Inr s'
     \<and> pools s' ''0xpp01'' = Some pool' \<and> pool_swapsCount pool' = 1
     \<and> loadPoolToken s' ''0xpp01'' ''0xaa'' = Some ((freshPoolToken ''A'' 6)\<lparr>pt_balance := 1\<rparr>)
     \<and> loadPoolToken s' ''0xpp01'' ''0xbb'' = Some ((freshPoolToken ''B'' 18)\<lparr>pt_balance := - 2\<rparr>)
     \<and> map_option snap_swapsCount (poolSnapshots s' (''0xpp01'' @ ''-'' @ showInt 86400)) = Some 1
     \<and> dom (poolSnapshots s') = {''0xpp01'' @ ''-'' @ showInt 86400})"
proof
  show "\<exists>s' pool'. handleSwapEvent env0 swapZ storeP = Inr s'
     \<and> pools s' ''0xpp01'' = Some pool' \<and> pool_swapsCount pool' = 1
     \<and> balancers s' ''2'' = Some \<lparr>bal_totalSwapCount = 1\<rparr>
     \<and> tokens s' ''0xaa'' = Some \<lparr>tok_name = [], tok_symbol = [], tok_decimals = 0,
           tok_address = ''0xaa'', tok_totalBalanceNotional = 1, tok_totalSwapCount = 1,
           tok_latestFXPrice = None, tok_fxOracleDecimals = 0\<rparr>
     \<and> tokens s' ''0xbb'' = Some \<lparr>tok_name = [], tok_symbol = [], tok_decimals = 0,
           tok_address = ''0xbb'', tok_totalBalanceNotional = 0, tok_totalSwapCount = 1,
           tok_latestFXPrice = None, tok_fxOracleDecimals = 0\<rparr>
     \<and> loadPoolToken s' ''0xpp01'' ''0xaa'' = Some ((freshPoolToken ''A'' 6)\<lparr>pt_balance := 1\<rparr>)
     \<and> loadPoolToken s' ''0xpp01'' ''0xbb'' = Some (freshPoolToken ''B'' 18)
     \<and> poolSnapshots s' = Map.empty"
    using handleSwapEvent_counters_and_refresh [where e = env0 and event = swapZ and s = storeP
        and pool = poolP and vault = "\<lparr>bal_totalSwapCount = 0\<rparr>"
        and poolTokenIn = "freshPoolToken ''A'' 6" and poolTokenOut = "freshPoolToken ''B'' 18",
        OF env0_contract]
    by (simp add: fixture_defs swapZ_def loadPoolToken_def getPoolTokenId_def scaleDown_def u8_def
        countedToken_def tokenOrNew_def getToken_def createToken_def Let_def)
next
  show "\<exists>s' pool'. handleSwapEvent env0 swapN storeP = Inr s'
     \<and> pools s' ''0xpp01'' = Some pool' \<and> pool_swapsCount pool' = 1
     \<and> loadPoolToken s' ''0xpp01'' ''0xaa'' = Some ((freshPoolToken ''A'' 6)\<lparr>pt_balance := 1\<rparr>)
     \<and> loadPoolToken s' ''0xpp01'' ''0xbb'' = Some ((freshPoolToken ''B'' 18)\<lparr>pt_balance := - 2\<rparr>)
     \<and> map_option snap_swapsCount (poolSnapshots s' (''0xpp01'' @ ''-'' @ showInt 86400)) = Some 1
     \<and> dom (poolSnapshots s') = {''0xpp01'' @ ''-'' @ showInt 86400}"
  proof -
    have "\<exists>s' pool'.
       handleSwapEvent env0 swapN storeP = Inr s'
       \<and> pools s' (sw_poolId swapN) = Some pool'
       \<and> pool_swapsCount pool' = pool_swapsCount poolP + 1
       \<and> balancers s' ''2'' = Some (\<lparr>bal_totalSwapCount = 0\<rparr>\<lparr>bal_totalSwapCount := bal_totalSwapCount \<lparr>bal_totalSwapCount = 0\<rparr> + 1\<rparr>)
       \<and> tokens s' (sw_tokenIn swapN) = Some (countedToken env0 storeP (sw_tokenIn swapN)
               (scaleDown (sw_amountIn swapN) (pt_decimals (freshPoolToken ''A'' 6))))
       \<and> tokens s' (sw_tokenOut swapN) = Some (countedToken env0 storeP (sw_tokenOut swapN)
               (- scaleDown (sw_amountOut swapN) (pt_decimals (freshPoolToken ''B'' 18))))
       \<and> loadPoolToken s' (sw_poolId swapN) (sw_tokenIn swapN) =
            Some ((freshPoolToken ''A'' 6)\<lparr>pt_balance := pt_balance (freshPoolToken ''A'' 6)
                    + scaleDown (sw_amountIn swapN) (pt_decimals (freshPoolToken ''A'' 6))\<rparr>)
       \<and> loadPoolToken s' (sw_poolId swapN) (sw_tokenOut swapN) =
            Some ((freshPoolToken ''B'' 18)\<lparr>pt_balance := pt_balance (freshPoolToken ''B'' 18)
                    - scaleDown (sw_amountOut swapN) (pt_decimals (freshPoolToken ''B'' 18))\<rparr>)
       \<and> poolSnapshots s' =
           (if sw_amountOut swapN = 0 \<or> sw_amountIn swapN = 0 then poolSnapshots storeP
            else (poolSnapshots storeP)
                   (sw_poolId swapN @ ''-''
                      @ showInt (ev_blockTimestamp swapN - (ev_blockTimestamp swapN smod DAY)) \<mapsto>
                    snapshotOf s' (sw_poolId swapN) pool'
                      (ev_blockTimestamp swapN - (ev_blockTimestamp swapN smod DAY))))"
      by (rule handleSwapEvent_counters_and_refresh [where e = env0 and event = swapN and s = storeP
        and pool = poolP and vault = "\<lparr>bal_totalSwapCount = 0\<rparr>"
        and poolTokenIn = "freshPoolToken ''A'' 6" and poolTokenOut = "freshPoolToken ''B'' 18",
        OF env0_contract])
       (simp_all add: fixture_defs swapN_def swapZ_def loadPoolToken_def getPoolTokenId_def)
    then obtain s' pool' where run: "handleSwapEvent env0 swapN storeP = Inr s'"
      and pl: "pools s' (sw_poolId swapN) = Some pool'"
        "pool_swapsCount pool' = pool_swapsCount poolP + 1"
      and pt: "loadPoolToken s' (sw_poolId swapN) (sw_tokenIn swapN) =
            Some ((freshPoolToken ''A'' 6)\<lparr>pt_balance := pt_balance (freshPoolToken ''A'' 6)
                    + scaleDown (sw_amountIn swapN) (pt_decimals (freshPoolToken ''A'' 6))\<rparr>)"
       "loadPoolToken s' (sw_poolId swapN) (sw_tokenOut swapN) =
            Some ((freshPoolToken ''B'' 18)\<lparr>pt_balance := pt_balance (freshPoolToken ''B'' 18)
                    - scaleDown (sw_amountOut swapN) (pt_decimals (freshPoolToken ''B'' 18))\<rparr>)"
      and sn: "poolSnapshots s' =
           (if sw_amountOut swapN = 0 \<or> sw_amountIn swapN = 0 then poolSnapshots storeP
            else (poolSnapshots storeP)
                   (sw_poolId swapN @ ''-''
                      @ showInt (ev_blockTimestamp swapN - (ev_blockTimestamp swapN smod DAY)) \<mapsto>
                    snapshotOf s' (sw_poolId swapN) pool'
                      (ev_blockTimestamp swapN - (ev_blockTimestamp swapN smod DAY))))"
      by blast
    have ev: "sw_poolId swapN = ''0xpp01''" "sw_tokenIn swapN = ''0xaa''" "sw_tokenOut swapN = ''0xbb''"
      "sw_amountIn swapN = 1000000" "sw_amountOut swapN = 2000000000000000000"
      "ev_blockTimestamp swapN = 90000"
      by (simp_all add: swapN_def swapZ_def)
    have day: "(90000::int) - 90000 smod DAY = 86400"
      by (simp add: DAY_def signed_modulo_int_def)
    have a: "loadPoolToken s' ''0xpp01'' ''0xaa'' = Some ((freshPoolToken ''A'' 6)\<lparr>pt_balance := 1\<rparr>)"
      "loadPoolToken s' ''0xpp01'' ''0xbb'' = Some ((freshPoolToken ''B'' 18)\<lparr>pt_balance := - 2\<rparr>)"
      using pt unfolding ev by (simp_all add: freshPoolToken_def scaleDown_def u8_def)
    have "poolSnapshots s' = [''0xpp01'' @ ''-'' @ showInt 86400 \<mapsto> snapshotOf s' ''0xpp01'' pool' 86400]"
      using sn unfolding ev day by (simp add: fixture_defs)
    then have "map_option snap_swapsCount (poolSnapshots s' (''0xpp01'' @ ''-'' @ showInt 86400)) = Some 1"
      "dom (poolSnapshots s') = {''0xpp01'' @ ''-'' @ showInt 86400}"
      using pl(2) by (simp_all add: snapshotOf_def poolP_def)
    then show ?thesis
      using run pl a unfolding ev by (intro exI [of _ s'] exI [of _ pool']) (simp add: poolP_def)
  qed
qed

section \<open>Swaps of the share token\<close>

lemma swappedPool_fields:
  "pool_address (swappedPool e event pool a x y) = pool_address pool"
  "pool_poolType (swappedPool e event pool a x y) = pool_poolType pool"
  "pool_tokensList (swappedPool e event pool a x y) = pool_tokensList pool"
  "pool_totalShares (swappedPool e event pool a x y)
     = pool_totalShares pool + shareDelta e event (pool\<lparr>pool_amp := a\<rparr>)"
  by (simp_all add: swappedPool_def)

text \<open>
  C5. On a pool with preminted shares whose tokens all have PoolTokens, a swap with
  \<open>tokenOut = pool.address\<close> raises \<open>totalShares\<close> and the vault's share balance by
  the amount out at 18 decimals, and a following swap with \<open>tokenIn = pool.address\<close>
  and the same raw amount lowers both by as much: after the pair both are what they were
  before it. The vault's balance counts as zero while it has no PoolShare.
\<close>

theorem virtual_supply_symmetry:
  assumes c: "refresh_contract e"
    and d: "SWAP_IN e \<noteq> SWAP_OUT e"
    and hv: "\<forall>q. pool_poolType q = pool_poolType pool \<longrightarrow> hasVirtualSupply e q"
    and pl: "pools s poolId = Some pool"
    and b: "balancers s ''2'' = Some vault"
    and p: "\<forall>a \<in> set (pool_tokensList pool). loadPoolToken s poolId a \<noteq> None"
    and m: "sw_poolId mint = poolId" "sw_tokenOut mint = pool_address pool"
      "sw_tokenIn mint \<in> set (pool_tokensList pool)" "sw_tokenIn mint \<noteq> pool_address pool"
      "pool_address pool \<in> set (pool_tokensList pool)"
      "- (2 ^ 31) \<le> ev_blockTimestamp mint" "ev_blockTimestamp mint < 2 ^ 31"
    and u: "sw_poolId burn = poolId" "sw_tokenIn burn = pool_address pool"
      "sw_tokenOut burn \<in> set (pool_tokensList pool)" "sw_tokenOut burn \<noteq> pool_address pool"
      "- (2 ^ 31) \<le> ev_blockTimestamp burn" "ev_blockTimestamp burn < 2 ^ 31"
    and eq: "sw_amountIn burn = sw_amountOut mint"
  shows "\<exists>s1 s2 pool1 pool2.
      handleSwapEvent e mint s = Inr s1 \<and> handleSwapEvent e burn s1 = Inr s2
      \<and> pools s1 poolId = Some pool1 \<and> pools s2 poolId = Some pool2
      \<and> pool_totalShares pool1 = pool_totalShares pool + tokenToDecimal (sw_amountOut mint) 18
      \<and> shareBalance s1 (getPoolShareId (getPoolAddress e poolId) (VAULT_ADDRESS e))
          = shareBalance s (getPoolShareId (getPoolAddress e poolId) (VAULT_ADDRESS e))
            + tokenToDecimal (sw_amountOut mint) 18
      \<and> pool_totalShares pool2 = pool_totalShares pool
      \<and> shareBalance s2 (getPoolShareId (getPoolAddress e poolId) (VAULT_ADDRESS e))
          = shareBalance s (getPoolShareId (getPoolAddress e poolId) (VAULT_ADDRESS e))"
proof -
  let ?vid = "getPoolShareId (getPoolAddress e poolId) (VAULT_ADDRESS e)"
  let ?amt = "tokenToDecimal (sw_amountOut mint) 18"
  obtain ptIn1 ptOut1 where i1: "loadPoolToken s (sw_poolId mint) (sw_tokenIn mint) = Some ptIn1"
    and o1: "loadPoolToken s (sw_poolId mint) (sw_tokenOut mint) = Some ptOut1"
    using p m(1,2,3,5) by fastforce
  have n1: "sw_tokenIn mint \<noteq> sw_tokenOut mint"
    using m(2,4) by simp
  have p1: "\<forall>a \<in> set (pool_tokensList pool). a \<noteq> pool_address pool \<longrightarrow>
              loadPoolToken s (sw_poolId mint) a \<noteq> None"
    using p m(1) by simp
  have pl1: "pools s (sw_poolId mint) = Some pool"
    using pl m(1) by simp
  obtain s1 a1 x1 y1 where run1: "handleSwapEvent e mint s = Inr s1"
    and pool1: "pools s1 (sw_poolId mint) = Some (swappedPool e mint pool a1 x1 y1)"
    and pt1: "poolTokens s1 = (poolTokens s)
          (getPoolTokenId (sw_poolId mint) (sw_tokenIn mint) \<mapsto>
             ptIn1\<lparr>pt_balance := pt_balance ptIn1
                + scaleDown (sw_amountIn mint) (pt_decimals ptIn1)\<rparr>,
           getPoolTokenId (sw_poolId mint) (sw_tokenOut mint) \<mapsto>
             ptOut1\<lparr>pt_balance := pt_balance ptOut1
                - scaleDown (sw_amountOut mint) (pt_decimals ptOut1)\<rparr>)"
    and bl1: "balancers s1 = (balancers s)(''2'' \<mapsto>
          vault\<lparr>bal_totalSwapCount := bal_totalSwapCount vault + 1\<rparr>)"
    and sb1: "shareBalance s1 (getPoolShareId (getPoolAddress e (sw_poolId mint)) (VAULT_ADDRESS e))
        = shareBalance s (getPoolShareId (getPoolAddress e (sw_poolId mint)) (VAULT_ADDRESS e))
          + shareDelta e mint (pool\<lparr>pool_amp := a1\<rparr>)"
    using handleSwapEvent_after [OF c d n1 pl1 b m(6,7) p1 i1 o1] p m(1) by blast
  define P1 where "P1 = swappedPool e mint pool a1 x1 y1"
  have d1: "shareDelta e mint (pool\<lparr>pool_amp := a1\<rparr>) = ?amt"
    using hv m(2,4) by (simp add: shareDelta_def)
  have P1_shares: "pool_totalShares P1 = pool_totalShares pool + ?amt"
    by (simp add: P1_def swappedPool_fields d1)
  have P1_same: "pool_address P1 = pool_address pool" "pool_poolType P1 = pool_poolType pool"
    "pool_tokensList P1 = pool_tokensList pool"
    by (simp_all add: P1_def swappedPool_fields)
  have keep: "loadPoolToken s poolId a \<noteq> None \<Longrightarrow> loadPoolToken s1 poolId a \<noteq> None" for a
    by (simp add: loadPoolToken_def pt1)
  have p2: "\<forall>a \<in> set (pool_tokensList P1). a \<noteq> pool_address P1 \<longrightarrow>
              loadPoolToken s1 (sw_poolId burn) a \<noteq> None"
    using p keep u(1) by (simp add: P1_same)
  have q2: "\<forall>a \<in> set (pool_tokensList P1). loadPoolToken s1 (sw_poolId burn) a \<noteq> None"
    using p keep u(1) by (simp add: P1_same)
  obtain ptIn2 ptOut2 where i2: "loadPoolToken s1 (sw_poolId burn) (sw_tokenIn burn) = Some ptIn2"
    and o2: "loadPoolToken s1 (sw_poolId burn) (sw_tokenOut burn) = Some ptOut2"
    using p keep u(1,2,3) m(5) by fastforce
  have n2: "sw_tokenIn burn \<noteq> sw_tokenOut burn"
    using u(2,4) by simp
  have pl2: "pools s1 (sw_poolId burn) = Some P1"
    using pool1 m(1) u(1) by (simp add: P1_def)
  have b2: "balancers s1 ''2'' = Some (vault\<lparr>bal_totalSwapCount := bal_totalSwapCount vault + 1\<rparr>)"
    by (simp add: bl1)
  obtain s2 a2 x2 y2 where run2: "handleSwapEvent e burn s1 = Inr s2"
    and pool2: "pools s2 (sw_poolId burn) = Some (swappedPool e burn P1 a2 x2 y2)"
    and sb2: "shareBalance s2 (getPoolShareId (getPoolAddress e (sw_poolId burn)) (VAULT_ADDRESS e))
        = shareBalance s1 (getPoolShareId (getPoolAddress e (sw_poolId burn)) (VAULT_ADDRESS e))
          + shareDelta e burn (P1\<lparr>pool_amp := a2\<rparr>)"
    using handleSwapEvent_after [OF c d n2 pl2 b2 u(5,6) p2 i2 o2] q2 by blast
  have d2: "shareDelta e burn (P1\<lparr>pool_amp := a2\<rparr>) = - ?amt"
    using hv u(2,4) eq by (simp add: shareDelta_def P1_same)
  define P2 where "P2 = swappedPool e burn P1 a2 x2 y2"
  have P2_shares: "pool_totalShares P2 = pool_totalShares pool"
    by (simp add: P2_def swappedPool_fields d2 P1_shares)
  have "pools s1 poolId = Some P1" "pools s2 poolId = Some P2"
    using pool1 pool2 m(1) u(1) by (simp_all add: P1_def P2_def)
  moreover have "shareBalance s1 ?vid = shareBalance s ?vid + ?amt"
    using sb1 d1 m(1) by simp
  moreover have "shareBalance s2 ?vid = shareBalance s ?vid"
    using sb2 sb1 d1 d2 m(1) u(1) by simp
  ultimately show ?thesis
    using run1 run2 P1_shares P2_shares by blast
qed

theorem virtual_supply_symmetry_witness:
  "map_option pool_totalShares
     (poolAfter (andThen (handleSwapEvent env0 mintC storeC) (handleSwapEvent env0 burnC)) ''0xcc01'')
     = Some 10
   \<and> shareBalanceAfter (andThen (handleSwapEvent env0 mintC storeC) (handleSwapEvent env0 burnC))
       ''0xcc-0xba'' = Some 0
   \<and> map_option pool_totalShares (poolAfter (handleSwapEvent env0 mintC storeC) ''0xcc01'') = Some 17
   \<and> shareBalanceAfter (handleSwapEvent env0 mintC storeC) ''0xcc-0xba'' = Some 7"
proof -
  have "\<exists>s1 s2 pool1 pool2.
      handleSwapEvent env0 mintC storeC = Inr s1 \<and> handleSwapEvent env0 burnC s1 = Inr s2
      \<and> pools s1 ''0xcc01'' = Some pool1 \<and> pools s2 ''0xcc01'' = Some pool2
      \<and> pool_totalShares pool1 = pool_totalShares poolC + tokenToDecimal (sw_amountOut mintC) 18
      \<and> shareBalance s1 (getPoolShareId (getPoolAddress env0 ''0xcc01'') (VAULT_ADDRESS env0))
          = shareBalance storeC (getPoolShareId (getPoolAddress env0 ''0xcc01'') (VAULT_ADDRESS env0))
            + tokenToDecimal (sw_amountOut mintC) 18
      \<and> pool_totalShares pool2 = pool_totalShares poolC
      \<and> shareBalance s2 (getPoolShareId (getPoolAddress env0 ''0xcc01'') (VAULT_ADDRESS env0))
          = shareBalance storeC (getPoolShareId (getPoolAddress env0 ''0xcc01'') (VAULT_ADDRESS env0))"
    by (rule virtual_supply_symmetry [where e = env0 and s = storeC and pool = poolC
          and vault = "\<lparr>bal_totalSwapCount = 0\<rparr>" and mint = mintC and burn = burnC,
          OF env0_contract])
       (simp_all add: fixture_defs poolC_def storeC_def mintC_def burnC_def loadPoolToken_def
          getPoolTokenId_def)
  then obtain s1 s2 pool1 pool2 where
      "handleSwapEvent env0 mintC storeC = Inr s1" "handleSwapEvent env0 burnC s1 = Inr s2"
      "pools s1 ''0xcc01'' = Some pool1" "pools s2 ''0xcc01'' = Some pool2"
      "pool_totalShares pool1 = pool_totalShares poolC + tokenToDecimal (sw_amountOut mintC) 18"
      "shareBalance s1 (getPoolShareId (getPoolAddress env0 ''0xcc01'') (VAULT_ADDRESS env0))
          = shareBalance storeC (getPoolShareId (getPoolAddress env0 ''0xcc01'') (VAULT_ADDRESS env0))
            + tokenToDecimal (sw_amountOut mintC) 18"
      "pool_totalShares pool2 = pool_totalShares poolC"
      "shareBalance s2 (getPoolShareId (getPoolAddress env0 ''0xcc01'') (VAULT_ADDRESS env0))
          = shareBalance storeC (getPoolShareId (getPoolAddress env0 ''0xcc01'') (VAULT_ADDRESS env0))"
    by blast
  then show ?thesis
    by (simp add: andThen_def poolAfter_def shareBalanceAfter_def getPoolShareId_def env0_def
        poolC_def mintC_def tokenToDecimal_def u8_def shareBalance_def storeC_def emptyStore_def)
qed

section \<open>Missing references\<close>




section \<open>Joins\<close>

lemma foldl_plus: "foldl (\<lambda>sum amount. sum + amount) z xs = z + sum_list xs" for z :: int
  by (induction xs arbitrary: z) simp_all

lemma arrayGet_ok: "i < length xs \<Longrightarrow> arrayGet xs i = Inr (xs ! i)"
  by (simp add: arrayGet_def)

lemma joinAmountsLoop_eq:
  "\<forall>a \<in> set toks. loadPoolToken s poolId a \<noteq> None \<Longrightarrow> i + length toks \<le> length amounts \<Longrightarrow>
   length acc = length amounts \<Longrightarrow>
   joinAmountsLoop s poolId amounts toks i acc =
     Inr (take i acc
          @ map (\<lambda>j. Some (scaleDown (amounts ! (i + j)) (decimalsOf s poolId (toks ! j))))
              [0..<length toks]
          @ drop (i + length toks) acc)"
proof (induction toks arbitrary: i acc)
  case Nil
  then show ?case by simp
next
  case (Cons t rest)
  obtain pt where pt: "loadPoolToken s poolId t = Some pt"
    using Cons.prems(1) by auto
  let ?v = "Some (scaleDown (amounts ! i) (pt_decimals pt))"
  have i: "i < length acc" "i < length amounts"
    using Cons.prems by simp_all
  have IH: "joinAmountsLoop s poolId amounts rest (Suc i) (acc[i := ?v]) =
     Inr (take (Suc i) (acc[i := ?v])
          @ map (\<lambda>j. Some (scaleDown (amounts ! (Suc i + j)) (decimalsOf s poolId (rest ! j))))
              [0..<length rest]
          @ drop (Suc i + length rest) (acc[i := ?v]))"
    using Cons.prems by (intro Cons.IH) simp_all
  have 1: "take (Suc i) (acc[i := ?v]) = take i acc @ [?v]"
    using i by (simp add: take_Suc_conv_app_nth)
  have 2: "drop (Suc i + length rest) (acc[i := ?v]) = drop (i + length (t # rest)) acc"
    by simp
  have 3: "map (\<lambda>j. Some (scaleDown (amounts ! (i + j)) (decimalsOf s poolId ((t # rest) ! j))))
              [0..<length (t # rest)]
           = ?v # map (\<lambda>j. Some (scaleDown (amounts ! (Suc i + j)) (decimalsOf s poolId (rest ! j))))
              [0..<length rest]"
  proof -
    have "[0..<length (t # rest)] = 0 # map Suc [0..<length rest]"
      by (simp add: upt_conv_Cons map_Suc_upt del: upt_Suc)
    then show ?thesis
      using pt by (simp add: comp_def decimalsOf_def del: upt_Suc)
  qed
  show ?case
    using pt i by (simp only: joinAmountsLoop.simps option.case arrayGet_ok andThen_def sum.case
        IH 1 2 3) simp
qed

lemma joinStep_eq:
  "(case getToken e t s1 of (token, s2) \<Rightarrow>
      F (s2\<lparr>tokens := (tokens s2)(t \<mapsto>
         token\<lparr>tok_totalBalanceNotional := tok_totalBalanceNotional token + x\<rparr>)\<rparr>))
   = F (s1\<lparr>tokens := (tokens s1)(t \<mapsto>
         (tokenOrNew e s1 t)\<lparr>tok_totalBalanceNotional :=
            tok_totalBalanceNotional (tokenOrNew e s1 t) + x\<rparr>)\<rparr>)"
  by (cases "tokens s1 t") (simp_all add: getToken_def createToken_def tokenOrNew_def Let_def)

lemma joinBalancesLoop_effect:
  assumes "distinct toks"
    and "\<forall>a \<in> set toks. loadPoolToken s poolId a \<noteq> None"
    and "i + length toks \<le> length amounts" "i + length toks \<le> length fees"
  shows "\<exists>s'. joinBalancesLoop e poolId amounts fees toks i s = Inr s'
    \<and> s' = s\<lparr>poolTokens := poolTokens s', tokens := tokens s'\<rparr>
    \<and> (\<forall>a. a \<notin> set toks \<longrightarrow> loadPoolToken s' poolId a = loadPoolToken s poolId a
                               \<and> tokens s' a = tokens s a)
    \<and> (\<forall>j < length toks. \<exists>pt.
          loadPoolToken s poolId (toks ! j) = Some pt
          \<and> loadPoolToken s' poolId (toks ! j) =
              Some (pt\<lparr>pt_balance := pt_balance pt
                      + tokenToDecimal (amounts ! (i + j) - fees ! (i + j)) (pt_decimals pt)\<rparr>)
          \<and> tokens s' (toks ! j) =
              Some ((tokenOrNew e s (toks ! j))\<lparr>tok_totalBalanceNotional :=
                      tok_totalBalanceNotional (tokenOrNew e s (toks ! j))
                      + tokenToDecimal (amounts ! (i + j) - fees ! (i + j)) (pt_decimals pt)\<rparr>))"
  using assms
proof (induction toks arbitrary: i s)
  case Nil
  then show ?case by simp
next
  case (Cons t rest)
  obtain pt where pt: "loadPoolToken s poolId t = Some pt"
    using Cons.prems(2) by auto
  define x where "x = tokenToDecimal (amounts ! i - fees ! i) (pt_decimals pt)"
  define s1 where "s1 = s\<lparr>poolTokens := (poolTokens s)(getPoolTokenId poolId t \<mapsto>
                       pt\<lparr>pt_balance := pt_balance pt + x\<rparr>)\<rparr>"
  define s3 where "s3 = s1\<lparr>tokens := (tokens s1)(t \<mapsto>
         (tokenOrNew e s1 t)\<lparr>tok_totalBalanceNotional :=
            tok_totalBalanceNotional (tokenOrNew e s1 t) + x\<rparr>)\<rparr>"
  have i: "i < length amounts" "i < length fees"
    using Cons.prems by simp_all
  have tn: "tokenOrNew e s1 a = tokenOrNew e s a" for a
    by (rule tokenOrNew_tokens_cong) (simp add: s1_def)
  have step: "joinBalancesLoop e poolId amounts fees (t # rest) i s
                = joinBalancesLoop e poolId amounts fees rest (Suc i) s3"
    using pt i
    by (simp only: joinBalancesLoop.simps option.case arrayGet_ok andThen_def sum.case Let_def
        joinStep_eq x_def [symmetric] s1_def [symmetric] s3_def [symmetric])
  have t_rest: "t \<notin> set rest" "distinct rest"
    using Cons.prems(1) by simp_all
  have load3: "loadPoolToken s3 poolId a = (if a = t then Some (pt\<lparr>pt_balance := pt_balance pt + x\<rparr>)
                                            else loadPoolToken s poolId a)" for a
    by (simp add: s3_def s1_def loadPoolToken_def)
  have tok3: "tokens s3 a = (if a = t then Some ((tokenOrNew e s t)\<lparr>tok_totalBalanceNotional :=
                      tok_totalBalanceNotional (tokenOrNew e s t) + x\<rparr>) else tokens s a)" for a
    by (simp add: s3_def tn) (simp add: s1_def)
  have tn3: "a \<noteq> t \<Longrightarrow> tokenOrNew e s3 a = tokenOrNew e s a" for a
    using tokenOrNew_upd [of e s1 t _ a] by (simp add: s3_def tn)
  have pres3: "\<forall>a \<in> set rest. loadPoolToken s3 poolId a \<noteq> None"
    using Cons.prems(2) by (simp add: load3)
  obtain s' where run: "joinBalancesLoop e poolId amounts fees rest (Suc i) s3 = Inr s'"
    and frame: "s' = s3\<lparr>poolTokens := poolTokens s', tokens := tokens s'\<rparr>"
    and other: "\<And>a. a \<notin> set rest \<Longrightarrow> loadPoolToken s' poolId a = loadPoolToken s3 poolId a
                               \<and> tokens s' a = tokens s3 a"
    and each: "\<And>j. j < length rest \<Longrightarrow> \<exists>pt.
          loadPoolToken s3 poolId (rest ! j) = Some pt
          \<and> loadPoolToken s' poolId (rest ! j) =
              Some (pt\<lparr>pt_balance := pt_balance pt
                      + tokenToDecimal (amounts ! (Suc i + j) - fees ! (Suc i + j)) (pt_decimals pt)\<rparr>)
          \<and> tokens s' (rest ! j) =
              Some ((tokenOrNew e s3 (rest ! j))\<lparr>tok_totalBalanceNotional :=
                      tok_totalBalanceNotional (tokenOrNew e s3 (rest ! j))
                      + tokenToDecimal (amounts ! (Suc i + j) - fees ! (Suc i + j)) (pt_decimals pt)\<rparr>)"
    using Cons.IH [OF t_rest(2) pres3, of "Suc i"] Cons.prems(3,4) by auto
  have 1: "joinBalancesLoop e poolId amounts fees (t # rest) i s = Inr s'"
    using step run by simp
  have 2: "s' = s\<lparr>poolTokens := poolTokens s', tokens := tokens s'\<rparr>"
    by (subst frame) (simp add: s3_def s1_def)
  have 3: "loadPoolToken s' poolId a = loadPoolToken s poolId a \<and> tokens s' a = tokens s a"
    if "a \<notin> set (t # rest)" for a
    using other [of a] that by (simp add: load3 tok3)
  have 4: "\<exists>pt. loadPoolToken s poolId ((t # rest) ! j) = Some pt
          \<and> loadPoolToken s' poolId ((t # rest) ! j) =
              Some (pt\<lparr>pt_balance := pt_balance pt
                      + tokenToDecimal (amounts ! (i + j) - fees ! (i + j)) (pt_decimals pt)\<rparr>)
          \<and> tokens s' ((t # rest) ! j) =
              Some ((tokenOrNew e s ((t # rest) ! j))\<lparr>tok_totalBalanceNotional :=
                      tok_totalBalanceNotional (tokenOrNew e s ((t # rest) ! j))
                      + tokenToDecimal (amounts ! (i + j) - fees ! (i + j)) (pt_decimals pt)\<rparr>)"
    if "j < length (t # rest)" for j
  proof (cases j)
    case 0
    then show ?thesis
      using other [OF t_rest(1)] pt by (simp add: load3 tok3 x_def)
  next
    case (Suc j')
    then have j': "j' < length rest" using that by simp
    then have ne: "rest ! j' \<noteq> t"
      using t_rest(1) nth_mem by metis
    show ?thesis
      using each [OF j'] ne by (simp add: Suc load3 tn3)
  qed
  show ?case
    using 1 2 3 4 by blast
qed

lemma preMintedLoop_absent:
  "poolAddress \<notin> set toks \<Longrightarrow> preMintedLoop poolAddress amounts toks i acc = Inr acc"
  by (induction toks arbitrary: i) auto

lemma preMintedLoop_found:
  "distinct toks \<Longrightarrow> k < length toks \<Longrightarrow> toks ! k = poolAddress \<Longrightarrow>
   i + length toks \<le> length amounts \<Longrightarrow>
   preMintedLoop poolAddress amounts toks i acc
     = Inr (amounts ! (i + k), scaleDown (amounts ! (i + k)) 18)"
proof (induction toks arbitrary: i k acc)
  case Nil
  then show ?case by simp
next
  case (Cons t rest)
  show ?case
  proof (cases k)
    case 0
    then have "t = poolAddress" "poolAddress \<notin> set rest"
      using Cons.prems(1,3) by auto
    then show ?thesis
      using 0 Cons.prems(4) by (simp add: arrayGet_ok andThen_def preMintedLoop_absent)
  next
    case (Suc k')
    then have "t \<noteq> poolAddress"
      using Cons.prems(1,2,3) by auto
    then show ?thesis
      using Suc Cons.prems Cons.IH [of k' "Suc i" acc] by simp
  qed
qed

lemma andThen_simps:
  "andThen (Inl err) f = Inl err"
  "andThen (Inr x) f = f x"
  by (simp_all add: andThen_def)

lemma liquidity_refresh:
  assumes "pools s poolId = Some pool" "- (2 ^ 31) \<le> t" "t < 2 ^ 31"
  shows "andThen (updatePoolLiquidity poolId bn t s) (\<lambda>(_, s1). Inr s1)
           = createPoolSnapshot poolId pool t s"
proof -
  have "updatePoolLiquidity poolId bn t s
          = andThen (createPoolSnapshot poolId pool t s) (\<lambda>s1. Inr (True, s1))"
    using assms by (simp add: updatePoolLiquidity_def toI32_ok andThen_simps)
  then show ?thesis
    by (simp only: refresh_outcome)
qed

lemma tokenOrNew_None:
  "tokens s a = None \<Longrightarrow> tok_totalBalanceNotional (tokenOrNew e s a) = 0
     \<and> tok_address (tokenOrNew e s a) = a"
  by (simp add: tokenOrNew_def getToken_def createToken_def Let_def)

lemma handlePoolJoined_run:
  assumes pl: "pools s (pbc_poolId ev) = Some pool"
    and dist: "distinct (pool_tokensList pool)"
    and pres: "\<forall>a \<in> set (pool_tokensList pool). loadPoolToken s (pbc_poolId ev) a \<noteq> None"
    and len: "length (pbc_deltas ev) = length (pool_tokensList pool)"
      "length (pbc_protocolFeeAmounts ev) = length (pool_tokensList pool)"
    and t: "- (2 ^ 31) \<le> ev_blockTimestamp ev" "ev_blockTimestamp ev < 2 ^ 31"
  shows "\<exists>sB join v.
     sB = s\<lparr>joinExits := (joinExits s)(ev_txHash ev @ showInt (ev_logIndex ev) \<mapsto> join),
             poolTokens := poolTokens sB, tokens := tokens sB\<rparr>
     \<and> je_type join = ''Join''
     \<and> je_amounts join = map (\<lambda>j. Some (scaleDown (pbc_deltas ev ! j)
                               (decimalsOf s (pbc_poolId ev) (pool_tokensList pool ! j))))
                             [0..<length (pool_tokensList pool)]
     \<and> (\<forall>j < length (pool_tokensList pool). \<exists>pt.
          loadPoolToken s (pbc_poolId ev) (pool_tokensList pool ! j) = Some pt
          \<and> loadPoolToken sB (pbc_poolId ev) (pool_tokensList pool ! j) =
              Some (pt\<lparr>pt_balance := pt_balance pt
                      + tokenToDecimal (pbc_deltas ev ! j - pbc_protocolFeeAmounts ev ! j)
                          (pt_decimals pt)\<rparr>)
          \<and> tokens sB (pool_tokensList pool ! j) =
              Some ((tokenOrNew e s (pool_tokensList pool ! j))\<lparr>tok_totalBalanceNotional :=
                      tok_totalBalanceNotional (tokenOrNew e s (pool_tokensList pool ! j))
                      + tokenToDecimal (pbc_deltas ev ! j - pbc_protocolFeeAmounts ev ! j)
                          (pt_decimals pt)\<rparr>))
     \<and> (\<forall>k < length (pool_tokensList pool). pool_tokensList pool ! k = pool_address pool \<longrightarrow>
            v = pbc_deltas ev ! k)
     \<and> (pool_address pool \<notin> set (pool_tokensList pool) \<longrightarrow> v = 0)
     \<and> handlePoolJoined e ev s =
         (if pool_poolType pool = Some (PoolType_StablePhantom e)
               \<or> isComposableStablePool e pool \<or> isManagedPool e pool
          then (case handleTransfer e
                       (mockTransfer ev (pool_address pool) (VAULT_ADDRESS e) (ZERO_ADDRESS e) v) sB of
                  Inl err \<Rightarrow> Inl err
                | Inr s3 \<Rightarrow>
                    createPoolSnapshot (pbc_poolId ev)
                      (pool\<lparr>pool_totalShares := pool_totalShares pool - scaleDown v 18\<rparr>)
                      (ev_blockTimestamp ev)
                      (s3\<lparr>pools := (pools s3)(pbc_poolId ev \<mapsto>
                            pool\<lparr>pool_totalShares := pool_totalShares pool - scaleDown v 18\<rparr>)\<rparr>))
          else createPoolSnapshot (pbc_poolId ev) pool (ev_blockTimestamp ev)
                 (sB\<lparr>pools := (pools sB)(pbc_poolId ev \<mapsto> pool)\<rparr>))"
proof -
  let ?pid = "pbc_poolId ev"
  let ?tl = "pool_tokensList pool"
  let ?amounts = "pbc_deltas ev"
  let ?fees = "pbc_protocolFeeAmounts ev"
  let ?ts = "ev_blockTimestamp ev"
  define joinAmounts where "joinAmounts = map (\<lambda>j. Some (scaleDown (?amounts ! j)
                               (decimalsOf s ?pid (?tl ! j)))) [0..<length ?tl]"
  define join where "join = \<lparr>je_sender = pbc_liquidityProvider ev, je_type = ''Join'',
                              je_amounts = joinAmounts, je_pool = ?pid,
                              je_user = pbc_liquidityProvider ev,
                              je_timestamp = ?ts, je_tx = ev_txHash ev,
                              je_block = ev_blockNumber ev\<rparr>"
  define sA where "sA = s\<lparr>joinExits := (joinExits s)(ev_txHash ev @ showInt (ev_logIndex ev) \<mapsto> join)\<rparr>"
  have amounts: "joinAmountsLoop s ?pid ?amounts ?tl 0 (replicate (length ?amounts) None)
                   = Inr joinAmounts"
    using joinAmountsLoop_eq [OF pres, of 0 ?amounts "replicate (length ?amounts) None"] len
    by (simp add: joinAmounts_def)
  have saved: "Value_fromBigDecimalArray joinAmounts = Inr joinAmounts"
    by (auto simp add: Value_fromBigDecimalArray_def joinAmounts_def)
  have presA: "\<forall>a \<in> set ?tl. loadPoolToken sA ?pid a \<noteq> None"
    using pres by (simp add: sA_def loadPoolToken_def)
  obtain sB where balances: "joinBalancesLoop e ?pid ?amounts ?fees ?tl 0 sA = Inr sB"
    and frame: "sB = sA\<lparr>poolTokens := poolTokens sB, tokens := tokens sB\<rparr>"
    and each: "\<And>j. j < length ?tl \<Longrightarrow> \<exists>pt.
          loadPoolToken sA ?pid (?tl ! j) = Some pt
          \<and> loadPoolToken sB ?pid (?tl ! j) =
              Some (pt\<lparr>pt_balance := pt_balance pt
                      + tokenToDecimal (?amounts ! (0 + j) - ?fees ! (0 + j)) (pt_decimals pt)\<rparr>)
          \<and> tokens sB (?tl ! j) =
              Some ((tokenOrNew e sA (?tl ! j))\<lparr>tok_totalBalanceNotional :=
                      tok_totalBalanceNotional (tokenOrNew e sA (?tl ! j))
                      + tokenToDecimal (?amounts ! (0 + j) - ?fees ! (0 + j)) (pt_decimals pt)\<rparr>)"
    using joinBalancesLoop_effect [OF dist presA, of 0 ?amounts ?fees e] len by auto
  have tnA: "tokenOrNew e sA a = tokenOrNew e s a" for a
    by (rule tokenOrNew_tokens_cong) (simp add: sA_def)
  have loadA: "loadPoolToken sA ?pid a = loadPoolToken s ?pid a" for a
    by (simp add: sA_def loadPoolToken_def)
  have 1: "sB = s\<lparr>joinExits := (joinExits s)(ev_txHash ev @ showInt (ev_logIndex ev) \<mapsto> join),
             poolTokens := poolTokens sB, tokens := tokens sB\<rparr>"
    by (subst frame) (simp add: sA_def)
  have 2: "\<forall>j < length ?tl. \<exists>pt.
          loadPoolToken s ?pid (?tl ! j) = Some pt
          \<and> loadPoolToken sB ?pid (?tl ! j) =
              Some (pt\<lparr>pt_balance := pt_balance pt
                      + tokenToDecimal (?amounts ! j - ?fees ! j) (pt_decimals pt)\<rparr>)
          \<and> tokens sB (?tl ! j) =
              Some ((tokenOrNew e s (?tl ! j))\<lparr>tok_totalBalanceNotional :=
                      tok_totalBalanceNotional (tokenOrNew e s (?tl ! j))
                      + tokenToDecimal (?amounts ! j - ?fees ! j) (pt_decimals pt)\<rparr>)"
    using each by (simp add: tnA loadA)
  obtain v where pre: "preMintedLoop (pool_address pool) ?amounts ?tl 0 (0, 0) = Inr (v, scaleDown v 18)"
    and v1: "\<forall>k < length ?tl. ?tl ! k = pool_address pool \<longrightarrow> v = ?amounts ! k"
    and v2: "pool_address pool \<notin> set ?tl \<longrightarrow> v = 0"
  proof (cases "pool_address pool \<in> set ?tl")
    case True
    then obtain k where k: "k < length ?tl" "?tl ! k = pool_address pool"
      by (meson in_set_conv_nth)
    have "preMintedLoop (pool_address pool) ?amounts ?tl 0 (0, 0)
            = Inr (?amounts ! k, scaleDown (?amounts ! k) 18)"
      using preMintedLoop_found [OF dist k, of 0 ?amounts "(0, 0)"] len by simp
    moreover have "\<forall>k' < length ?tl. ?tl ! k' = pool_address pool \<longrightarrow> ?amounts ! k = ?amounts ! k'"
      using dist k by (metis nth_eq_iff_index_eq)
    ultimately show ?thesis
      using that True by blast
  next
    case False
    then have "preMintedLoop (pool_address pool) ?amounts ?tl 0 (0, 0) = Inr (0, scaleDown 0 18)"
      by (simp add: preMintedLoop_absent scaleDown_def)
    moreover have "\<forall>k < length ?tl. ?tl ! k = pool_address pool \<longrightarrow> 0 = ?amounts ! k"
      using False nth_mem by metis
    ultimately show ?thesis
      using that False by blast
  qed
  have liq: "andThen (updatePoolLiquidity ?pid bn ?ts (s3\<lparr>pools := (pools s3)(?pid \<mapsto> P)\<rparr>))
                 (\<lambda>(_, s5). Inr s5)
               = createPoolSnapshot ?pid P ?ts (s3\<lparr>pools := (pools s3)(?pid \<mapsto> P)\<rparr>)"
    for bn s3 P
    by (rule liquidity_refresh [OF _ t]) simp
  have 3: "handlePoolJoined e ev s =
         (if pool_poolType pool = Some (PoolType_StablePhantom e)
               \<or> isComposableStablePool e pool \<or> isManagedPool e pool
          then (case handleTransfer e
                       (mockTransfer ev (pool_address pool) (VAULT_ADDRESS e) (ZERO_ADDRESS e) v) sB of
                  Inl err \<Rightarrow> Inl err
                | Inr s3 \<Rightarrow>
                    createPoolSnapshot ?pid
                      (pool\<lparr>pool_totalShares := pool_totalShares pool - scaleDown v 18\<rparr>) ?ts
                      (s3\<lparr>pools := (pools s3)(?pid \<mapsto>
                            pool\<lparr>pool_totalShares := pool_totalShares pool - scaleDown v 18\<rparr>)\<rparr>))
          else createPoolSnapshot ?pid pool ?ts (sB\<lparr>pools := (pools sB)(?pid \<mapsto> pool)\<rparr>))"
    unfolding handlePoolJoined_def Let_def
    by (cases "handleTransfer e
                 (mockTransfer ev (pool_address pool) (VAULT_ADDRESS e) (ZERO_ADDRESS e) v) sB")
       (simp_all add: toI32_ok [OF t] andThen_simps pl amounts saved join_def [symmetric]
          sA_def [symmetric] balances pre liq)
  have "je_type join = ''Join''" "je_amounts join = joinAmounts"
    by (simp_all add: join_def)
  then show ?thesis
    using 1 2 3 v1 v2 unfolding joinAmounts_def by blast
qed

lemma env0_transfer_contract: "transfer_contract env0"
proof -
  have "\<exists>ps sh us ws. createUserEntity a s = s\<lparr>pools := ps, poolShares := sh, users := us, warnings := ws\<rparr>"
    for a and s :: store
    by (rule exI [of _ "pools s"], rule exI [of _ "poolShares s"],
        rule exI [of _ "users (createUserEntity a s)"], rule exI [of _ "warnings s"])
       (simp add: createUserEntity_def)
  then show ?thesis
    by (simp add: transfer_contract_def env0_def)
qed

lemma join_dispatch:
  "0 < sum_list (pbc_deltas ev) \<Longrightarrow> handleBalanceChange e ev s = handlePoolJoined e ev s"
  by (auto simp add: handleBalanceChange_def Let_def foldl_plus)


text \<open>
  C2, as the code has it. For a PoolBalanceChanged event with positive delta sum on a
  known pool whose tokens are distinct and all have PoolTokens, with one delta and one
  protocol fee amount per token, zero or not: the handler returns and each PoolToken
  balance has grown by \<open>toDecimal(deltas[i] - protocolFeeAmounts[i], decimals)\<close>. A Token
  entity that was stored keeps its other fields and its \<open>totalBalanceNotional\<close> has grown
  by the same amount; a Token that was absent is created with that amount. The JoinExit
  record of type Join holds the gross amounts \<open>toDecimal(deltas[i], decimals)\<close>.
\<close>

theorem join_balances_and_record:
  assumes tc: "transfer_contract e"
    and sum: "0 < sum_list (pbc_deltas ev)"
    and pl: "pools s (pbc_poolId ev) = Some pool"
    and dist: "distinct (pool_tokensList pool)"
    and pres: "\<forall>a \<in> set (pool_tokensList pool). loadPoolToken s (pbc_poolId ev) a \<noteq> None"
    and len: "length (pbc_deltas ev) = length (pool_tokensList pool)"
      "length (pbc_protocolFeeAmounts ev) = length (pool_tokensList pool)"
    and t: "- (2 ^ 31) \<le> ev_blockTimestamp ev" "ev_blockTimestamp ev < 2 ^ 31"
  shows "\<exists>s' join. handleBalanceChange e ev s = Inr s'
     \<and> joinExits s' (ev_txHash ev @ showInt (ev_logIndex ev)) = Some join
     \<and> je_type join = ''Join''
     \<and> length (je_amounts join) = length (pool_tokensList pool)
     \<and> (\<forall>j < length (pool_tokensList pool). \<exists>pt.
          loadPoolToken s (pbc_poolId ev) (pool_tokensList pool ! j) = Some pt
          \<and> loadPoolToken s' (pbc_poolId ev) (pool_tokensList pool ! j) =
              Some (pt\<lparr>pt_balance := pt_balance pt
                      + tokenToDecimal (pbc_deltas ev ! j - pbc_protocolFeeAmounts ev ! j)
                          (pt_decimals pt)\<rparr>)
          \<and> (\<forall>token. tokens s (pool_tokensList pool ! j) = Some token \<longrightarrow>
                tokens s' (pool_tokensList pool ! j) =
                  Some (token\<lparr>tok_totalBalanceNotional := tok_totalBalanceNotional token
                          + tokenToDecimal (pbc_deltas ev ! j - pbc_protocolFeeAmounts ev ! j)
                              (pt_decimals pt)\<rparr>))
          \<and> (tokens s (pool_tokensList pool ! j) = None \<longrightarrow>
                (\<exists>token'. tokens s' (pool_tokensList pool ! j) = Some token'
                    \<and> tok_address token' = pool_tokensList pool ! j
                    \<and> tok_totalBalanceNotional token' =
                        tokenToDecimal (pbc_deltas ev ! j - pbc_protocolFeeAmounts ev ! j)
                          (pt_decimals pt)))
          \<and> je_amounts join ! j = Some (scaleDown (pbc_deltas ev ! j) (pt_decimals pt)))"
proof -
  let ?pid = "pbc_poolId ev"
  let ?tl = "pool_tokensList pool"
  let ?ts = "ev_blockTimestamp ev"
  let ?id = "ev_txHash ev @ showInt (ev_logIndex ev)"
  obtain sB join v where
    frame: "sB = s\<lparr>joinExits := (joinExits s)(?id \<mapsto> join),
             poolTokens := poolTokens sB, tokens := tokens sB\<rparr>"
    and jt: "je_type join = ''Join''"
    and ja: "je_amounts join = map (\<lambda>j. Some (scaleDown (pbc_deltas ev ! j)
                               (decimalsOf s ?pid (?tl ! j)))) [0..<length ?tl]"
    and each: "\<forall>j < length ?tl. \<exists>pt.
          loadPoolToken s ?pid (?tl ! j) = Some pt
          \<and> loadPoolToken sB ?pid (?tl ! j) =
              Some (pt\<lparr>pt_balance := pt_balance pt
                      + tokenToDecimal (pbc_deltas ev ! j - pbc_protocolFeeAmounts ev ! j)
                          (pt_decimals pt)\<rparr>)
          \<and> tokens sB (?tl ! j) =
              Some ((tokenOrNew e s (?tl ! j))\<lparr>tok_totalBalanceNotional :=
                      tok_totalBalanceNotional (tokenOrNew e s (?tl ! j))
                      + tokenToDecimal (pbc_deltas ev ! j - pbc_protocolFeeAmounts ev ! j)
                          (pt_decimals pt)\<rparr>)"
    and run: "handlePoolJoined e ev s =
         (if pool_poolType pool = Some (PoolType_StablePhantom e)
               \<or> isComposableStablePool e pool \<or> isManagedPool e pool
          then (case handleTransfer e
                       (mockTransfer ev (pool_address pool) (VAULT_ADDRESS e) (ZERO_ADDRESS e) v) sB of
                  Inl err \<Rightarrow> Inl err
                | Inr s3 \<Rightarrow>
                    createPoolSnapshot ?pid
                      (pool\<lparr>pool_totalShares := pool_totalShares pool - scaleDown v 18\<rparr>) ?ts
                      (s3\<lparr>pools := (pools s3)(?pid \<mapsto>
                            pool\<lparr>pool_totalShares := pool_totalShares pool - scaleDown v 18\<rparr>)\<rparr>))
          else createPoolSnapshot ?pid pool ?ts (sB\<lparr>pools := (pools sB)(?pid \<mapsto> pool)\<rparr>))"
    using handlePoolJoined_run [OF pl dist pres len t, of e] by blast
  obtain ps sh us ws where tr: "handleTransfer e
        (mockTransfer ev (pool_address pool) (VAULT_ADDRESS e) (ZERO_ADDRESS e) v) sB
      = Inr (sB\<lparr>pools := ps, poolShares := sh, users := us, warnings := ws\<rparr>)"
    using tc unfolding transfer_contract_def by blast
  have presB: "\<forall>a \<in> set ?tl. loadPoolToken sB ?pid a \<noteq> None"
  proof
    fix a assume "a \<in> set ?tl"
    then obtain j where "j < length ?tl" "?tl ! j = a"
      by (meson in_set_conv_nth)
    then show "loadPoolToken sB ?pid a \<noteq> None"
      using each by fastforce
  qed
  have snap: "\<exists>s'. createPoolSnapshot ?pid P ?ts S = Inr s' \<and> poolTokens s' = poolTokens sB
          \<and> tokens s' = tokens sB \<and> joinExits s' = joinExits sB"
    if "pool_tokensList P = ?tl" "poolTokens S = poolTokens sB" "tokens S = tokens sB"
      "joinExits S = joinExits sB" for P S
  proof -
    have "\<forall>a \<in> set (pool_tokensList P). loadPoolToken S ?pid a \<noteq> None"
      using presB that(1,2) by (simp add: loadPoolToken_def)
    from createPoolSnapshot_eq [OF this, of ?ts] show ?thesis
      using that by simp
  qed
  have "\<exists>s'. handlePoolJoined e ev s = Inr s' \<and> poolTokens s' = poolTokens sB
          \<and> tokens s' = tokens sB \<and> joinExits s' = joinExits sB"
    unfolding run tr by (auto intro!: snap)
  then obtain s' where s': "handlePoolJoined e ev s = Inr s'" "poolTokens s' = poolTokens sB"
    "tokens s' = tokens sB" "joinExits s' = joinExits sB"
    by blast
  have jB: "joinExits sB ?id = Some join"
    by (subst frame) simp
  have 1: "handleBalanceChange e ev s = Inr s'"
    using s'(1) join_dispatch [OF sum] by simp
  have 2: "joinExits s' ?id = Some join"
    using jB s'(4) by simp
  have 3: "length (je_amounts join) = length ?tl"
    by (simp add: ja)
  have 4: "\<exists>pt. loadPoolToken s ?pid (?tl ! j) = Some pt
          \<and> loadPoolToken s' ?pid (?tl ! j) =
              Some (pt\<lparr>pt_balance := pt_balance pt
                      + tokenToDecimal (pbc_deltas ev ! j - pbc_protocolFeeAmounts ev ! j)
                          (pt_decimals pt)\<rparr>)
          \<and> (\<forall>token. tokens s (?tl ! j) = Some token \<longrightarrow>
                tokens s' (?tl ! j) =
                  Some (token\<lparr>tok_totalBalanceNotional := tok_totalBalanceNotional token
                          + tokenToDecimal (pbc_deltas ev ! j - pbc_protocolFeeAmounts ev ! j)
                              (pt_decimals pt)\<rparr>))
          \<and> (tokens s (?tl ! j) = None \<longrightarrow>
                (\<exists>token'. tokens s' (?tl ! j) = Some token'
                    \<and> tok_address token' = ?tl ! j
                    \<and> tok_totalBalanceNotional token' =
                        tokenToDecimal (pbc_deltas ev ! j - pbc_protocolFeeAmounts ev ! j)
                          (pt_decimals pt)))
          \<and> je_amounts join ! j = Some (scaleDown (pbc_deltas ev ! j) (pt_decimals pt))"
    if j: "j < length ?tl" for j
  proof -
    obtain pt where pt: "loadPoolToken s ?pid (?tl ! j) = Some pt"
      and ptB: "loadPoolToken sB ?pid (?tl ! j) =
              Some (pt\<lparr>pt_balance := pt_balance pt
                      + tokenToDecimal (pbc_deltas ev ! j - pbc_protocolFeeAmounts ev ! j)
                          (pt_decimals pt)\<rparr>)"
      and tkB: "tokens sB (?tl ! j) =
              Some ((tokenOrNew e s (?tl ! j))\<lparr>tok_totalBalanceNotional :=
                      tok_totalBalanceNotional (tokenOrNew e s (?tl ! j))
                      + tokenToDecimal (pbc_deltas ev ! j - pbc_protocolFeeAmounts ev ! j)
                          (pt_decimals pt)\<rparr>)"
      using each j by blast
    have "loadPoolToken s' ?pid (?tl ! j) = loadPoolToken sB ?pid (?tl ! j)"
      by (simp add: loadPoolToken_def s'(2))
    moreover have "je_amounts join ! j = Some (scaleDown (pbc_deltas ev ! j) (pt_decimals pt))"
      using j pt by (simp add: ja decimalsOf_def)
    moreover have "\<forall>token. tokens s (?tl ! j) = Some token \<longrightarrow>
                tokens s' (?tl ! j) =
                  Some (token\<lparr>tok_totalBalanceNotional := tok_totalBalanceNotional token
                          + tokenToDecimal (pbc_deltas ev ! j - pbc_protocolFeeAmounts ev ! j)
                              (pt_decimals pt)\<rparr>)"
      using tkB s'(3) by (simp add: tokenOrNew_Some)
    moreover have "tokens s (?tl ! j) = None \<longrightarrow>
                (\<exists>token'. tokens s' (?tl ! j) = Some token'
                    \<and> tok_address token' = ?tl ! j
                    \<and> tok_totalBalanceNotional token' =
                        tokenToDecimal (pbc_deltas ev ! j - pbc_protocolFeeAmounts ev ! j)
                          (pt_decimals pt))"
      using tkB s'(3) by (simp add: tokenOrNew_None)
    ultimately show ?thesis
      using pt ptB by simp
  qed
  show ?thesis
    using 1 2 jt 3 4 by blast
qed

theorem join_balances_and_record_witness:
  "(\<exists>s' join. handleBalanceChange env0 joinP storeP = Inr s'
     \<and> joinExits s' (''0xt1'' @ showInt 7) = Some join
     \<and> je_type join = ''Join'' \<and> je_amounts join = [Some 1, Some 2]
     \<and> map_option pt_balance (loadPoolToken s' ''0xpp01'' ''0xaa'') = Some 1
     \<and> map_option pt_balance (loadPoolToken s' ''0xpp01'' ''0xbb'') = Some 2
     \<and> map_option tok_totalBalanceNotional (tokens s' ''0xaa'') = Some 1
     \<and> map_option tok_totalBalanceNotional (tokens s' ''0xbb'') = Some 2)
   \<and> (\<exists>s'. handleBalanceChange env0 joinP storeT = Inr s'
     \<and> tokens s' ''0xaa'' = Some (tokenA\<lparr>tok_totalBalanceNotional := 11\<rparr>)
     \<and> map_option tok_totalBalanceNotional (tokens s' ''0xbb'') = Some 2)"
proof
  have tl: "pool_tokensList poolP = [''0xaa'', ''0xbb'']"
    by (simp add: poolP_def)
  show "\<exists>s' join. handleBalanceChange env0 joinP storeP = Inr s'
     \<and> joinExits s' (''0xt1'' @ showInt 7) = Some join
     \<and> je_type join = ''Join'' \<and> je_amounts join = [Some 1, Some 2]
     \<and> map_option pt_balance (loadPoolToken s' ''0xpp01'' ''0xaa'') = Some 1
     \<and> map_option pt_balance (loadPoolToken s' ''0xpp01'' ''0xbb'') = Some 2
     \<and> map_option tok_totalBalanceNotional (tokens s' ''0xaa'') = Some 1
     \<and> map_option tok_totalBalanceNotional (tokens s' ''0xbb'') = Some 2"
  proof -
    have "\<exists>s' join. handleBalanceChange env0 joinP storeP = Inr s'
       \<and> joinExits s' (ev_txHash joinP @ showInt (ev_logIndex joinP)) = Some join
       \<and> je_type join = ''Join''
       \<and> length (je_amounts join) = length (pool_tokensList poolP)
       \<and> (\<forall>j < length (pool_tokensList poolP). \<exists>pt.
            loadPoolToken storeP (pbc_poolId joinP) (pool_tokensList poolP ! j) = Some pt
            \<and> loadPoolToken s' (pbc_poolId joinP) (pool_tokensList poolP ! j) =
                Some (pt\<lparr>pt_balance := pt_balance pt
                        + tokenToDecimal (pbc_deltas joinP ! j - pbc_protocolFeeAmounts joinP ! j)
                            (pt_decimals pt)\<rparr>)
            \<and> (\<forall>token. tokens storeP (pool_tokensList poolP ! j) = Some token \<longrightarrow>
                  tokens s' (pool_tokensList poolP ! j) =
                    Some (token\<lparr>tok_totalBalanceNotional := tok_totalBalanceNotional token
                            + tokenToDecimal (pbc_deltas joinP ! j - pbc_protocolFeeAmounts joinP ! j)
                                (pt_decimals pt)\<rparr>))
            \<and> (tokens storeP (pool_tokensList poolP ! j) = None \<longrightarrow>
                  (\<exists>token'. tokens s' (pool_tokensList poolP ! j) = Some token'
                      \<and> tok_address token' = pool_tokensList poolP ! j
                      \<and> tok_totalBalanceNotional token' =
                          tokenToDecimal (pbc_deltas joinP ! j - pbc_protocolFeeAmounts joinP ! j)
                            (pt_decimals pt)))
            \<and> je_amounts join ! j = Some (scaleDown (pbc_deltas joinP ! j) (pt_decimals pt)))"
      by (rule join_balances_and_record [where e = env0 and ev = joinP and s = storeP and pool = poolP,
            OF env0_transfer_contract])
         (simp_all add: fixture_defs storeT_def loadPoolToken_def getPoolTokenId_def)
    then obtain s' join where run: "handleBalanceChange env0 joinP storeP = Inr s'"
      and je: "joinExits s' (ev_txHash joinP @ showInt (ev_logIndex joinP)) = Some join"
        "je_type join = ''Join''"
      and len: "length (je_amounts join) = length (pool_tokensList poolP)"
      and each: "\<And>j. j < length (pool_tokensList poolP) \<Longrightarrow> \<exists>pt.
            loadPoolToken storeP (pbc_poolId joinP) (pool_tokensList poolP ! j) = Some pt
            \<and> loadPoolToken s' (pbc_poolId joinP) (pool_tokensList poolP ! j) =
                Some (pt\<lparr>pt_balance := pt_balance pt
                        + tokenToDecimal (pbc_deltas joinP ! j - pbc_protocolFeeAmounts joinP ! j)
                            (pt_decimals pt)\<rparr>)
            \<and> (\<forall>token. tokens storeP (pool_tokensList poolP ! j) = Some token \<longrightarrow>
                  tokens s' (pool_tokensList poolP ! j) =
                    Some (token\<lparr>tok_totalBalanceNotional := tok_totalBalanceNotional token
                            + tokenToDecimal (pbc_deltas joinP ! j - pbc_protocolFeeAmounts joinP ! j)
                                (pt_decimals pt)\<rparr>))
            \<and> (tokens storeP (pool_tokensList poolP ! j) = None \<longrightarrow>
                  (\<exists>token'. tokens s' (pool_tokensList poolP ! j) = Some token'
                      \<and> tok_address token' = pool_tokensList poolP ! j
                      \<and> tok_totalBalanceNotional token' =
                          tokenToDecimal (pbc_deltas joinP ! j - pbc_protocolFeeAmounts joinP ! j)
                            (pt_decimals pt)))
            \<and> je_amounts join ! j = Some (scaleDown (pbc_deltas joinP ! j) (pt_decimals pt))"
      by blast
    have a: "map_option pt_balance (loadPoolToken s' ''0xpp01'' ''0xaa'') = Some 1"
      "map_option tok_totalBalanceNotional (tokens s' ''0xaa'') = Some 1"
      "je_amounts join ! 0 = Some 1"
      using each [of 0]
      by (auto simp add: fixture_defs loadPoolToken_def getPoolTokenId_def tokenToDecimal_def
          scaleDown_def u8_def)
    have b: "map_option pt_balance (loadPoolToken s' ''0xpp01'' ''0xbb'') = Some 2"
      "map_option tok_totalBalanceNotional (tokens s' ''0xbb'') = Some 2"
      "je_amounts join ! 1 = Some 2"
      using each [of 1]
      by (auto simp add: fixture_defs loadPoolToken_def getPoolTokenId_def tokenToDecimal_def
          scaleDown_def u8_def)
    have "je_amounts join = [Some 1, Some 2]"
      using len a(3) b(3)
      by (cases "je_amounts join"; cases "tl (je_amounts join)") (auto simp add: tl)
    then show ?thesis
      using run je a b by (intro exI [of _ s'] exI [of _ join]) (simp add: joinP_def)
  qed
next
  show "\<exists>s'. handleBalanceChange env0 joinP storeT = Inr s'
     \<and> tokens s' ''0xaa'' = Some (tokenA\<lparr>tok_totalBalanceNotional := 11\<rparr>)
     \<and> map_option tok_totalBalanceNotional (tokens s' ''0xbb'') = Some 2"
  proof -
    have "\<exists>s' join. handleBalanceChange env0 joinP storeT = Inr s'
       \<and> joinExits s' (ev_txHash joinP @ showInt (ev_logIndex joinP)) = Some join
       \<and> je_type join = ''Join''
       \<and> length (je_amounts join) = length (pool_tokensList poolP)
       \<and> (\<forall>j < length (pool_tokensList poolP). \<exists>pt.
            loadPoolToken storeT (pbc_poolId joinP) (pool_tokensList poolP ! j) = Some pt
            \<and> loadPoolToken s' (pbc_poolId joinP) (pool_tokensList poolP ! j) =
                Some (pt\<lparr>pt_balance := pt_balance pt
                        + tokenToDecimal (pbc_deltas joinP ! j - pbc_protocolFeeAmounts joinP ! j)
                            (pt_decimals pt)\<rparr>)
            \<and> (\<forall>token. tokens storeT (pool_tokensList poolP ! j) = Some token \<longrightarrow>
                  tokens s' (pool_tokensList poolP ! j) =
                    Some (token\<lparr>tok_totalBalanceNotional := tok_totalBalanceNotional token
                            + tokenToDecimal (pbc_deltas joinP ! j - pbc_protocolFeeAmounts joinP ! j)
                                (pt_decimals pt)\<rparr>))
            \<and> (tokens storeT (pool_tokensList poolP ! j) = None \<longrightarrow>
                  (\<exists>token'. tokens s' (pool_tokensList poolP ! j) = Some token'
                      \<and> tok_address token' = pool_tokensList poolP ! j
                      \<and> tok_totalBalanceNotional token' =
                          tokenToDecimal (pbc_deltas joinP ! j - pbc_protocolFeeAmounts joinP ! j)
                            (pt_decimals pt)))
            \<and> je_amounts join ! j = Some (scaleDown (pbc_deltas joinP ! j) (pt_decimals pt)))"
      by (rule join_balances_and_record [where e = env0 and ev = joinP and s = storeT and pool = poolP,
            OF env0_transfer_contract])
         (simp_all add: fixture_defs storeT_def loadPoolToken_def getPoolTokenId_def)
    then obtain s' join where run: "handleBalanceChange env0 joinP storeT = Inr s'"
      and je: "joinExits s' (ev_txHash joinP @ showInt (ev_logIndex joinP)) = Some join"
        "je_type join = ''Join''"
      and len: "length (je_amounts join) = length (pool_tokensList poolP)"
      and each: "\<And>j. j < length (pool_tokensList poolP) \<Longrightarrow> \<exists>pt.
            loadPoolToken storeT (pbc_poolId joinP) (pool_tokensList poolP ! j) = Some pt
            \<and> loadPoolToken s' (pbc_poolId joinP) (pool_tokensList poolP ! j) =
                Some (pt\<lparr>pt_balance := pt_balance pt
                        + tokenToDecimal (pbc_deltas joinP ! j - pbc_protocolFeeAmounts joinP ! j)
                            (pt_decimals pt)\<rparr>)
            \<and> (\<forall>token. tokens storeT (pool_tokensList poolP ! j) = Some token \<longrightarrow>
                  tokens s' (pool_tokensList poolP ! j) =
                    Some (token\<lparr>tok_totalBalanceNotional := tok_totalBalanceNotional token
                            + tokenToDecimal (pbc_deltas joinP ! j - pbc_protocolFeeAmounts joinP ! j)
                                (pt_decimals pt)\<rparr>))
            \<and> (tokens storeT (pool_tokensList poolP ! j) = None \<longrightarrow>
                  (\<exists>token'. tokens s' (pool_tokensList poolP ! j) = Some token'
                      \<and> tok_address token' = pool_tokensList poolP ! j
                      \<and> tok_totalBalanceNotional token' =
                          tokenToDecimal (pbc_deltas joinP ! j - pbc_protocolFeeAmounts joinP ! j)
                            (pt_decimals pt)))
            \<and> je_amounts join ! j = Some (scaleDown (pbc_deltas joinP ! j) (pt_decimals pt))"
      by blast
    have "tokens s' ''0xaa'' = Some (tokenA\<lparr>tok_totalBalanceNotional := 11\<rparr>)"
      using each [of 0]
      by (auto simp add: fixture_defs storeT_def tokenA_def loadPoolToken_def getPoolTokenId_def
          tokenToDecimal_def u8_def)
    moreover have "map_option tok_totalBalanceNotional (tokens s' ''0xbb'') = Some 2"
      using each [of 1]
      by (auto simp add: fixture_defs storeT_def loadPoolToken_def getPoolTokenId_def
          tokenToDecimal_def u8_def)
    ultimately show ?thesis
      using run by blast
  qed
qed

text \<open>
  With the fee amounts left out of the event, the join of the scenario fails at the first
  read of \<open>protocolFeeAmounts[i]\<close>.
\<close>

theorem join_omitted_fees_counterexample:
  "handleBalanceChange env0 (joinP\<lparr>pbc_protocolFeeAmounts := []\<rparr>) storeP
     = Inl (Trap ''Index out of range'')"
  by (simp add: handleBalanceChange_def handlePoolJoined_def fixture_defs eval_defs)

text \<open>
  C1. For a join on a pool behind the premint gate (StablePhantom, composable stable or
  managed) whose own address is at index \<open>k\<close> of \<open>tokensList\<close>: the outcome of the
  handler is the outcome of the share-transfer handler on the mock event from the vault
  address to the zero address with value \<open>deltas[k]\<close>, called on the store \<open>sB\<close> that
  holds the JoinExit record and the new balances and is otherwise the store before the
  event, followed by the liquidity refresh; and whatever that handler writes, the pool
  is saved with \<open>totalShares\<close> lowered by \<open>deltas[k]\<close> at 18 decimals.
\<close>

theorem join_premint_dispatch:
  assumes sum: "0 < sum_list (pbc_deltas ev)"
    and pl: "pools s (pbc_poolId ev) = Some pool"
    and g: "pool_poolType pool = Some (PoolType_StablePhantom e)
              \<or> isComposableStablePool e pool \<or> isManagedPool e pool"
    and k: "k < length (pool_tokensList pool)" "pool_tokensList pool ! k = pool_address pool"
    and dist: "distinct (pool_tokensList pool)"
    and pres: "\<forall>a \<in> set (pool_tokensList pool). loadPoolToken s (pbc_poolId ev) a \<noteq> None"
    and len: "length (pbc_deltas ev) = length (pool_tokensList pool)"
      "length (pbc_protocolFeeAmounts ev) = length (pool_tokensList pool)"
    and t: "- (2 ^ 31) \<le> ev_blockTimestamp ev" "ev_blockTimestamp ev < 2 ^ 31"
  shows "\<exists>sB join.
     sB = s\<lparr>joinExits := (joinExits s)(ev_txHash ev @ showInt (ev_logIndex ev) \<mapsto> join),
             poolTokens := poolTokens sB, tokens := tokens sB\<rparr>
     \<and> handleBalanceChange e ev s =
         (case handleTransfer e
                 \<lparr>ev_logIndex = ev_logIndex ev, ev_txHash = ev_txHash ev, ev_txFrom = ev_txFrom ev,
                  ev_blockNumber = ev_blockNumber ev, ev_blockTimestamp = ev_blockTimestamp ev,
                  tr_address = pool_address pool, tr_from = VAULT_ADDRESS e,
                  tr_to = ZERO_ADDRESS e, tr_value = pbc_deltas ev ! k\<rparr> sB of
            Inl err \<Rightarrow> Inl err
          | Inr s3 \<Rightarrow>
              createPoolSnapshot (pbc_poolId ev)
                (pool\<lparr>pool_totalShares :=
                   pool_totalShares pool - of_int (pbc_deltas ev ! k) / 10 ^ 18\<rparr>)
                (ev_blockTimestamp ev)
                (s3\<lparr>pools := (pools s3)(pbc_poolId ev \<mapsto>
                      pool\<lparr>pool_totalShares :=
                         pool_totalShares pool - of_int (pbc_deltas ev ! k) / 10 ^ 18\<rparr>)\<rparr>))
     \<and> (\<forall>s'. handleBalanceChange e ev s = Inr s' \<longrightarrow>
           pools s' (pbc_poolId ev) =
             Some (pool\<lparr>pool_totalShares :=
                     pool_totalShares pool - of_int (pbc_deltas ev ! k) / 10 ^ 18\<rparr>))
     \<and> (transfer_contract e \<longrightarrow> (\<exists>s'. handleBalanceChange e ev s = Inr s'))"
proof -
  let ?pid = "pbc_poolId ev"
  let ?tl = "pool_tokensList pool"
  let ?ts = "ev_blockTimestamp ev"
  let ?id = "ev_txHash ev @ showInt (ev_logIndex ev)"
  let ?P = "pool\<lparr>pool_totalShares := pool_totalShares pool - of_int (pbc_deltas ev ! k) / 10 ^ 18\<rparr>"
  let ?T = "\<lparr>ev_logIndex = ev_logIndex ev, ev_txHash = ev_txHash ev, ev_txFrom = ev_txFrom ev,
                  ev_blockNumber = ev_blockNumber ev, ev_blockTimestamp = ev_blockTimestamp ev,
                  tr_address = pool_address pool, tr_from = VAULT_ADDRESS e,
                  tr_to = ZERO_ADDRESS e, tr_value = pbc_deltas ev ! k\<rparr>"
  obtain sB join v where
    frame: "sB = s\<lparr>joinExits := (joinExits s)(?id \<mapsto> join),
             poolTokens := poolTokens sB, tokens := tokens sB\<rparr>"
    and each: "\<forall>j < length ?tl. \<exists>pt.
          loadPoolToken s ?pid (?tl ! j) = Some pt
          \<and> loadPoolToken sB ?pid (?tl ! j) =
              Some (pt\<lparr>pt_balance := pt_balance pt
                      + tokenToDecimal (pbc_deltas ev ! j - pbc_protocolFeeAmounts ev ! j)
                          (pt_decimals pt)\<rparr>)
          \<and> tokens sB (?tl ! j) =
              Some ((tokenOrNew e s (?tl ! j))\<lparr>tok_totalBalanceNotional :=
                      tok_totalBalanceNotional (tokenOrNew e s (?tl ! j))
                      + tokenToDecimal (pbc_deltas ev ! j - pbc_protocolFeeAmounts ev ! j)
                          (pt_decimals pt)\<rparr>)"
    and v: "\<forall>k < length ?tl. ?tl ! k = pool_address pool \<longrightarrow> v = pbc_deltas ev ! k"
    and run: "handlePoolJoined e ev s =
         (if pool_poolType pool = Some (PoolType_StablePhantom e)
               \<or> isComposableStablePool e pool \<or> isManagedPool e pool
          then (case handleTransfer e
                       (mockTransfer ev (pool_address pool) (VAULT_ADDRESS e) (ZERO_ADDRESS e) v) sB of
                  Inl err \<Rightarrow> Inl err
                | Inr s3 \<Rightarrow>
                    createPoolSnapshot ?pid
                      (pool\<lparr>pool_totalShares := pool_totalShares pool - scaleDown v 18\<rparr>) ?ts
                      (s3\<lparr>pools := (pools s3)(?pid \<mapsto>
                            pool\<lparr>pool_totalShares := pool_totalShares pool - scaleDown v 18\<rparr>)\<rparr>))
          else createPoolSnapshot ?pid pool ?ts (sB\<lparr>pools := (pools sB)(?pid \<mapsto> pool)\<rparr>))"
    using handlePoolJoined_run [OF pl dist pres len t, of e] by blast
  have vk: "v = pbc_deltas ev ! k"
    using v k by blast
  have sd: "scaleDown (pbc_deltas ev ! k) 18 = of_int (pbc_deltas ev ! k) / 10 ^ 18"
    by (simp add: scaleDown_def u8_def)
  have T: "mockTransfer ev (pool_address pool) (VAULT_ADDRESS e) (ZERO_ADDRESS e)
             (pbc_deltas ev ! k) = ?T"
    by (simp add: mockTransfer_def)
  have run': "handleBalanceChange e ev s =
         (case handleTransfer e ?T sB of
            Inl err \<Rightarrow> Inl err
          | Inr s3 \<Rightarrow> createPoolSnapshot ?pid ?P ?ts (s3\<lparr>pools := (pools s3)(?pid \<mapsto> ?P)\<rparr>))"
    using g by (simp only: join_dispatch [OF sum] run T if_True vk sd)
  have after: "\<forall>s'. handleBalanceChange e ev s = Inr s' \<longrightarrow> pools s' ?pid = Some ?P"
  proof (intro allI impI)
    fix s' assume ok: "handleBalanceChange e ev s = Inr s'"
    then obtain s3 where "handleTransfer e ?T sB = Inr s3"
      and "createPoolSnapshot ?pid ?P ?ts (s3\<lparr>pools := (pools s3)(?pid \<mapsto> ?P)\<rparr>) = Inr s'"
      unfolding run' by (cases "handleTransfer e ?T sB") simp_all
    from createPoolSnapshot_frame(1) [OF this(2)]
    have "pools s' = (pools s3)(?pid \<mapsto> ?P)"
      by (metis (no_types, lifting) store.select_convs(1) store.surjective store.update_convs(1)
          store.update_convs(8))
    then show "pools s' ?pid = Some ?P"
      by simp
  qed
  have presB: "\<forall>a \<in> set ?tl. loadPoolToken sB ?pid a \<noteq> None"
  proof
    fix a assume "a \<in> set ?tl"
    then obtain j where "j < length ?tl" "?tl ! j = a"
      by (meson in_set_conv_nth)
    then show "loadPoolToken sB ?pid a \<noteq> None"
      using each by fastforce
  qed
  have total: "transfer_contract e \<longrightarrow> (\<exists>s'. handleBalanceChange e ev s = Inr s')"
  proof
    assume "transfer_contract e"
    then obtain ps sh us ws where tr: "handleTransfer e ?T sB
        = Inr (sB\<lparr>pools := ps, poolShares := sh, users := us, warnings := ws\<rparr>)"
      unfolding transfer_contract_def by blast
    let ?S = "(sB\<lparr>pools := ps, poolShares := sh, users := us, warnings := ws\<rparr>)
                \<lparr>pools := (pools (sB\<lparr>pools := ps, poolShares := sh, users := us, warnings := ws\<rparr>))
                   (?pid \<mapsto> ?P)\<rparr>"
    have "\<forall>a \<in> set (pool_tokensList ?P). loadPoolToken ?S ?pid a \<noteq> None"
      using presB by (simp add: loadPoolToken_def)
    from createPoolSnapshot_eq [OF this, of ?ts]
    show "\<exists>s'. handleBalanceChange e ev s = Inr s'"
      unfolding run' tr by simp
  qed
  show ?thesis
    using frame run' after total by blast
qed

theorem join_premint_dispatch_witness:
  "map_option pool_totalShares (poolAfter (handleBalanceChange env0 joinC storeC) ''0xcc01'') = Some 5
   \<and> map_sum id users (handleBalanceChange env0 joinC storeC) = Inr {''0x00''}"
proof -
  let ?P = "poolC\<lparr>pool_totalShares := pool_totalShares poolC - of_int (pbc_deltas joinC ! 0) / 10 ^ 18\<rparr>"
  have "\<exists>sB join.
     sB = storeC\<lparr>joinExits := (joinExits storeC)(ev_txHash joinC @ showInt (ev_logIndex joinC) \<mapsto> join),
             poolTokens := poolTokens sB, tokens := tokens sB\<rparr>
     \<and> handleBalanceChange env0 joinC storeC =
         (case handleTransfer env0
                 \<lparr>ev_logIndex = ev_logIndex joinC, ev_txHash = ev_txHash joinC,
                  ev_txFrom = ev_txFrom joinC, ev_blockNumber = ev_blockNumber joinC,
                  ev_blockTimestamp = ev_blockTimestamp joinC,
                  tr_address = pool_address poolC, tr_from = VAULT_ADDRESS env0,
                  tr_to = ZERO_ADDRESS env0, tr_value = pbc_deltas joinC ! 0\<rparr> sB of
            Inl err \<Rightarrow> Inl err
          | Inr s3 \<Rightarrow>
              createPoolSnapshot (pbc_poolId joinC) ?P (ev_blockTimestamp joinC)
                (s3\<lparr>pools := (pools s3)(pbc_poolId joinC \<mapsto> ?P)\<rparr>))
     \<and> (\<forall>s'. handleBalanceChange env0 joinC storeC = Inr s' \<longrightarrow>
           pools s' (pbc_poolId joinC) = Some ?P)
     \<and> (transfer_contract env0 \<longrightarrow> (\<exists>s'. handleBalanceChange env0 joinC storeC = Inr s'))"
    by (rule join_premint_dispatch [where e = env0 and ev = joinC and s = storeC and pool = poolC
          and k = 0])
       (simp_all add: fixture_defs poolC_def storeC_def joinC_def loadPoolToken_def
          getPoolTokenId_def)
  then obtain sB join where
    frame: "sB = storeC\<lparr>joinExits := (joinExits storeC)
                (ev_txHash joinC @ showInt (ev_logIndex joinC) \<mapsto> join),
             poolTokens := poolTokens sB, tokens := tokens sB\<rparr>"
    and run: "handleBalanceChange env0 joinC storeC =
         (case handleTransfer env0
                 \<lparr>ev_logIndex = ev_logIndex joinC, ev_txHash = ev_txHash joinC,
                  ev_txFrom = ev_txFrom joinC, ev_blockNumber = ev_blockNumber joinC,
                  ev_blockTimestamp = ev_blockTimestamp joinC,
                  tr_address = pool_address poolC, tr_from = VAULT_ADDRESS env0,
                  tr_to = ZERO_ADDRESS env0, tr_value = pbc_deltas joinC ! 0\<rparr> sB of
            Inl err \<Rightarrow> Inl err
          | Inr s3 \<Rightarrow>
              createPoolSnapshot (pbc_poolId joinC) ?P (ev_blockTimestamp joinC)
                (s3\<lparr>pools := (pools s3)(pbc_poolId joinC \<mapsto> ?P)\<rparr>))"
    and after: "\<forall>s'. handleBalanceChange env0 joinC storeC = Inr s' \<longrightarrow>
           pools s' (pbc_poolId joinC) = Some ?P"
    and total: "transfer_contract env0 \<longrightarrow> (\<exists>s'. handleBalanceChange env0 joinC storeC = Inr s')"
    by blast
  obtain s' where ok: "handleBalanceChange env0 joinC storeC = Inr s'"
    using total env0_transfer_contract by blast
  have usersB: "users sB = {}"
    by (subst frame) (simp add: storeC_def emptyStore_def)
  let ?X = "(createUserEntity ''0x00'' sB)\<lparr>pools := (pools (createUserEntity ''0x00'' sB))
                 (pbc_poolId joinC \<mapsto> ?P)\<rparr>"
  have "createPoolSnapshot (pbc_poolId joinC) ?P (ev_blockTimestamp joinC) ?X = Inr s'"
    using ok unfolding run by (simp add: env0_def)
  from createPoolSnapshot_frame(1) [OF this] have "users s' = users ?X"
    by (metis (no_types, lifting) store.select_convs(5) store.surjective store.update_convs(8))
  then have "users s' = {''0x00''}"
    using usersB by (simp add: createUserEntity_def)
  moreover have "pools s' ''0xcc01'' = Some ?P"
    using after ok by (simp add: joinC_def)
  ultimately show ?thesis
    using ok by (simp add: poolAfter_def joinC_def poolC_def)
qed

end
